theory Spec2Isabelle
  imports Complex_Main
begin

section \<open>Numbers and vectors\<close>

text \<open>
  The game is one JavaScript module, \<^verbatim>\<open>src/main.js\<close>, with a GLSL fragment shader
  in a string. JavaScript numbers and GLSL floats are modelled as \<^typ>\<open>real\<close>:
  arithmetic is exact, rounding and NaN are not modelled. \<^verbatim>\<open>Infinity\<close>, which
  \<^verbatim>\<open>intersectUVSquare\<close> uses for its initial bounds, is modelled by the type
  \<open>xreal\<close> below.

  A \<^verbatim>\<open>THREE.Vector2\<close> is a pair, a \<^verbatim>\<open>THREE.Vector3\<close> a triple. The vector
  operations are those of three.js: \<^verbatim>\<open>length\<close> is \<^verbatim>\<open>sqrt(x*x + y*y)\<close>,
  \<^verbatim>\<open>normalize\<close> is \<^verbatim>\<open>divideScalar(length() || 1)\<close> (the zero vector stays zero),
  \<^verbatim>\<open>divideScalar(s)\<close> is \<^verbatim>\<open>multiplyScalar(1 / s)\<close>,
  \<^verbatim>\<open>distanceTo\<close> is the root of \<^verbatim>\<open>distanceToSquared\<close>, and
  \<^verbatim>\<open>clampScalar(lo, hi)\<close> is \<^verbatim>\<open>max(lo, min(hi, x))\<close> on each component.
\<close>

type_synonym vec2 = "real \<times> real"

type_synonym vec3 = "real \<times> real \<times> real"

definition subVectors :: "vec2 \<Rightarrow> vec2 \<Rightarrow> vec2" where
  "subVectors a b = (fst a - fst b, snd a - snd b)"

definition addVectors :: "vec2 \<Rightarrow> vec2 \<Rightarrow> vec2" where
  "addVectors a b = (fst a + fst b, snd a + snd b)"

definition multiplyScalar :: "vec2 \<Rightarrow> real \<Rightarrow> vec2" where
  "multiplyScalar v s = (fst v * s, snd v * s)"

definition vlength :: "vec2 \<Rightarrow> real" where
  "vlength v = sqrt (fst v * fst v + snd v * snd v)"

definition lengthSq :: "vec2 \<Rightarrow> real" where
  "lengthSq v = fst v * fst v + snd v * snd v"

definition vnormalize :: "vec2 \<Rightarrow> vec2" where
  "vnormalize v = multiplyScalar v (1 / (if vlength v = 0 then 1 else vlength v))"

definition distanceTo :: "vec2 \<Rightarrow> vec2 \<Rightarrow> real" where
  "distanceTo a b =
     (let dx = fst a - fst b; dy = snd a - snd b in sqrt (dx * dx + dy * dy))"

definition clampScalar :: "real \<Rightarrow> real \<Rightarrow> vec2 \<Rightarrow> vec2" where
  "clampScalar lo hi v = (max lo (min hi (fst v)), max lo (min hi (snd v)))"

definition dot :: "vec2 \<Rightarrow> vec2 \<Rightarrow> real" where
  "dot a b = fst a * fst b + snd a * snd b"

definition inUnitSquare :: "vec2 \<Rightarrow> bool" where
  "inUnitSquare p = (0 \<le> fst p \<and> fst p \<le> 1 \<and> 0 \<le> snd p \<and> snd p \<le> 1)"

section \<open>The fragment shader\<close>

text \<open>
  The uniforms of the \<^verbatim>\<open>ShaderMaterial\<close> of a zombie or of a sliced piece. The
  texture is a handle (the index of an animation frame).
\<close>

record uniforms =
  uTexture :: nat
  uSliceStart :: vec2
  uSliceEnd :: vec2
  uSideToKeep :: real

text \<open>
  GLSL's \<^verbatim>\<open>normalize(v)\<close> is \<^verbatim>\<open>v / length(v)\<close>. The shader calls it only in
  the branch where \<^verbatim>\<open>distance(uSliceStart, uSliceEnd)\<close> is at least 0.0001, so the
  vector is never zero there.
\<close>

definition glslNormalize :: "vec2 \<Rightarrow> vec2" where
  "glslNormalize v = (fst v / vlength v, snd v / vlength v)"

text \<open>
  The vector \<^verbatim>\<open>normal\<close> of the shader and its value \<^verbatim>\<open>side\<close>, the signed
  distance of the pixel from the line.
\<close>

definition shaderNormal :: "vec2 \<Rightarrow> vec2 \<Rightarrow> vec2" where
  "shaderNormal sliceStart sliceEnd =
     (let lineVec = subVectors sliceEnd sliceStart
      in glslNormalize (- snd lineVec, fst lineVec))"

definition shaderSide :: "vec2 \<Rightarrow> vec2 \<Rightarrow> vec2 \<Rightarrow> real" where
  "shaderSide sliceStart sliceEnd vUv =
     (let normal = shaderNormal sliceStart sliceEnd;
          pointVec = subVectors vUv sliceStart
      in dot pointVec normal)"

text \<open>
  The slicing block of \<^verbatim>\<open>main()\<close>: \<open>True\<close> when it reaches a \<^verbatim>\<open>discard\<close>.
\<close>

definition sliceDiscards :: "uniforms \<Rightarrow> vec2 \<Rightarrow> bool" where
  "sliceDiscards u vUv =
     (if uSideToKeep u \<noteq> 0 then
        (if distanceTo (uSliceStart u) (uSliceEnd u) < 0.0001 then uSideToKeep u > 0
         else shaderSide (uSliceStart u) (uSliceEnd u) vUv * uSideToKeep u < 0)
      else False)"

text \<open>
  The whole shader, as the predicate "this pixel is drawn". \<open>alpha\<close> gives the alpha
  channel of the sampled texture at a UV point.
\<close>

definition fragmentShader :: "(vec2 \<Rightarrow> real) \<Rightarrow> uniforms \<Rightarrow> vec2 \<Rightarrow> bool" where
  "fragmentShader alpha u vUv =
     (if sliceDiscards u vUv then False
      else if alpha vUv < 0.1 then False
      else True)"

text \<open>The uniforms \<^verbatim>\<open>createSlicedMesh(sideToKeep)\<close> gives a piece.\<close>

definition pieceUniforms :: "nat \<Rightarrow> vec2 \<Rightarrow> vec2 \<Rightarrow> real \<Rightarrow> uniforms" where
  "pieceUniforms texture startUV endUV sideToKeep =
     \<lparr>uTexture = texture, uSliceStart = startUV, uSliceEnd = endUV, uSideToKeep = sideToKeep\<rparr>"

text \<open>A UV point lies on the infinite line through two points when the cross product vanishes.\<close>

definition onCutLine :: "vec2 \<Rightarrow> vec2 \<Rightarrow> vec2 \<Rightarrow> bool" where
  "onCutLine a b p =
     ((fst b - fst a) * (snd p - snd a) - (snd b - snd a) * (fst p - fst a) = 0)"

section \<open>Line-square intersection\<close>

datatype xreal = NegInf | Fin real | PosInf

fun xless :: "xreal \<Rightarrow> xreal \<Rightarrow> bool" where
  "xless NegInf NegInf = False"
| "xless NegInf _ = True"
| "xless (Fin a) (Fin b) = (a < b)"
| "xless (Fin a) PosInf = True"
| "xless (Fin a) NegInf = False"
| "xless PosInf _ = False"

definition xmax :: "xreal \<Rightarrow> xreal \<Rightarrow> xreal" where
  "xmax a b = (if xless a b then b else a)"

definition xmin :: "xreal \<Rightarrow> xreal \<Rightarrow> xreal" where
  "xmin a b = (if xless b a then b else a)"

text \<open>
  One axis pass of \<^verbatim>\<open>intersectUVSquare\<close> for a direction component that is not
  near zero: the two crossing times, sorted, tighten the interval.
\<close>

definition slab :: "real \<Rightarrow> real \<Rightarrow> xreal \<times> xreal \<Rightarrow> xreal \<times> xreal" where
  "slab s d tm =
     (let t1 = (0 - s) / d; t2 = (1 - s) / d;
          lo = (if t1 > t2 then t2 else t1);
          hi = (if t1 > t2 then t1 else t2)
      in (xmax (fst tm) (Fin lo), xmin (snd tm) (Fin hi)))"

text \<open>
  \<^verbatim>\<open>intersectUVSquare(startPoint, direction)\<close>; \<^verbatim>\<open>null\<close> is \<open>None\<close>. An infinite
  intersection time never reaches the last line: it is below \<^verbatim>\<open>1e-6\<close> or above
  \<^verbatim>\<open>1e6\<close> and returns \<^verbatim>\<open>null\<close> before.
\<close>

definition intersectUVSquare :: "vec2 \<Rightarrow> vec2 \<Rightarrow> vec2 option" where
  "intersectUVSquare startPoint direction =
     (let tm0 = (NegInf, PosInf) in
      if \<bar>fst direction\<bar> < 1 / 1000000 \<and> (fst startPoint < 0 \<or> fst startPoint > 1) then None
      else
        let tm1 = (if \<bar>fst direction\<bar> < 1 / 1000000 then tm0
                   else slab (fst startPoint) (fst direction) tm0) in
        if \<bar>snd direction\<bar> < 1 / 1000000 \<and> (snd startPoint < 0 \<or> snd startPoint > 1) then None
        else
          let tm2 = (if \<bar>snd direction\<bar> < 1 / 1000000 then tm1
                     else slab (snd startPoint) (snd direction) tm1);
              tMin = fst tm2; tMax = snd tm2 in
          if xless tMax tMin \<or> xless tMax (Fin (1 / 1000000)) then None
          else
            let tIntersection = (if \<not> xless tMin (Fin (1 / 1000000)) then tMin else tMax) in
            if xless tIntersection (Fin (1 / 1000000)) \<or> xless (Fin 1000000) tIntersection
            then None
            else (case tIntersection of
                    Fin t \<Rightarrow> Some (addVectors startPoint (multiplyScalar direction t))
                  | _ \<Rightarrow> None))"

text \<open>A point on the boundary of the unit square: one coordinate is 0 or 1, the other in [0,1].\<close>

definition onBoundary :: "vec2 \<Rightarrow> bool" where
  "onBoundary p =
     (((fst p = 0 \<or> fst p = 1) \<and> 0 \<le> snd p \<and> snd p \<le> 1) \<or>
      ((snd p = 0 \<or> snd p = 1) \<and> 0 \<le> fst p \<and> fst p \<le> 1))"


section \<open>The game state\<close>

text \<open>
  A zombie is a \<^verbatim>\<open>THREE.Mesh\<close>, an object that \<^verbatim>\<open>activeZombies\<close>, the scene and
  the mouse handlers' \<^verbatim>\<open>zombieToSlice\<close> all refer to. The model keeps the meshes in a
  store, \<open>zombies\<close>, from references (numbers) to objects, so that a reference held
  after the mesh has left \<^verbatim>\<open>activeZombies\<close> still reads the same object.
  \<open>zIsSliced\<close> is \<^verbatim>\<open>userData.isSliced\<close>; \<open>zTexture\<close> is the frame in the
  material's \<^verbatim>\<open>uTexture\<close>. \<^verbatim>\<open>dispose()\<close> frees GPU resources and changes nothing
  the program reads; it is not modelled.
\<close>

definition vx :: "vec3 \<Rightarrow> real" where
  "vx v = fst v"

definition vy :: "vec3 \<Rightarrow> real" where
  "vy v = fst (snd v)"

definition vz :: "vec3 \<Rightarrow> real" where
  "vz v = snd (snd v)"

record zombie =
  zPosition :: vec3
  zRotation :: vec3
  zScale :: vec3
  zTexture :: nat
  zIsSliced :: bool

text \<open>
  A sliced piece: a mesh with the uniforms of its material and its \<^verbatim>\<open>userData\<close>
  (\<open>pRotationSpeed\<close> is \<^verbatim>\<open>userData.rotation\<close>). Pieces are referred to from
  \<^verbatim>\<open>slicedPieces\<close> and the scene only, always together, so the list holds them by
  value and stands for both.
\<close>

record piece =
  pPosition :: vec3
  pRotation :: vec3
  pScale :: vec3
  pUniforms :: uniforms
  pVelocity :: vec2
  pRotationSpeed :: real
  pIsOnFloor :: bool
  pDespawnTimer :: real

text \<open>
  An entry of \<^verbatim>\<open>bloodParticlePool\<close>. \<open>bpVisible\<close> is \<^verbatim>\<open>sprite.visible\<close>: a
  particle is live when it is visible. The sprite's position, scale, texture, opacity
  and rotation and the particle's velocity are left out: no property below reads them.
  The calls of \<^verbatim>\<open>Math.random()\<close> that feed them are still counted.
  \<^verbatim>\<open>isWallBlood\<close> and \<^verbatim>\<open>stuckToWall\<close> are \<^verbatim>\<open>undefined\<close> (falsy) until first set.
\<close>

record particle =
  bpVisible :: bool
  bpLifetime :: real
  bpIsWallBlood :: bool
  bpIsOnFloor :: bool
  bpStuckToWall :: bool
  bpDespawnTimer :: real

text \<open>The two places that load the blood textures: the module's top level and \<^verbatim>\<open>loadAssets()\<close>.\<close>

datatype loader = TopLevel | LoadAssets

text \<open>
  The module's global variables. \<open>randomCalls\<close> counts the calls of
  \<^verbatim>\<open>Math.random()\<close> so far: the \<open>n\<close>-th call returns \<open>rnd n\<close> for a stream \<open>rnd\<close>
  that the functions take as a parameter. \<open>zombieGeometry\<close> says whether the variable
  is set. \<open>nextZombie\<close> is the reference the next \<^verbatim>\<open>new THREE.Mesh\<close> of a zombie
  gets. \<open>bloodTextures\<close> is the length of that array, \<open>loadedBloodCount\<close> the counter
  of each loader. The DOM (score display) and the audio are not modelled.
\<close>

record game =
  zombies :: "nat \<Rightarrow> zombie"
  activeZombies :: "nat list"
  sceneZombies :: "nat list"
  slicedPieces :: "piece list"
  bloodParticlePool :: "particle list"
  bloodTextures :: nat
  loadedBloodCount :: "loader \<Rightarrow> nat"
  bloodTexturesLoaded :: bool
  score :: int
  lastZombieKillTime :: real
  randomCalls :: nat
  cameraAspect :: real
  zombieGeometry :: bool
  allZombieFramesLoaded :: bool
  nextZombie :: nat
  gameOver :: bool
  mouseNDC :: vec2
  sliceStartNDC :: vec2
  sliceEndNDC :: vec2
  sliceStartUV :: vec2
  sliceEndUV :: vec2
  sliceStartValid :: bool
  sliceEndValid :: bool
  zombieToSlice :: "nat option"
  isSlicing :: bool
  previousFingerTipNDC :: "vec2 option"

definition SLICE_GESTURE_THRESHOLD :: real where
  "SLICE_GESTURE_THRESHOLD = 0.03"

definition FLOOR_Y :: real where
  "FLOOR_Y = - 2.5"

definition MAX_BLOOD_PARTICLES :: nat where
  "MAX_BLOOD_PARTICLES = 50"

definition DAMPING :: real where
  "DAMPING = 0.95"

definition DESPAWN_TIME :: real where
  "DESPAWN_TIME = 10.0"

definition ZOMBIE_KILL_COOLDOWN :: real where
  "ZOMBIE_KILL_COOLDOWN = 0.2"

definition numBloodParticles :: nat where
  "numBloodParticles = 18"

section \<open>Loading the blood textures\<close>

text \<open>
  The pool entry that the initialisation loop pushes.
\<close>

definition freshParticle :: particle where
  "freshParticle =
     \<lparr>bpVisible = False, bpLifetime = 0, bpIsWallBlood = False, bpIsOnFloor = False,
      bpStuckToWall = False, bpDespawnTimer = 0\<rparr>"

text \<open>
  The callback of \<^verbatim>\<open>textureLoader.load\<close> for one blood texture. The module registers
  it for the seven files at its top level (lines 73 to 107) and again, with a counter of
  its own, in \<^verbatim>\<open>loadAssets()\<close> (lines 1061 to 1078), which \<^verbatim>\<open>createHandLandmarker\<close>
  calls. Both push the texture on the one array \<^verbatim>\<open>bloodTextures\<close>, and when a loader's
  own counter reaches the number of files both push \<^verbatim>\<open>MAX_BLOOD_PARTICLES\<close> entries
  on the one array \<^verbatim>\<open>bloodParticlePool\<close>.
\<close>

definition bloodTextureFiles :: nat where
  "bloodTextureFiles = 7"

definition onBloodTextureLoad :: "loader \<Rightarrow> game \<Rightarrow> game" where
  "onBloodTextureLoad l st =
     (let st1 = st\<lparr>bloodTextures := bloodTextures st + 1,
                    loadedBloodCount := (loadedBloodCount st)(l := loadedBloodCount st l + 1)\<rparr>
      in if loadedBloodCount st1 l = bloodTextureFiles
         then st1\<lparr>bloodTexturesLoaded := True,
                  bloodParticlePool :=
                    bloodParticlePool st1 @ replicate MAX_BLOOD_PARTICLES freshParticle\<rparr>
         else st1)"

text \<open>A loader whose seven textures all load: its callback runs seven times.\<close>

definition loadBloodTextures :: "loader \<Rightarrow> game \<Rightarrow> game" where
  "loadBloodTextures l st = ((onBloodTextureLoad l) ^^ bloodTextureFiles) st"

section \<open>The slice executor\<close>

text \<open>\<^verbatim>\<open>createSlicedMesh(sideToKeep)\<close>, with the \<^verbatim>\<open>userData\<close> not yet set.\<close>

definition createSlicedMesh :: "zombie \<Rightarrow> vec2 \<Rightarrow> vec2 \<Rightarrow> real \<Rightarrow> piece" where
  "createSlicedMesh target startUV endUV sideToKeep =
     \<lparr>pPosition = zPosition target, pRotation = zRotation target, pScale = zScale target,
      pUniforms = pieceUniforms (zTexture target) startUV endUV sideToKeep,
      pVelocity = (0, 0), pRotationSpeed = 0, pIsOnFloor = False, pDespawnTimer = 0\<rparr>"

text \<open>
  \<^verbatim>\<open>bloodParticlePool.find(p => !p.sprite.visible)\<close>: the index of the first entry
  that is not visible, \<open>None\<close> for \<^verbatim>\<open>undefined\<close>.
\<close>

fun findFree :: "particle list \<Rightarrow> nat option" where
  "findFree [] = None"
| "findFree (p # ps) = (if \<not> bpVisible p then Some 0 else map_option Suc (findFree ps))"

text \<open>
  What iteration \<open>i\<close> of the emission loop writes to the particle it found. An
  activation calls \<^verbatim>\<open>Math.random()\<close> nine times, on either branch; the last call
  gives the lifetime. \<open>base\<close> is the number of calls before.
\<close>

definition activateParticle :: "(nat \<Rightarrow> real) \<Rightarrow> nat \<Rightarrow> nat \<Rightarrow> particle \<Rightarrow> particle" where
  "activateParticle rnd base i p =
     (let wall = (i < numBloodParticles div 3) in
      p\<lparr>bpVisible := True, bpIsWallBlood := wall,
        bpLifetime := (if wall then 1.2 + rnd (base + 8) * 0.7 else 1.0 + rnd (base + 8) * 1.0),
        bpIsOnFloor := False, bpDespawnTimer := 0, bpStuckToWall := False\<rparr>)"

text \<open>The body of the emission loop; \<^verbatim>\<open>continue\<close> when no particle is free.\<close>

definition spawnParticle :: "(nat \<Rightarrow> real) \<Rightarrow> nat \<Rightarrow> game \<Rightarrow> game" where
  "spawnParticle rnd i st =
     (case findFree (bloodParticlePool st) of
        None \<Rightarrow> st
      | Some k \<Rightarrow>
          st\<lparr>bloodParticlePool :=
               (bloodParticlePool st)
                 [k := activateParticle rnd (randomCalls st) i (bloodParticlePool st ! k)],
             randomCalls := randomCalls st + 9\<rparr>)"

text \<open>
  \<^verbatim>\<open>for (let i = 0; i < numBloodParticles; i++)\<close>: \<open>spawnLoop rnd i n\<close> runs the \<open>n\<close>
  iterations from \<open>i\<close> on.
\<close>

fun spawnLoop :: "(nat \<Rightarrow> real) \<Rightarrow> nat \<Rightarrow> nat \<Rightarrow> game \<Rightarrow> game" where
  "spawnLoop rnd i 0 st = st"
| "spawnLoop rnd i (Suc n) st = spawnLoop rnd (Suc i) n (spawnParticle rnd i st)"

text \<open>The vector \<^verbatim>\<open>normalVectorWorld\<close> that step 4 of \<^verbatim>\<open>performSlice\<close> computes.\<close>

definition normalVectorWorld :: "vec2 \<Rightarrow> vec2 \<Rightarrow> vec2" where
  "normalVectorWorld startUV endUV =
     (let sliceVectorUV = vnormalize (subVectors endUV startUV)
      in vnormalize (- snd sliceVectorUV, fst sliceVectorUV))"

text \<open>
  Steps 3 and 4 of \<^verbatim>\<open>performSlice\<close>: the two meshes of \<^verbatim>\<open>createSlicedMesh\<close>,
  \<^verbatim>\<open>piece1\<close> and \<^verbatim>\<open>piece2\<close>, moved apart and given their velocity and rotation
  speed. \<open>target\<close> is the mesh being sliced; \<open>base\<close> is the number of calls of
  \<^verbatim>\<open>Math.random()\<close> before.
\<close>

definition launchPieces ::
  "(nat \<Rightarrow> real) \<Rightarrow> nat \<Rightarrow> zombie \<Rightarrow> vec2 \<Rightarrow> vec2 \<Rightarrow> piece \<times> piece" where
  "launchPieces rnd base target startUV endUV =
     (let originalPosition = zPosition target;
          originalScale = zScale target;
          piece1 = createSlicedMesh target startUV endUV 1;
          piece2 = createSlicedMesh target startUV endUV (- 1);
          normal = normalVectorWorld startUV endUV;
          forceMagnitude = 0.02 * vx originalScale;
          rotationSpeed = 0.02;
          separation = 0.05 * vx originalScale
      in (piece1
            \<lparr>pPosition := (vx originalPosition + fst normal * separation,
                           vy originalPosition + snd normal * separation,
                           vz originalPosition),
             pVelocity := (fst normal * forceMagnitude, snd normal * forceMagnitude),
             pRotationSpeed := rotationSpeed * (if rnd base > 0.5 then 1 else - 1),
             pIsOnFloor := False, pDespawnTimer := 0\<rparr>,
          piece2
            \<lparr>pPosition := (vx originalPosition - fst normal * separation,
                           vy originalPosition - snd normal * separation,
                           vz originalPosition),
             pVelocity := (- fst normal * forceMagnitude, - snd normal * forceMagnitude),
             pRotationSpeed := rotationSpeed * (if rnd (base + 1) > 0.5 then 1 else - 1),
             pIsOnFloor := False, pDespawnTimer := 0\<rparr>))"

text \<open>
  \<^verbatim>\<open>performSlice\<close> after its two early returns: everything from step 1 to the score.
  \<open>r\<close> is the reference \<^verbatim>\<open>targetZombie\<close>, \<open>now\<close> is \<^verbatim>\<open>performance.now() / 1000\<close>.
  \<^verbatim>\<open>indexOf\<close> and \<^verbatim>\<open>splice(index, 1)\<close> remove the first occurrence, as does
  \<^verbatim>\<open>scene.remove\<close>. Nothing here writes \<^verbatim>\<open>userData.isSliced\<close>: the store is left
  as it is.
\<close>

definition sliceBody :: "real \<Rightarrow> (nat \<Rightarrow> real) \<Rightarrow> nat \<Rightarrow> vec2 \<Rightarrow> vec2 \<Rightarrow> game \<Rightarrow> game" where
  "sliceBody now rnd r startUV endUV st =
     (let st1 = st\<lparr>lastZombieKillTime := now,
                   sceneZombies := remove1 r (sceneZombies st),
                   activeZombies := remove1 r (activeZombies st)\<rparr>;
          pieces = launchPieces rnd (randomCalls st1) (zombies st r) startUV endUV;
          st2 = st1\<lparr>slicedPieces := slicedPieces st1 @ [fst pieces, snd pieces],
                    randomCalls := randomCalls st1 + 2\<rparr>;
          st3 = (if bloodTexturesLoaded st2 then spawnLoop rnd 0 numBloodParticles st2 else st2)
      in st3\<lparr>score := score st3 + 50\<rparr>)"

text \<open>
  \<^verbatim>\<open>performSlice(targetZombie, startUV, endUV)\<close>; \<open>None\<close> is a \<^verbatim>\<open>null\<close> target.
\<close>

definition performSlice ::
  "real \<Rightarrow> (nat \<Rightarrow> real) \<Rightarrow> nat option \<Rightarrow> vec2 \<Rightarrow> vec2 \<Rightarrow> game \<Rightarrow> game" where
  "performSlice now rnd targetZombie startUV endUV st =
     (case targetZombie of
        None \<Rightarrow> st
      | Some r \<Rightarrow>
          if zIsSliced (zombies st r) then st
          else if now - lastZombieKillTime st < ZOMBIE_KILL_COOLDOWN then st
          else sliceBody now rnd r startUV endUV st)"

text \<open>The live particles of the pool are the visible ones; the free slots are the others.\<close>

definition liveParticles :: "particle list \<Rightarrow> nat" where
  "liveParticles pool = length (filter bpVisible pool)"

definition freeSlots :: "particle list \<Rightarrow> nat" where
  "freeSlots pool = length (filter (\<lambda>p. \<not> bpVisible p) pool)"

section \<open>The gesture-to-cut resolvers\<close>

text \<open>
  The vector \<^verbatim>\<open>directionUVApprox\<close> of both resolvers: the direction of the gesture
  in NDC, normalized, its vertical component scaled by the camera's aspect ratio, and
  normalized again.

  Then \<^verbatim>\<open>calculateAndPerformSlice\<close> up to its call of \<^verbatim>\<open>performSlice\<close>: the two
  UV points it passes on, or \<open>None\<close> where it returns before. It reads the mouse
  handlers' variables.
\<close>

definition directionUVApprox :: "real \<Rightarrow> vec2 \<Rightarrow> vec2 \<Rightarrow> vec2" where
  "directionUVApprox aspect startNDC endNDC =
     (let directionNDC = vnormalize (subVectors endNDC startNDC)
      in vnormalize (fst directionNDC, snd directionNDC * aspect))"

definition mouseCut :: "game \<Rightarrow> (vec2 \<times> vec2) option" where
  "mouseCut st =
     (let direction = directionUVApprox (cameraAspect st) (sliceStartNDC st) (sliceEndNDC st);
          ends =
            (if sliceStartValid st \<and> sliceEndValid st
             then Some (sliceStartUV st, sliceEndUV st)
             else if sliceStartValid st \<and> \<not> sliceEndValid st
             then (case intersectUVSquare (sliceStartUV st) direction of
                     None \<Rightarrow> None
                   | Some extendedEnd \<Rightarrow> Some (sliceStartUV st, extendedEnd))
             else None)
      in case ends of
           None \<Rightarrow> None
         | Some (finalStartUV, finalEndUV) \<Rightarrow>
             if distanceTo finalStartUV finalEndUV < 0.001 then None
             else Some (clampScalar 0 1 finalStartUV, clampScalar 0 1 finalEndUV))"

definition calculateAndPerformSlice ::
  "real \<Rightarrow> (nat \<Rightarrow> real) \<Rightarrow> nat option \<Rightarrow> game \<Rightarrow> game" where
  "calculateAndPerformSlice now rnd targetZombie st =
     (case targetZombie of
        None \<Rightarrow> st
      | Some r \<Rightarrow>
          (case mouseCut st of
             None \<Rightarrow> st
           | Some (finalStartUV, finalEndUV) \<Rightarrow>
               performSlice now rnd targetZombie finalStartUV finalEndUV st))"

text \<open>
  \<^verbatim>\<open>calculateAndPerformSliceHand\<close> between its first check and its call of
  \<^verbatim>\<open>performSlice\<close>.
\<close>

definition handCut :: "real \<Rightarrow> vec2 \<Rightarrow> vec2 \<Rightarrow> vec2 \<Rightarrow> vec2 option \<Rightarrow> (vec2 \<times> vec2) option" where
  "handCut aspect startUV startNDC endNDC endUVIfValid =
     (let finalStartUV = startUV;
          directionNDC = vnormalize (subVectors endNDC startNDC) in
      if lengthSq directionNDC < 1 / 1000000 then None
      else
        let directionUVApprox = vnormalize (fst directionNDC, snd directionNDC * aspect) in
        if lengthSq directionUVApprox < 1 / 1000000 then None
        else
          (case (case endUVIfValid of
                   Some uv \<Rightarrow> Some uv
                 | None \<Rightarrow> intersectUVSquare finalStartUV directionUVApprox) of
             None \<Rightarrow> None
           | Some finalEndUV \<Rightarrow>
               if distanceTo finalStartUV finalEndUV < 0.001 then None
               else Some (clampScalar 0 1 finalStartUV, clampScalar 0 1 finalEndUV)))"

definition calculateAndPerformSliceHand ::
  "real \<Rightarrow> (nat \<Rightarrow> real) \<Rightarrow> nat option \<Rightarrow> vec2 \<Rightarrow> vec2 \<Rightarrow> vec2 \<Rightarrow> vec2 option \<Rightarrow> game \<Rightarrow> game"
  where
  "calculateAndPerformSliceHand now rnd targetZombie startUV startNDC endNDC endUVIfValid st =
     (case targetZombie of
        None \<Rightarrow> st
      | Some r \<Rightarrow>
          if zIsSliced (zombies st r) then st
          else
            (case handCut (cameraAspect st) startUV startNDC endNDC endUVIfValid of
               None \<Rightarrow> st
             | Some (finalStartUV, finalEndUV) \<Rightarrow>
                 performSlice now rnd targetZombie finalStartUV finalEndUV st))"

section \<open>The input handlers\<close>

text \<open>
  \<^verbatim>\<open>raycaster.intersectObjects\<close> belongs to three.js. The handlers take it as a
  parameter: from the meshes, the NDC point of the ray and the objects to test, the
  hits in order, each a UV point and the object hit.
\<close>

type_synonym raycast = "(nat \<Rightarrow> zombie) \<Rightarrow> vec2 \<Rightarrow> nat list \<Rightarrow> (vec2 \<times> nat) list"

text \<open>
  A mouse event is its \<^verbatim>\<open>(clientX, clientY)\<close>; \<open>win\<close> is the window's inner size.
  \<open>eventNDC\<close> is the conversion that \<^verbatim>\<open>updateMousePosition\<close> and
  \<^verbatim>\<open>getUVCoords\<close> both write to \<^verbatim>\<open>mouseNDC\<close>.
\<close>

definition eventNDC :: "vec2 \<Rightarrow> vec2 \<Rightarrow> vec2" where
  "eventNDC win ev = ((fst ev / fst win) * 2 - 1, - (snd ev / snd win) * 2 + 1)"

definition updateMousePosition :: "vec2 \<Rightarrow> vec2 \<Rightarrow> game \<Rightarrow> game" where
  "updateMousePosition win ev st = st\<lparr>mouseNDC := eventNDC win ev\<rparr>"

definition getUVCoords :: "raycast \<Rightarrow> vec2 \<Rightarrow> vec2 \<Rightarrow> game \<Rightarrow> (vec2 \<times> nat) option \<times> game" where
  "getUVCoords rc win ev st =
     (if activeZombies st = [] then (None, st)
      else
        let st1 = st\<lparr>mouseNDC := eventNDC win ev\<rparr>;
            zombiesToTest = filter (\<lambda>z. \<not> zIsSliced (zombies st1 z)) (activeZombies st1);
            intersects = rc (zombies st1) (mouseNDC st1) zombiesToTest
        in (case intersects of [] \<Rightarrow> None | hit # _ \<Rightarrow> Some hit, st1))"

definition getUVCoordsFromNDC :: "raycast \<Rightarrow> vec2 \<Rightarrow> game \<Rightarrow> (vec2 \<times> nat) option" where
  "getUVCoordsFromNDC rc ndcCoords st =
     (if activeZombies st = [] then None
      else
        let zombiesToTest = filter (\<lambda>z. \<not> zIsSliced (zombies st z)) (activeZombies st);
            intersects = rc (zombies st) ndcCoords zombiesToTest
        in case intersects of [] \<Rightarrow> None | hit # _ \<Rightarrow> Some hit)"

definition mousedown :: "raycast \<Rightarrow> vec2 \<Rightarrow> vec2 \<Rightarrow> game \<Rightarrow> game" where
  "mousedown rc win ev st =
     (if \<not> zombieGeometry st then st
      else
        let st1 = updateMousePosition win ev st;
            st2 = st1\<lparr>sliceStartNDC := mouseNDC st1\<rparr>;
            (hitData, st3) = getUVCoords rc win ev st2;
            st4 = (case hitData of
                     Some (uv, obj) \<Rightarrow>
                       st3\<lparr>sliceStartUV := uv, sliceStartValid := True,
                           zombieToSlice := Some obj, isSlicing := True\<rparr>
                   | None \<Rightarrow>
                       st3\<lparr>sliceStartValid := False, zombieToSlice := None,
                           isSlicing := False\<rparr>)
        in st4\<lparr>sliceEndValid := False\<rparr>)"

definition mouseup :: "real \<Rightarrow> (nat \<Rightarrow> real) \<Rightarrow> raycast \<Rightarrow> vec2 \<Rightarrow> vec2 \<Rightarrow> game \<Rightarrow> game" where
  "mouseup now rnd rc win ev st =
     (let st5 =
        (if isSlicing st \<and> zombieToSlice st \<noteq> None then
           let st1 = updateMousePosition win ev st;
               st2 = st1\<lparr>sliceEndNDC := mouseNDC st1\<rparr>;
               (hitData, st3) = getUVCoords rc win ev st2;
               st4 = (case hitData of
                        Some (uv, obj) \<Rightarrow>
                          if Some obj = zombieToSlice st3
                          then st3\<lparr>sliceEndUV := uv, sliceEndValid := True\<rparr>
                          else st3\<lparr>sliceEndValid := False\<rparr>
                      | None \<Rightarrow> st3\<lparr>sliceEndValid := False\<rparr>)
           in if distanceTo (sliceStartNDC st4) (sliceEndNDC st4) > 0.02
              then calculateAndPerformSlice now rnd (zombieToSlice st4) st4
              else st4
         else st)
      in st5\<lparr>isSlicing := False, sliceStartValid := False, sliceEndValid := False,
             zombieToSlice := None\<rparr>)"

text \<open>
  The state in which \<^verbatim>\<open>mouseup\<close> calls the resolver, when it calls it: the release
  point recorded, and the end UV point when the release hit the zombie of the press
  (\<open>mouseup_long\<close> below).
\<close>

definition released :: "raycast \<Rightarrow> vec2 \<Rightarrow> vec2 \<Rightarrow> game \<Rightarrow> game" where
  "released rc win ev st =
     (let st2 = st\<lparr>mouseNDC := eventNDC win ev, sliceEndNDC := eventNDC win ev\<rparr>
      in case getUVCoordsFromNDC rc (eventNDC win ev) st of
           Some (uv, obj) \<Rightarrow>
             if Some obj = zombieToSlice st
             then st2\<lparr>sliceEndUV := uv, sliceEndValid := True\<rparr>
             else st2\<lparr>sliceEndValid := False\<rparr>
         | None \<Rightarrow> st2\<lparr>sliceEndValid := False\<rparr>)"

text \<open>
  What the hand landmarker reports for a frame: no hand, a hand without the landmark of
  the index finger tip, or the tip in normalized video coordinates.
\<close>

datatype handResults = NoHand | NoFingerTip | FingerTip vec2

text \<open>The landmark in NDC: mirrored in x, flipped in y.\<close>

definition fingerTipNDC :: "vec2 \<Rightarrow> vec2" where
  "fingerTipNDC fingerTipRaw = ((fst fingerTipRaw * 2 - 1) * - 1, snd fingerTipRaw * - 2 + 1)"

definition processHandData ::
  "real \<Rightarrow> (nat \<Rightarrow> real) \<Rightarrow> raycast \<Rightarrow> handResults \<Rightarrow> game \<Rightarrow> game" where
  "processHandData now rnd rc results st =
     (if gameOver st then st
      else
        (case results of
           NoHand \<Rightarrow> st\<lparr>previousFingerTipNDC := None\<rparr>
         | NoFingerTip \<Rightarrow> st\<lparr>previousFingerTipNDC := None\<rparr>
         | FingerTip fingerTipRaw \<Rightarrow>
             let currentFingerTipNDC = fingerTipNDC fingerTipRaw;
                 st1 =
                   (case previousFingerTipNDC st of
                      None \<Rightarrow> st
                    | Some previous \<Rightarrow>
                        if distanceTo currentFingerTipNDC previous > SLICE_GESTURE_THRESHOLD
                        then
                          (case getUVCoordsFromNDC rc previous st of
                             None \<Rightarrow> st
                           | Some (startUV, targetZombie) \<Rightarrow>
                               let endHitData = getUVCoordsFromNDC rc currentFingerTipNDC st;
                                   endUVIfValid =
                                     (case endHitData of
                                        Some (uv, obj) \<Rightarrow>
                                          if obj = targetZombie then Some uv else None
                                      | None \<Rightarrow> None)
                               in calculateAndPerformSliceHand now rnd (Some targetZombie)
                                    startUV previous currentFingerTipNDC endUVIfValid st)
                        else st)
             in st1\<lparr>previousFingerTipNDC := Some currentFingerTipNDC\<rparr>))"

section \<open>Sliced pieces in the animation loop\<close>

text \<open>
  The body of the loop over \<^verbatim>\<open>slicedPieces\<close> in \<^verbatim>\<open>animate()\<close>, for one piece;
  \<open>None\<close> when the piece is despawned (removed from the scene and spliced out of the
  array). \<open>deltaTime\<close> is \<^verbatim>\<open>clock.getDelta()\<close>.
\<close>

definition animatePiece :: "real \<Rightarrow> piece \<Rightarrow> piece option" where
  "animatePiece deltaTime piece =
     (if \<not> pIsOnFloor piece then
        let p1 = piece\<lparr>pPosition := (vx (pPosition piece) + fst (pVelocity piece),
                                     vy (pPosition piece) + snd (pVelocity piece),
                                     vz (pPosition piece))\<rparr>;
            p2 = p1\<lparr>pVelocity := (fst (pVelocity p1), snd (pVelocity p1) - 0.001)\<rparr>;
            p3 = p2\<lparr>pRotation := (vx (pRotation p2), vy (pRotation p2),
                                  vz (pRotation p2) + pRotationSpeed p2)\<rparr>
        in Some (if vy (pPosition p3) \<le> FLOOR_Y
                 then p3\<lparr>pPosition := (vx (pPosition p3), FLOOR_Y, vz (pPosition p3)),
                          pIsOnFloor := True,
                          pVelocity := (fst (pVelocity p3), 0),
                          pDespawnTimer := 0\<rparr>
                 else p3)
      else
        let p1 = piece\<lparr>pVelocity := (fst (pVelocity piece) * DAMPING, snd (pVelocity piece))\<rparr>;
            p2 = p1\<lparr>pRotationSpeed := pRotationSpeed p1 * DAMPING\<rparr>;
            p3 = p2\<lparr>pPosition := (vx (pPosition p2) + fst (pVelocity p2), vy (pPosition p2),
                                  vz (pPosition p2))\<rparr>;
            p4 = p3\<lparr>pRotation := (vx (pRotation p3), vy (pRotation p3),
                                  vz (pRotation p3) + pRotationSpeed p3)\<rparr>;
            p5 = (if \<bar>fst (pVelocity p4)\<bar> < 0.001
                  then p4\<lparr>pVelocity := (0, snd (pVelocity p4))\<rparr> else p4);
            p6 = (if \<bar>pRotationSpeed p5\<bar> < 0.001 then p5\<lparr>pRotationSpeed := 0\<rparr> else p5);
            p7 = p6\<lparr>pDespawnTimer := pDespawnTimer p6 + deltaTime\<rparr>
        in if pDespawnTimer p7 \<ge> DESPAWN_TIME then None else Some p7)"

text \<open>
  \<^verbatim>\<open>for (let i = slicedPieces.length - 1; i >= 0; i--)\<close>: \<open>animateFrom dt n\<close> runs
  the iterations for the indices \<open>n - 1\<close> down to 0. A despawned piece is removed by
  \<^verbatim>\<open>splice(i, 1)\<close>; the others are updated in place.
\<close>

fun animateFrom :: "real \<Rightarrow> nat \<Rightarrow> piece list \<Rightarrow> piece list" where
  "animateFrom deltaTime 0 ps = ps"
| "animateFrom deltaTime (Suc i) ps =
     animateFrom deltaTime i
       (case animatePiece deltaTime (ps ! i) of
          None \<Rightarrow> take i ps @ drop (Suc i) ps
        | Some piece \<Rightarrow> ps[i := piece])"

definition animatePieces :: "real \<Rightarrow> game \<Rightarrow> game" where
  "animatePieces deltaTime st =
     st\<lparr>slicedPieces := animateFrom deltaTime (length (slicedPieces st)) (slicedPieces st)\<rparr>"

section \<open>Spawning, and the state when the module has loaded\<close>

text \<open>
  \<^verbatim>\<open>spawnZombie()\<close>. The camera stands at \<^verbatim>\<open>z = 5\<close>, the plane is 5 units high, the
  path is 8 units wide at \<^verbatim>\<open>ZOMBIE_START_Z = -20\<close>, and the floor there is at
  \<^verbatim>\<open>FLOOR_Y + 25 * 0.015\<close>. The new mesh gets a fresh reference. The timer of the
  spawner is not modelled.
\<close>

definition spawnZombie :: "(nat \<Rightarrow> real) \<Rightarrow> game \<Rightarrow> game" where
  "spawnZombie rnd st =
     (if gameOver st then st
      else if \<not> allZombieFramesLoaded st then st
      else if \<not> zombieGeometry st then st
      else
        let baseScale = 0.8 + rnd (randomCalls st) * 0.7;
            initialScaleFactor = max 0.1 (5 / (5 - (- 20)));
            initialScale = baseScale * initialScaleFactor;
            startPathWidth = max 0.1 ((1 - 0) * 8.0 + 0 * 2.0);
            startX = (rnd (randomCalls st + 1) - 0.5) * startPathWidth;
            startFloorY = FLOOR_Y + (5 - (- 20)) * 0.015;
            zombieHeight = 5 * initialScale;
            startY = startFloorY + (zombieHeight / 2) + 0.0;
            newZombie = \<lparr>zPosition = (startX, startY, - 20), zRotation = (0, 0, 0),
                         zScale = (initialScale, initialScale, 1), zTexture = 0,
                         zIsSliced = False\<rparr>;
            ref = nextZombie st
        in st\<lparr>zombies := (zombies st)(ref := newZombie), nextZombie := ref + 1,
              sceneZombies := sceneZombies st @ [ref],
              activeZombies := activeZombies st @ [ref],
              randomCalls := randomCalls st + 2\<rparr>)"

text \<open>
  The globals as the module's top level leaves them, for a camera of the given aspect
  ratio. No mesh exists yet: a reference that has not been given out reads \<open>noMesh\<close>,
  and nothing reads one before \<open>spawnZombie\<close> has given it out.
\<close>

definition noMesh :: zombie where
  "noMesh = \<lparr>zPosition = (0, 0, 0), zRotation = (0, 0, 0), zScale = (1, 1, 1), zTexture = 0,
             zIsSliced = False\<rparr>"

definition initialGame :: "real \<Rightarrow> game" where
  "initialGame aspect =
     \<lparr>zombies = (\<lambda>_. noMesh), activeZombies = [], sceneZombies = [], slicedPieces = [],
      bloodParticlePool = [], bloodTextures = 0, loadedBloodCount = (\<lambda>_. 0),
      bloodTexturesLoaded = False, score = 0, lastZombieKillTime = 0, randomCalls = 0,
      cameraAspect = aspect, zombieGeometry = False, allZombieFramesLoaded = False,
      nextZombie = 0, gameOver = False, mouseNDC = (0, 0), sliceStartNDC = (0, 0),
      sliceEndNDC = (0, 0), sliceStartUV = (0, 0), sliceEndUV = (0, 0),
      sliceStartValid = False, sliceEndValid = False, zombieToSlice = None,
      isSlicing = False, previousFingerTipNDC = None\<rparr>"

text \<open>The callback of the last zombie frame: the frames and the geometry are there.\<close>

definition zombieFramesReady :: "game \<Rightarrow> game" where
  "zombieFramesReady st = st\<lparr>zombieGeometry := True, allZombieFramesLoaded := True\<rparr>"

section \<open>Notions used to state the properties\<close>

text \<open>
  Two states have the same game when they agree on everything but the variables that
  track the gesture (the mouse handlers' variables and the previous finger tip).
\<close>

definition sameGame :: "game \<Rightarrow> game \<Rightarrow> bool" where
  "sameGame st st' =
     (zombies st' = zombies st \<and> activeZombies st' = activeZombies st \<and>
      sceneZombies st' = sceneZombies st \<and> slicedPieces st' = slicedPieces st \<and>
      bloodParticlePool st' = bloodParticlePool st \<and> bloodTextures st' = bloodTextures st \<and>
      loadedBloodCount st' = loadedBloodCount st \<and>
      bloodTexturesLoaded st' = bloodTexturesLoaded st \<and> score st' = score st \<and>
      lastZombieKillTime st' = lastZombieKillTime st \<and> randomCalls st' = randomCalls st \<and>
      cameraAspect st' = cameraAspect st \<and> zombieGeometry st' = zombieGeometry st \<and>
      allZombieFramesLoaded st' = allZombieFramesLoaded st \<and> nextZombie st' = nextZombie st \<and>
      gameOver st' = gameOver st)"

text \<open>
  A raycaster for the examples: every tested zombie covers the square of the NDC points
  with both coordinates between -1/2 and 1/2, and the UV point of a hit is the NDC point
  moved by 1/2.
\<close>

definition flatRaycast :: raycast where
  "flatRaycast zs ndc objs =
     (if \<bar>fst ndc\<bar> \<le> 1/2 \<and> \<bar>snd ndc\<bar> \<le> 1/2
      then map (\<lambda>z. ((fst ndc + 1/2, snd ndc + 1/2), z)) objs
      else [])"

text \<open>
  The game of most examples: the module has loaded, the zombie frames are there, and
  \<^verbatim>\<open>spawnZombie\<close> has run once, with every \<^verbatim>\<open>Math.random()\<close> giving 1/2 and
  a camera of aspect ratio 1.
\<close>

definition oneZombie :: game where
  "oneZombie = spawnZombie (\<lambda>_. 1/2) (zombieFramesReady (initialGame 1))"

text \<open>
  What \<^verbatim>\<open>intersectUVSquare\<close> is meant to compute, stated from the geometry and not
  from the code. On one axis, a ray from \<open>s\<close> with velocity \<open>d\<close> crosses the far edge of
  the unit interval at the time \<open>texit\<close> and the near edge at \<open>tentry\<close>. The ray from
  the point \<open>s\<close> along \<open>d\<close> leaves the unit square at \<open>exitTime\<close>, the smallest of
  the times \<open>texit\<close> of the axes it moves along, at the point \<open>exitPoint\<close>.
\<close>

definition texit :: "real \<Rightarrow> real \<Rightarrow> real" where
  "texit s d = (if d > 0 then (1 - s) / d else (0 - s) / d)"

definition tentry :: "real \<Rightarrow> real \<Rightarrow> real" where
  "tentry s d = (if d > 0 then (0 - s) / d else (1 - s) / d)"

definition exitTime :: "vec2 \<Rightarrow> vec2 \<Rightarrow> real" where
  "exitTime s d =
     (if fst d = 0 then texit (snd s) (snd d)
      else if snd d = 0 then texit (fst s) (fst d)
      else min (texit (fst s) (fst d)) (texit (snd s) (snd d)))"

definition exitPoint :: "vec2 \<Rightarrow> vec2 \<Rightarrow> vec2" where
  "exitPoint s d = addVectors s (multiplyScalar d (exitTime s d))"

section \<open>Facts about vectors and the shader\<close>

lemma vlength_pos: "v \<noteq> (0,0) \<Longrightarrow> 0 < vlength v"
  unfolding vlength_def
  by (cases v) (auto simp: sum_power2_gt_zero_iff power2_eq_square[symmetric])

lemma distanceTo_pos_imp_neq: "0 < distanceTo a b \<Longrightarrow> a \<noteq> b"
  by (auto simp: distanceTo_def)

lemma shaderSide_cross:
  "shaderSide s e p * vlength (subVectors e s) =
     (fst e - fst s) * (snd p - snd s) - (snd e - snd s) * (fst p - fst s)" if "s \<noteq> e"
proof -
  have "subVectors e s \<noteq> (0,0)" using that by (cases s; cases e) (auto simp: subVectors_def)
  then have L: "0 < vlength (subVectors e s)" by (rule vlength_pos)
  have eq: "vlength (- snd (subVectors e s), fst (subVectors e s)) = vlength (subVectors e s)"
    by (simp add: vlength_def add.commute)
  show ?thesis using L
    unfolding shaderSide_def shaderNormal_def Let_def glslNormalize_def eq dot_def
    by (simp add: subVectors_def field_simps)
qed

lemma shaderSide_zero_iff: "s \<noteq> e \<Longrightarrow> shaderSide s e p = 0 \<longleftrightarrow> onCutLine s e p"
proof -
  assume ne: "s \<noteq> e"
  have "subVectors e s \<noteq> (0,0)" using ne by (cases s; cases e) (auto simp: subVectors_def)
  then have L: "0 < vlength (subVectors e s)" by (rule vlength_pos)
  from shaderSide_cross[OF ne, of p] L show ?thesis
    unfolding onCutLine_def by (metis mult_eq_0_iff less_irrefl)
qed

lemma vlength_scale: "vlength (fst v * c, snd v * c) = \<bar>c\<bar> * vlength v"
proof -
  have "fst v * c * (fst v * c) + snd v * c * (snd v * c) = c\<^sup>2 * (fst v * fst v + snd v * snd v)"
    by (simp add: power2_eq_square algebra_simps)
  then show ?thesis by (simp add: vlength_def real_sqrt_mult)
qed

lemma vlength_div: "vlength (fst v / c, snd v / c) = vlength v / \<bar>c\<bar>"
  using vlength_scale[of v "1 / c"] by simp

lemma vnormalize_unit: "v \<noteq> (0, 0) \<Longrightarrow> vlength (vnormalize v) = 1"
  using vlength_pos[of v] by (simp add: vnormalize_def multiplyScalar_def vlength_div)

lemma vnormalize_eq: "v \<noteq> (0, 0) \<Longrightarrow> vnormalize v = (fst v / vlength v, snd v / vlength v)"
  using vlength_pos[of v] by (simp add: vnormalize_def multiplyScalar_def)

lemma vlength_perp: "vlength (- snd v, fst v) = vlength v"
  by (simp add: vlength_def add.commute)

lemma normal_agrees:
  assumes "s \<noteq> e"
  shows "normalVectorWorld s e = shaderNormal s e"
proof -
  let ?l = "subVectors e s"
  have nz: "?l \<noteq> (0, 0)" using assms by (cases s; cases e) (auto simp: subVectors_def)
  have u: "vlength (vnormalize ?l) = 1" by (rule vnormalize_unit[OF nz])
  have "vlength (- snd (vnormalize ?l), fst (vnormalize ?l)) = 1" by (simp add: vlength_perp u)
  then have "vnormalize (- snd (vnormalize ?l), fst (vnormalize ?l)) =
             (- snd (vnormalize ?l), fst (vnormalize ?l))"
    by (simp add: vnormalize_def multiplyScalar_def)
  then show ?thesis
    by (simp add: normalVectorWorld_def shaderNormal_def Let_def glslNormalize_def
        vnormalize_eq[OF nz] vlength_perp)
qed

lemma shaderNormal_unit: "s \<noteq> e \<Longrightarrow> vlength (shaderNormal s e) = 1"
proof -
  assume ne: "s \<noteq> e"
  have nz: "subVectors e s \<noteq> (0, 0)" using ne by (cases s; cases e) (auto simp: subVectors_def)
  have "normalVectorWorld s e = vnormalize (- snd (vnormalize (subVectors e s)), fst (vnormalize (subVectors e s)))"
    by (simp add: normalVectorWorld_def Let_def)
  moreover have "(- snd (vnormalize (subVectors e s)), fst (vnormalize (subVectors e s))) \<noteq> (0, 0)"
    using vnormalize_unit[OF nz] vlength_perp[of "vnormalize (subVectors e s)"]
    by (auto simp: vlength_def)
  ultimately show ?thesis using normal_agrees[OF ne] vnormalize_unit by metis
qed

lemma shaderNormal_perp: "dot (shaderNormal s e) (subVectors e s) = 0"
  by (simp add: shaderNormal_def Let_def glslNormalize_def dot_def)

lemma shaderSide_shift:
  "shaderSide s e (addVectors q d) = shaderSide s e q + dot d (shaderNormal s e)"
  by (simp add: shaderSide_def Let_def dot_def addVectors_def subVectors_def algebra_simps)

lemma shaderSide_onLine: "s \<noteq> e \<Longrightarrow> onCutLine s e q \<Longrightarrow> shaderSide s e q = 0"
  using shaderSide_zero_iff by simp

lemma dot_self_unit: "vlength n = 1 \<Longrightarrow> dot (multiplyScalar n c) n = c"
proof -
  assume "vlength n = 1"
  then have "fst n * fst n + snd n * snd n = 1"
    unfolding vlength_def by (metis real_sqrt_eq_1_iff)
  then have "c * (fst n * fst n + snd n * snd n) = c" by simp
  then show ?thesis by (simp add: dot_def multiplyScalar_def algebra_simps)
qed

lemma clampScalar_id: "inUnitSquare p \<Longrightarrow> clampScalar 0 1 p = p"
  by (cases p) (simp add: inUnitSquare_def clampScalar_def)

lemma vlength_x0: "vlength (x, 0) = \<bar>x\<bar>"
  by (simp add: vlength_def)

lemma distanceTo_horizontal: "distanceTo (a, c) (b, c) = \<bar>a - b\<bar>"
  by (simp add: distanceTo_def)

lemma clampScalar_inUnitSquare: "inUnitSquare (clampScalar 0 1 p)"
  by (simp add: inUnitSquare_def clampScalar_def)

lemma lengthSq_vnormalize: "v \<noteq> (0, 0) \<Longrightarrow> lengthSq (vnormalize v) = 1"
  using vnormalize_unit[of v] by (simp add: vlength_def lengthSq_def)

lemma vlength_eq: "0 \<le> c \<Longrightarrow> x * x + y * y = c * c \<Longrightarrow> vlength (x, y) = c"
  by (simp add: vlength_def real_sqrt_unique power2_eq_square)

lemma sliceDiscards_side:
  assumes "0.0001 \<le> distanceTo (uSliceStart u) (uSliceEnd u)"
  shows "uSideToKeep u = 1 \<Longrightarrow> sliceDiscards u p \<longleftrightarrow> shaderSide (uSliceStart u) (uSliceEnd u) p < 0"
    and "uSideToKeep u = - 1 \<Longrightarrow> sliceDiscards u p \<longleftrightarrow> 0 < shaderSide (uSliceStart u) (uSliceEnd u) p"
  using assms by (simp_all add: sliceDiscards_def)

section \<open>Facts about the particle pool and the slice executor\<close>

lemma live_plus_free: "liveParticles pool + freeSlots pool = length pool"
  unfolding liveParticles_def freeSlots_def by (induction pool) auto

lemma findFree_None: "findFree ps = None \<longleftrightarrow> liveParticles ps = length ps"
proof (induction ps)
  case Nil
  then show ?case by (simp add: liveParticles_def)
next
  case (Cons p ps)
  have "length (filter bpVisible ps) \<noteq> Suc (length ps)"
    using length_filter_le[of bpVisible ps] by linarith
  then show ?case using Cons by (auto simp: liveParticles_def)
qed

lemma findFree_Some: "findFree ps = Some k \<Longrightarrow> k < length ps \<and> \<not> bpVisible (ps ! k)"
proof (induction ps arbitrary: k)
  case Nil
  then show ?case by simp
next
  case (Cons p ps)
  then show ?case by (cases "bpVisible p") auto
qed

lemma live_update:
  "k < length ps \<Longrightarrow> \<not> bpVisible (ps ! k) \<Longrightarrow> bpVisible q \<Longrightarrow>
   liveParticles (ps[k := q]) = Suc (liveParticles ps)"
proof (induction ps arbitrary: k)
  case Nil
  then show ?case by simp
next
  case (Cons p ps)
  then show ?case by (cases k) (auto simp: liveParticles_def)
qed

lemma activateParticle_visible: "bpVisible (activateParticle rnd base i p)"
  by (simp add: activateParticle_def Let_def)

lemma spawnParticle_frame:
  "spawnParticle rnd i st =
     st\<lparr>bloodParticlePool := bloodParticlePool (spawnParticle rnd i st),
        randomCalls := randomCalls (spawnParticle rnd i st)\<rparr>"
  by (simp add: spawnParticle_def split: option.splits)

lemma spawnParticle_length:
  "length (bloodParticlePool (spawnParticle rnd i st)) = length (bloodParticlePool st)"
  by (simp add: spawnParticle_def split: option.splits)

lemma spawnParticle_live:
  "liveParticles (bloodParticlePool (spawnParticle rnd i st)) =
     (if liveParticles (bloodParticlePool st) < length (bloodParticlePool st)
      then Suc (liveParticles (bloodParticlePool st))
      else liveParticles (bloodParticlePool st))"
proof (cases "findFree (bloodParticlePool st)")
  case None
  then show ?thesis using findFree_None[of "bloodParticlePool st"]
    by (simp add: spawnParticle_def)
next
  case (Some k)
  have "liveParticles (bloodParticlePool st) \<noteq> length (bloodParticlePool st)"
    using Some findFree_None[of "bloodParticlePool st"] by simp
  moreover have "liveParticles (bloodParticlePool st) \<le> length (bloodParticlePool st)"
    by (simp add: liveParticles_def)
  ultimately have lt: "liveParticles (bloodParticlePool st) < length (bloodParticlePool st)"
    by simp
  from findFree_Some[OF Some] show ?thesis using Some lt
    by (simp add: spawnParticle_def live_update activateParticle_visible)
qed

lemma spawnLoop_shape:
  "\<exists>pool calls. spawnLoop rnd i n st = st\<lparr>bloodParticlePool := pool, randomCalls := calls\<rparr>"
proof (induction n arbitrary: i st)
  case 0
  have "st = st\<lparr>bloodParticlePool := bloodParticlePool st, randomCalls := randomCalls st\<rparr>"
    by simp
  then show ?case by (simp only: spawnLoop.simps) blast
next
  case (Suc n)
  obtain pool calls where
    "spawnLoop rnd (Suc i) n (spawnParticle rnd i st) =
       (spawnParticle rnd i st)\<lparr>bloodParticlePool := pool, randomCalls := calls\<rparr>"
    using Suc.IH by blast
  then have "spawnLoop rnd i (Suc n) st = st\<lparr>bloodParticlePool := pool, randomCalls := calls\<rparr>"
    by (subst (asm) spawnParticle_frame) simp
  then show ?case by blast
qed

lemma spawnLoop_frame:
  "spawnLoop rnd i n st =
     st\<lparr>bloodParticlePool := bloodParticlePool (spawnLoop rnd i n st),
        randomCalls := randomCalls (spawnLoop rnd i n st)\<rparr>"
proof -
  obtain pool calls where
    e: "spawnLoop rnd i n st = st\<lparr>bloodParticlePool := pool, randomCalls := calls\<rparr>"
    using spawnLoop_shape by blast
  show ?thesis by (simp add: e)
qed

lemma spawnLoop_length:
  "length (bloodParticlePool (spawnLoop rnd i n st)) = length (bloodParticlePool st)"
  by (induction n arbitrary: i st) (simp_all add: spawnParticle_length)

lemma spawnLoop_live:
  "liveParticles (bloodParticlePool (spawnLoop rnd i n st)) =
     min (length (bloodParticlePool st)) (liveParticles (bloodParticlePool st) + n)"
proof (induction n arbitrary: i st)
  case 0
  have "liveParticles (bloodParticlePool st) \<le> length (bloodParticlePool st)"
    by (simp add: liveParticles_def)
  then show ?case by simp
next
  case (Suc n)
  have "liveParticles (bloodParticlePool st) \<le> length (bloodParticlePool st)"
    by (simp add: liveParticles_def)
  then show ?case
    by (simp add: Suc.IH spawnParticle_length spawnParticle_live)
qed

lemma spawnLoop_fields:
  "zombies (spawnLoop rnd i n st) = zombies st"
  "activeZombies (spawnLoop rnd i n st) = activeZombies st"
  "sceneZombies (spawnLoop rnd i n st) = sceneZombies st"
  "slicedPieces (spawnLoop rnd i n st) = slicedPieces st"
  "bloodTexturesLoaded (spawnLoop rnd i n st) = bloodTexturesLoaded st"
  "score (spawnLoop rnd i n st) = score st"
  "lastZombieKillTime (spawnLoop rnd i n st) = lastZombieKillTime st"
  by (subst spawnLoop_frame, simp)+

lemma spawnLoop_fields2:
  "cameraAspect (spawnLoop rnd i n st) = cameraAspect st"
  "zombieGeometry (spawnLoop rnd i n st) = zombieGeometry st"
  "gameOver (spawnLoop rnd i n st) = gameOver st"
  "mouseNDC (spawnLoop rnd i n st) = mouseNDC st"
  "sliceStartNDC (spawnLoop rnd i n st) = sliceStartNDC st"
  "sliceEndNDC (spawnLoop rnd i n st) = sliceEndNDC st"
  "sliceStartUV (spawnLoop rnd i n st) = sliceStartUV st"
  "sliceEndUV (spawnLoop rnd i n st) = sliceEndUV st"
  "sliceStartValid (spawnLoop rnd i n st) = sliceStartValid st"
  "sliceEndValid (spawnLoop rnd i n st) = sliceEndValid st"
  "zombieToSlice (spawnLoop rnd i n st) = zombieToSlice st"
  "isSlicing (spawnLoop rnd i n st) = isSlicing st"
  "previousFingerTipNDC (spawnLoop rnd i n st) = previousFingerTipNDC st"
  by (subst spawnLoop_frame, simp)+

lemma sliceBody_fields:
  "score (sliceBody now rnd r s e st) = score st + 50"
  "lastZombieKillTime (sliceBody now rnd r s e st) = now"
  "zombies (sliceBody now rnd r s e st) = zombies st"
  "activeZombies (sliceBody now rnd r s e st) = remove1 r (activeZombies st)"
  "sceneZombies (sliceBody now rnd r s e st) = remove1 r (sceneZombies st)"
  "bloodTexturesLoaded (sliceBody now rnd r s e st) = bloodTexturesLoaded st"
  "slicedPieces (sliceBody now rnd r s e st) =
     slicedPieces st @ [fst (launchPieces rnd (randomCalls st) (zombies st r) s e),
                        snd (launchPieces rnd (randomCalls st) (zombies st r) s e)]"
  "length (bloodParticlePool (sliceBody now rnd r s e st)) = length (bloodParticlePool st)"
  "liveParticles (bloodParticlePool (sliceBody now rnd r s e st)) =
     (if bloodTexturesLoaded st
      then min (length (bloodParticlePool st))
             (liveParticles (bloodParticlePool st) + numBloodParticles)
      else liveParticles (bloodParticlePool st))"
  by (simp_all add: sliceBody_def Let_def spawnLoop_fields spawnLoop_length spawnLoop_live)

lemma sliceBody_input_fields:
  "cameraAspect (sliceBody now rnd r s e st) = cameraAspect st"
  "zombieGeometry (sliceBody now rnd r s e st) = zombieGeometry st"
  "gameOver (sliceBody now rnd r s e st) = gameOver st"
  "mouseNDC (sliceBody now rnd r s e st) = mouseNDC st"
  "sliceStartNDC (sliceBody now rnd r s e st) = sliceStartNDC st"
  "sliceEndNDC (sliceBody now rnd r s e st) = sliceEndNDC st"
  "sliceStartUV (sliceBody now rnd r s e st) = sliceStartUV st"
  "sliceEndUV (sliceBody now rnd r s e st) = sliceEndUV st"
  "sliceStartValid (sliceBody now rnd r s e st) = sliceStartValid st"
  "sliceEndValid (sliceBody now rnd r s e st) = sliceEndValid st"
  "zombieToSlice (sliceBody now rnd r s e st) = zombieToSlice st"
  "isSlicing (sliceBody now rnd r s e st) = isSlicing st"
  "previousFingerTipNDC (sliceBody now rnd r s e st) = previousFingerTipNDC st"
  by (simp_all add: sliceBody_def Let_def spawnLoop_fields2)

lemma emission_fills_free_slots:
  assumes "bloodTexturesLoaded st"
  shows "liveParticles (bloodParticlePool (sliceBody now rnd r s e st)) =
           liveParticles (bloodParticlePool st) +
           min numBloodParticles (freeSlots (bloodParticlePool st))"
  using assms live_plus_free[of "bloodParticlePool st"]
  by (simp add: sliceBody_fields min_def)

lemma performSlice_noop:
  "performSlice now rnd None s e st = st"
  "zIsSliced (zombies st r) \<Longrightarrow> performSlice now rnd (Some r) s e st = st"
  "now - lastZombieKillTime st < ZOMBIE_KILL_COOLDOWN \<Longrightarrow> performSlice now rnd tz s e st = st"
  by (simp_all add: performSlice_def split: option.splits)

lemma performSlice_exec:
  "\<not> zIsSliced (zombies st r) \<Longrightarrow> ZOMBIE_KILL_COOLDOWN \<le> now - lastZombieKillTime st \<Longrightarrow>
   performSlice now rnd (Some r) s e st = sliceBody now rnd r s e st"
  by (simp add: performSlice_def)

lemma launchPieces_props:
  "pUniforms (fst (launchPieces rnd base z s e)) = pieceUniforms (zTexture z) s e 1"
  "pUniforms (snd (launchPieces rnd base z s e)) = pieceUniforms (zTexture z) s e (- 1)"
  "pPosition (fst (launchPieces rnd base z s e)) =
     (vx (zPosition z) + fst (normalVectorWorld s e) * (0.05 * vx (zScale z)),
      vy (zPosition z) + snd (normalVectorWorld s e) * (0.05 * vx (zScale z)),
      vz (zPosition z))"
  "pPosition (snd (launchPieces rnd base z s e)) =
     (vx (zPosition z) - fst (normalVectorWorld s e) * (0.05 * vx (zScale z)),
      vy (zPosition z) - snd (normalVectorWorld s e) * (0.05 * vx (zScale z)),
      vz (zPosition z))"
  "pVelocity (fst (launchPieces rnd base z s e)) =
     (fst (normalVectorWorld s e) * (0.02 * vx (zScale z)),
      snd (normalVectorWorld s e) * (0.02 * vx (zScale z)))"
  "pVelocity (snd (launchPieces rnd base z s e)) =
     (- fst (normalVectorWorld s e) * (0.02 * vx (zScale z)),
      - snd (normalVectorWorld s e) * (0.02 * vx (zScale z)))"
  by (simp_all add: launchPieces_def Let_def createSlicedMesh_def)

section \<open>Facts about the resolvers\<close>

lemma vnormalize_x0: "x \<noteq> 0 \<Longrightarrow> vnormalize (x, 0) = (sgn x, 0)"
  by (simp add: vnormalize_def vlength_x0 multiplyScalar_def sgn_real_def)

lemma directionUVApprox_horizontal:
  "fst a \<noteq> fst b \<Longrightarrow> snd a = snd b \<Longrightarrow> directionUVApprox aspect a b = (sgn (fst b - fst a), 0)"
  by (simp add: directionUVApprox_def Let_def subVectors_def vnormalize_x0 sgn_real_def)

lemma handCut_direction:
  "handCut aspect uv a b c = Some (s, e) \<Longrightarrow>
   (\<exists>e0. s = clampScalar 0 1 uv \<and> e = clampScalar 0 1 e0 \<and> \<not> distanceTo uv e0 < 0.001 \<and>
      (c = Some e0 \<or> (c = None \<and> intersectUVSquare uv (directionUVApprox aspect a b) = Some e0)))"
  by (auto simp: handCut_def directionUVApprox_def Let_def simp del: split_paired_Ex
      split: if_splits option.splits)

lemma handCut_None:
  "c = None \<Longrightarrow> intersectUVSquare uv (directionUVApprox aspect a b) = None \<Longrightarrow>
     handCut aspect uv a b c = None"
  "c = Some e \<Longrightarrow> distanceTo uv e < 0.001 \<Longrightarrow> handCut aspect uv a b c = None"
  "c = None \<Longrightarrow> intersectUVSquare uv (directionUVApprox aspect a b) = Some e \<Longrightarrow>
     distanceTo uv e < 0.001 \<Longrightarrow> handCut aspect uv a b c = None"
  by (auto simp: handCut_def directionUVApprox_def Let_def split: if_splits option.splits)

lemma mouseCut_Some:
  "mouseCut st = Some (s, e) \<Longrightarrow>
   (\<exists>e0. s = clampScalar 0 1 (sliceStartUV st) \<and> e = clampScalar 0 1 e0 \<and>
      \<not> distanceTo (sliceStartUV st) e0 < 0.001 \<and> sliceStartValid st \<and>
      ((sliceEndValid st \<and> e0 = sliceEndUV st) \<or>
       (\<not> sliceEndValid st \<and>
        intersectUVSquare (sliceStartUV st)
          (directionUVApprox (cameraAspect st) (sliceStartNDC st) (sliceEndNDC st)) = Some e0)))"
  by (auto simp: mouseCut_def Let_def simp del: split_paired_Ex split: if_splits option.splits)

lemma mouseCut_None:
  "\<not> sliceStartValid st \<Longrightarrow> mouseCut st = None"
  "sliceStartValid st \<Longrightarrow> \<not> sliceEndValid st \<Longrightarrow>
     intersectUVSquare (sliceStartUV st)
       (directionUVApprox (cameraAspect st) (sliceStartNDC st) (sliceEndNDC st)) = None \<Longrightarrow>
     mouseCut st = None"
  "sliceStartValid st \<Longrightarrow> sliceEndValid st \<Longrightarrow>
     distanceTo (sliceStartUV st) (sliceEndUV st) < 0.001 \<Longrightarrow> mouseCut st = None"
  "sliceStartValid st \<Longrightarrow> \<not> sliceEndValid st \<Longrightarrow>
     intersectUVSquare (sliceStartUV st)
       (directionUVApprox (cameraAspect st) (sliceStartNDC st) (sliceEndNDC st)) = Some e \<Longrightarrow>
     distanceTo (sliceStartUV st) e < 0.001 \<Longrightarrow> mouseCut st = None"
  by (auto simp: mouseCut_def Let_def split: if_splits option.splits)

lemma mouseCut_exec:
  assumes "sliceStartValid st"
    and "(sliceEndValid st \<and> e = sliceEndUV st) \<or>
         (\<not> sliceEndValid st \<and>
          intersectUVSquare (sliceStartUV st)
            (directionUVApprox (cameraAspect st) (sliceStartNDC st) (sliceEndNDC st)) = Some e)"
    and "0.001 \<le> distanceTo (sliceStartUV st) e"
  shows "mouseCut st = Some (clampScalar 0 1 (sliceStartUV st), clampScalar 0 1 e)"
  using assms by (auto simp: mouseCut_def Let_def)

lemma handCut_exec:
  assumes "a \<noteq> b" "aspect \<noteq> 0"
    and "c = Some e \<or> (c = None \<and> intersectUVSquare uv (directionUVApprox aspect a b) = Some e)"
    and "0.001 \<le> distanceTo uv e"
  shows "handCut aspect uv a b c = Some (clampScalar 0 1 uv, clampScalar 0 1 e)"
proof -
  let ?dn = "vnormalize (subVectors b a)"
  have nz: "subVectors b a \<noteq> (0, 0)"
    using assms(1) by (cases a; cases b) (auto simp: subVectors_def)
  have l1: "lengthSq ?dn = 1" by (rule lengthSq_vnormalize[OF nz])
  then have "?dn \<noteq> (0, 0)" by (auto simp: lengthSq_def)
  then have "(fst ?dn, snd ?dn * aspect) \<noteq> (0, 0)" using assms(2) by (cases ?dn) auto
  then have l2: "lengthSq (vnormalize (fst ?dn, snd ?dn * aspect)) = 1"
    by (rule lengthSq_vnormalize)
  show ?thesis
    using assms(3,4) l1 l2
    by (auto simp: handCut_def Let_def directionUVApprox_def)
qed

section \<open>Facts about the line-square intersection\<close>

lemma slab_eq:
  assumes "d \<noteq> 0" "0 < s" "s < 1"
  shows "slab s d (a, b) = (xmax a (Fin (tentry s d)), xmin b (Fin (texit s d)))"
proof (cases "d > 0")
  case True
  then have "(0 - s) / d < (1 - s) / d" using assms by (intro divide_strict_right_mono) auto
  then show ?thesis using True by (simp add: slab_def Let_def texit_def tentry_def)
next
  case False
  then have d: "d < 0" using assms by simp
  then have "(1 - s) / d < (0 - s) / d" using assms by (intro divide_strict_right_mono_neg) auto
  then show ?thesis using False by (simp add: slab_def Let_def texit_def tentry_def)
qed

lemma tentry_neg: "d \<noteq> 0 \<Longrightarrow> 0 < s \<Longrightarrow> s < 1 \<Longrightarrow> tentry s d < 0"
  by (cases "d > 0") (auto simp: tentry_def divide_less_0_iff)

lemma texit_pos: "d \<noteq> 0 \<Longrightarrow> 0 < s \<Longrightarrow> s < 1 \<Longrightarrow> 0 < texit s d"
  by (cases "d > 0") (auto simp: texit_def zero_less_divide_iff divide_less_0_iff)

lemma intersect_xy:
  assumes "0 < sx" "sx < 1" "0 < sy" "sy < 1" "1/1000000 \<le> \<bar>dx\<bar>" "1/1000000 \<le> \<bar>dy\<bar>"
  shows "intersectUVSquare (sx, sy) (dx, dy) =
    (let t = min (texit sx dx) (texit sy dy) in
     if t < 1/1000000 \<or> 1000000 < t then None else Some (sx + dx * t, sy + dy * t))"
proof -
  have nz: "dx \<noteq> 0" "dy \<noteq> 0" using assms by auto
  note en = tentry_neg[OF nz(1) assms(1,2)] tentry_neg[OF nz(2) assms(3,4)]
  note ex = texit_pos[OF nz(1) assms(1,2)] texit_pos[OF nz(2) assms(3,4)]
  show ?thesis using assms(5,6) en ex
    by (simp add: intersectUVSquare_def Let_def slab_eq[OF nz(1) assms(1,2)] slab_eq[OF nz(2) assms(3,4)]
         xmax_def xmin_def addVectors_def multiplyScalar_def min_def not_less)
qed

lemma intersect_x:
  assumes "0 < sx" "sx < 1" "0 < sy" "sy < 1" "1/1000000 \<le> \<bar>dx\<bar>" "\<bar>dy\<bar> < 1/1000000"
  shows "intersectUVSquare (sx, sy) (dx, dy) =
    (let t = texit sx dx in
     if t < 1/1000000 \<or> 1000000 < t then None else Some (sx + dx * t, sy + dy * t))"
proof -
  have nz: "dx \<noteq> 0" using assms by auto
  note en = tentry_neg[OF nz(1) assms(1,2)]
  note ex = texit_pos[OF nz(1) assms(1,2)]
  show ?thesis using assms en ex
    by (simp add: intersectUVSquare_def Let_def slab_eq[OF nz(1) assms(1,2)]
         xmax_def xmin_def addVectors_def multiplyScalar_def not_less)
qed

lemma intersect_y:
  assumes "0 < sx" "sx < 1" "0 < sy" "sy < 1" "\<bar>dx\<bar> < 1/1000000" "1/1000000 \<le> \<bar>dy\<bar>"
  shows "intersectUVSquare (sx, sy) (dx, dy) =
    (let t = texit sy dy in
     if t < 1/1000000 \<or> 1000000 < t then None else Some (sx + dx * t, sy + dy * t))"
proof -
  have nz: "dy \<noteq> 0" using assms by auto
  note en = tentry_neg[OF nz(1) assms(3,4)]
  note ex = texit_pos[OF nz(1) assms(3,4)]
  show ?thesis using assms en ex
    by (simp add: intersectUVSquare_def Let_def slab_eq[OF nz(1) assms(3,4)]
         xmax_def xmin_def addVectors_def multiplyScalar_def not_less)
qed

lemma texit_hits: "d \<noteq> 0 \<Longrightarrow> s + d * texit s d = (if d > 0 then 1 else 0)"
  by (simp add: texit_def)

lemma texit_within:
  assumes "d \<noteq> 0" "0 < s" "s < 1" "0 \<le> t" "t \<le> texit s d"
  shows "0 \<le> s + d * t \<and> s + d * t \<le> 1"
proof (cases "d > 0")
  case True
  then have "d * t \<le> d * texit s d" using assms by (intro mult_left_mono) auto
  also have "\<dots> = 1 - s" using True by (simp add: texit_def)
  finally have "s + d * t \<le> 1" by simp
  moreover have "0 \<le> d * t" using True assms by simp
  ultimately show ?thesis using assms by simp
next
  case False
  then have d: "d < 0" using assms by simp
  then have "d * texit s d \<le> d * t" using assms by (intro mult_left_mono_neg) auto
  moreover have "d * texit s d = - s" using d by (simp add: texit_def)
  ultimately have "0 \<le> s + d * t" by simp
  moreover have "d * t \<le> 0" using d assms by (simp add: mult_nonpos_nonneg)
  ultimately show ?thesis using assms by simp
qed

lemma exitTime_pos:
  assumes "0 < fst s" "fst s < 1" "0 < snd s" "snd s < 1" "d \<noteq> (0, 0)"
  shows "0 < exitTime s d"
  using assms by (cases d) (auto simp: exitTime_def texit_pos)

lemma exitPoint_onBoundary:
  assumes "0 < fst s" "fst s < 1" "0 < snd s" "snd s < 1" "d \<noteq> (0, 0)"
  shows "onBoundary (exitPoint s d)"
proof -
  obtain sx sy dx dy where [simp]: "s = (sx, sy)" "d = (dx, dy)" by (cases s; cases d) auto
  have s: "0 < sx" "sx < 1" "0 < sy" "sy < 1" using assms by auto
  consider (x) "dx \<noteq> 0" "dy = 0" | (y) "dx = 0" "dy \<noteq> 0"
    | (xy) "dx \<noteq> 0" "dy \<noteq> 0" "texit sx dx \<le> texit sy dy"
    | (yx) "dx \<noteq> 0" "dy \<noteq> 0" "texit sy dy < texit sx dx"
    using assms(5) by fastforce
  then show ?thesis
  proof cases
    case x
    then show ?thesis using s texit_hits[of dx sx]
      by (auto simp: exitPoint_def exitTime_def addVectors_def multiplyScalar_def onBoundary_def)
  next
    case y
    then show ?thesis using s texit_hits[of dy sy]
      by (auto simp: exitPoint_def exitTime_def addVectors_def multiplyScalar_def onBoundary_def)
  next
    case xy
    have "0 \<le> texit sx dx" using texit_pos[OF xy(1) s(1,2)] by simp
    from texit_within[OF xy(2) s(3,4) this xy(3)] texit_hits[OF xy(1), of sx] xy
    show ?thesis
      by (auto simp: exitPoint_def exitTime_def addVectors_def multiplyScalar_def onBoundary_def min_def)
  next
    case yx
    have "0 \<le> texit sy dy" using texit_pos[OF yx(2) s(3,4)] by simp
    from texit_within[OF yx(1) s(1,2) this] yx(3) texit_hits[OF yx(2), of sy] yx
    show ?thesis
      by (auto simp: exitPoint_def exitTime_def addVectors_def multiplyScalar_def onBoundary_def min_def)
  qed
qed

lemma intersect_exit:
  assumes "0 < fst s" "fst s < 1" "0 < snd s" "snd s < 1"
    and "fst d = 0 \<or> 1 / 1000000 \<le> \<bar>fst d\<bar>" "snd d = 0 \<or> 1 / 1000000 \<le> \<bar>snd d\<bar>"
    and "d \<noteq> (0, 0)"
  shows "intersectUVSquare s d =
     (if exitTime s d < 1 / 1000000 \<or> 1000000 < exitTime s d then None
      else Some (exitPoint s d))"
proof -
  obtain sx sy dx dy where [simp]: "s = (sx, sy)" "d = (dx, dy)" by (cases s; cases d) auto
  have s: "0 < sx" "sx < 1" "0 < sy" "sy < 1" using assms by auto
  consider (x) "1 / 1000000 \<le> \<bar>dx\<bar>" "dy = 0" | (y) "dx = 0" "1 / 1000000 \<le> \<bar>dy\<bar>"
    | (xy) "1 / 1000000 \<le> \<bar>dx\<bar>" "1 / 1000000 \<le> \<bar>dy\<bar>"
    using assms(5,6,7) by fastforce
  then show ?thesis
  proof cases
    case x
    then have "dx \<noteq> 0" by auto
    with x show ?thesis using intersect_x[OF s x(1), of dy]
      by (simp add: exitTime_def exitPoint_def addVectors_def multiplyScalar_def Let_def)
  next
    case y
    then have "dy \<noteq> 0" by auto
    with y show ?thesis using intersect_y[OF s _ y(2), of dx]
      by (simp add: exitTime_def exitPoint_def addVectors_def multiplyScalar_def Let_def)
  next
    case xy
    then have "dx \<noteq> 0" "dy \<noteq> 0" by auto
    with xy show ?thesis using intersect_xy[OF s xy]
      by (simp add: exitTime_def exitPoint_def addVectors_def multiplyScalar_def Let_def)
  qed
qed

lemma texit_bounds:
  assumes "1 / 1000000 \<le> s" "s \<le> 1 - 1 / 1000000" "1 / 1000000 \<le> \<bar>d\<bar>" "\<bar>d\<bar> \<le> 1"
  shows "1 / 1000000 \<le> texit s d \<and> texit s d \<le> 1000000"
proof (cases "d > 0")
  case True
  have "1 / 1000000 \<le> (1 - s) / 1" using assms by simp
  also have "\<dots> \<le> (1 - s) / d" using True assms by (intro divide_left_mono) auto
  finally have lo: "1 / 1000000 \<le> texit s d" using True by (simp add: texit_def)
  have "(1 - s) / d \<le> 1 / d" using True assms by (intro divide_right_mono) auto
  also have "\<dots> \<le> 1 / (1 / 1000000)" using True assms by (intro divide_left_mono) auto
  finally show ?thesis using lo True by (simp add: texit_def)
next
  case False
  then have d: "d < 0" "0 < - d" using assms by auto
  have e: "texit s d = s / (- d)" using d by (simp add: texit_def)
  have "1 / 1000000 \<le> s / 1" using assms by simp
  also have "\<dots> \<le> s / (- d)" using d assms by (intro divide_left_mono) auto
  finally have lo: "1 / 1000000 \<le> texit s d" using e by simp
  have "s / (- d) \<le> 1 / (- d)" using d assms by (intro divide_right_mono) auto
  also have "\<dots> \<le> 1 / (1 / 1000000)" using d assms by (intro divide_left_mono) auto
  finally show ?thesis using lo e by simp
qed

lemma exitTime_bounds:
  assumes "1 / 1000000 \<le> fst s" "fst s \<le> 1 - 1 / 1000000"
      "1 / 1000000 \<le> snd s" "snd s \<le> 1 - 1 / 1000000"
    and "fst d = 0 \<or> 1 / 1000000 \<le> \<bar>fst d\<bar>" "snd d = 0 \<or> 1 / 1000000 \<le> \<bar>snd d\<bar>"
    and "\<bar>fst d\<bar> \<le> 1" "\<bar>snd d\<bar> \<le> 1" "d \<noteq> (0, 0)"
  shows "1 / 1000000 \<le> exitTime s d \<and> exitTime s d \<le> 1000000"
proof -
  obtain sx sy dx dy where [simp]: "s = (sx, sy)" "d = (dx, dy)" by (cases s; cases d) auto
  consider (x) "1 / 1000000 \<le> \<bar>dx\<bar>" "dy = 0" | (y) "dx = 0" "1 / 1000000 \<le> \<bar>dy\<bar>"
    | (xy) "1 / 1000000 \<le> \<bar>dx\<bar>" "1 / 1000000 \<le> \<bar>dy\<bar>"
    using assms(5,6,9) by fastforce
  then show ?thesis
  proof cases
    case x
    then have "dx \<noteq> 0" by auto
    then show ?thesis using x texit_bounds[of sx dx] assms by (simp add: exitTime_def)
  next
    case y
    then show ?thesis using texit_bounds[of sy dy] assms by (simp add: exitTime_def)
  next
    case xy
    then have "dx \<noteq> 0" "dy \<noteq> 0" by auto
    then show ?thesis using xy texit_bounds[of sx dx] texit_bounds[of sy dy] assms
      by (simp add: exitTime_def min_def)
  qed
qed


lemma slab_any:
  assumes "d \<noteq> 0"
  shows "slab s d (a, b) = (xmax a (Fin (tentry s d)), xmin b (Fin (texit s d)))"
proof (cases "d > 0")
  case True
  then have "(0 - s) / d < (1 - s) / d" by (intro divide_strict_right_mono) auto
  then show ?thesis using True by (simp add: slab_def Let_def texit_def tentry_def)
next
  case False
  then have d: "d < 0" using assms by simp
  then have "(1 - s) / d < (0 - s) / d" by (intro divide_strict_right_mono_neg) auto
  then show ?thesis using False by (simp add: slab_def Let_def texit_def tentry_def)
qed

lemma tentry_nonpos: "d \<noteq> 0 \<Longrightarrow> 0 \<le> s \<Longrightarrow> s \<le> 1 \<Longrightarrow> tentry s d \<le> 0"
  by (cases "d > 0") (auto simp: tentry_def divide_le_0_iff)

lemma texit_nonneg: "d \<noteq> 0 \<Longrightarrow> 0 \<le> s \<Longrightarrow> s \<le> 1 \<Longrightarrow> 0 \<le> texit s d"
  by (cases "d > 0") (auto simp: texit_def zero_le_divide_iff divide_le_0_iff)

lemma texit_inside:
  assumes "d \<noteq> 0" "0 \<le> s" "s \<le> 1" "0 \<le> t" "t \<le> texit s d"
  shows "0 \<le> s + d * t \<and> s + d * t \<le> 1"
proof (cases "d > 0")
  case True
  then have "d * t \<le> d * texit s d" using assms by (intro mult_left_mono) auto
  also have "\<dots> = 1 - s" using True by (simp add: texit_def)
  finally have "s + d * t \<le> 1" by simp
  moreover have "0 \<le> d * t" using True assms by simp
  ultimately show ?thesis using assms by simp
next
  case False
  then have d: "d < 0" using assms by simp
  then have "d * texit s d \<le> d * t" using assms by (intro mult_left_mono_neg) auto
  moreover have "d * texit s d = - s" using d by (simp add: texit_def)
  ultimately have "0 \<le> s + d * t" by simp
  moreover have "d * t \<le> 0" using d assms by (simp add: mult_nonpos_nonneg)
  ultimately show ?thesis using assms by simp
qed

lemma intersect_from_square:
  assumes "inUnitSquare (sx, sy)"
  shows "1/1000000 \<le> \<bar>dx\<bar> \<Longrightarrow> 1/1000000 \<le> \<bar>dy\<bar> \<Longrightarrow>
     intersectUVSquare (sx, sy) (dx, dy) =
       (let t = min (texit sx dx) (texit sy dy) in
        if t < 1/1000000 \<or> 1000000 < t then None else Some (sx + dx * t, sy + dy * t))"
    and "1/1000000 \<le> \<bar>dx\<bar> \<Longrightarrow> \<bar>dy\<bar> < 1/1000000 \<Longrightarrow>
     intersectUVSquare (sx, sy) (dx, dy) =
       (let t = texit sx dx in
        if t < 1/1000000 \<or> 1000000 < t then None else Some (sx + dx * t, sy + dy * t))"
    and "\<bar>dx\<bar> < 1/1000000 \<Longrightarrow> 1/1000000 \<le> \<bar>dy\<bar> \<Longrightarrow>
     intersectUVSquare (sx, sy) (dx, dy) =
       (let t = texit sy dy in
        if t < 1/1000000 \<or> 1000000 < t then None else Some (sx + dx * t, sy + dy * t))"
    and "\<bar>dx\<bar> < 1/1000000 \<Longrightarrow> \<bar>dy\<bar> < 1/1000000 \<Longrightarrow>
     intersectUVSquare (sx, sy) (dx, dy) = None"
proof -
  have s: "0 \<le> sx" "sx \<le> 1" "0 \<le> sy" "sy \<le> 1" using assms by (simp_all add: inUnitSquare_def)
  {
    assume a: "1/1000000 \<le> \<bar>dx\<bar>" "1/1000000 \<le> \<bar>dy\<bar>"
    then have nz: "dx \<noteq> 0" "dy \<noteq> 0" by auto
    note en = tentry_nonpos[OF nz(1) s(1,2)] tentry_nonpos[OF nz(2) s(3,4)]
    note ex = texit_nonneg[OF nz(1) s(1,2)] texit_nonneg[OF nz(2) s(3,4)]
    show "intersectUVSquare (sx, sy) (dx, dy) =
       (let t = min (texit sx dx) (texit sy dy) in
        if t < 1/1000000 \<or> 1000000 < t then None else Some (sx + dx * t, sy + dy * t))"
      using a en ex s
      by (simp add: intersectUVSquare_def Let_def slab_any[OF nz(1)] slab_any[OF nz(2)]
           xmax_def xmin_def addVectors_def multiplyScalar_def min_def not_less)
  }
  {
    assume a: "1/1000000 \<le> \<bar>dx\<bar>" "\<bar>dy\<bar> < 1/1000000"
    then have nz: "dx \<noteq> 0" by auto
    note en = tentry_nonpos[OF nz(1) s(1,2)]
    note ex = texit_nonneg[OF nz(1) s(1,2)]
    show "intersectUVSquare (sx, sy) (dx, dy) =
       (let t = texit sx dx in
        if t < 1/1000000 \<or> 1000000 < t then None else Some (sx + dx * t, sy + dy * t))"
      using a en ex s
      by (simp add: intersectUVSquare_def Let_def slab_any[OF nz(1)]
           xmax_def xmin_def addVectors_def multiplyScalar_def not_less)
  }
  {
    assume a: "\<bar>dx\<bar> < 1/1000000" "1/1000000 \<le> \<bar>dy\<bar>"
    then have nz: "dy \<noteq> 0" by auto
    note en = tentry_nonpos[OF nz(1) s(3,4)]
    note ex = texit_nonneg[OF nz(1) s(3,4)]
    show "intersectUVSquare (sx, sy) (dx, dy) =
       (let t = texit sy dy in
        if t < 1/1000000 \<or> 1000000 < t then None else Some (sx + dx * t, sy + dy * t))"
      using a en ex s
      by (simp add: intersectUVSquare_def Let_def slab_any[OF nz(1)]
           xmax_def xmin_def addVectors_def multiplyScalar_def not_less)
  }
  {
    assume a: "\<bar>dx\<bar> < 1/1000000" "\<bar>dy\<bar> < 1/1000000"
    show "intersectUVSquare (sx, sy) (dx, dy) = None"
      using a s by (simp add: intersectUVSquare_def Let_def)
  }
qed

lemma intersect_stays_in_square:
  assumes "inUnitSquare s"
    and "fst d = 0 \<or> 1 / 1000000 \<le> \<bar>fst d\<bar>" "snd d = 0 \<or> 1 / 1000000 \<le> \<bar>snd d\<bar>"
    and "intersectUVSquare s d = Some e"
  shows "inUnitSquare e"
proof -
  obtain sx sy dx dy where [simp]: "s = (sx, sy)" "d = (dx, dy)" by (cases s; cases d) auto
  have sq: "inUnitSquare (sx, sy)" using assms(1) by simp
  have s: "0 \<le> sx" "sx \<le> 1" "0 \<le> sy" "sy \<le> 1" using assms by (simp_all add: inUnitSquare_def)
  consider (xy) "1 / 1000000 \<le> \<bar>dx\<bar>" "1 / 1000000 \<le> \<bar>dy\<bar>"
    | (x) "1 / 1000000 \<le> \<bar>dx\<bar>" "dy = 0" | (y) "dx = 0" "1 / 1000000 \<le> \<bar>dy\<bar>"
    | (z) "dx = 0" "dy = 0"
    using assms(2,3) by fastforce
  then show ?thesis
  proof cases
    case xy
    then have nz: "dx \<noteq> 0" "dy \<noteq> 0" by auto
    let ?t = "min (texit sx dx) (texit sy dy)"
    from assms(4) intersect_from_square(1)[OF sq xy]
    have t: "1 / 1000000 \<le> ?t" and e: "e = (sx + dx * ?t, sy + dy * ?t)"
      by (auto simp: Let_def split: if_splits)
    have "0 \<le> ?t" using t by simp
    from texit_inside[OF nz(1) s(1,2) this] texit_inside[OF nz(2) s(3,4) this]
    show ?thesis by (simp add: e inUnitSquare_def)
  next
    case x
    then have nz: "dx \<noteq> 0" by auto
    let ?t = "texit sx dx"
    from assms(4) intersect_from_square(2)[OF sq x(1), of dy] x(2)
    have t: "1 / 1000000 \<le> ?t" and e: "e = (sx + dx * ?t, sy)"
      by (auto simp: Let_def split: if_splits)
    have "0 \<le> ?t" using t by simp
    from texit_inside[OF nz(1) s(1,2) this]
    show ?thesis using s by (simp add: e inUnitSquare_def)
  next
    case y
    then have nz: "dy \<noteq> 0" by auto
    let ?t = "texit sy dy"
    from assms(4) intersect_from_square(3)[OF sq _ y(2), of dx] y(1)
    have t: "1 / 1000000 \<le> ?t" and e: "e = (sx, sy + dy * ?t)"
      by (auto simp: Let_def split: if_splits)
    have "0 \<le> ?t" using t by simp
    from texit_inside[OF nz(1) s(3,4) this]
    show ?thesis using s by (simp add: e inUnitSquare_def)
  next
    case z
    then show ?thesis using assms(4) intersect_from_square(4)[OF sq, of dx dy] by simp
  qed
qed

section \<open>The partition of the surface by the two visibility tests\<close>

text \<open>
  C1. For a cut line with both points in the unit square and more than 0.001 apart, and
  a UV point that is not on the infinite line through them, exactly one of the two
  slicing tests (side to keep \<open>+1\<close> and \<open>-1\<close>) keeps the point. Where the texture is
  not transparent there (alpha at least 0.1), exactly one of the two pieces draws the
  pixel.
\<close>

theorem visibility_partition:
  assumes "inUnitSquare s" "inUnitSquare e" "distanceTo s e > 0.001" "\<not> onCutLine s e p"
  shows "((\<not> sliceDiscards (pieceUniforms t s e 1) p) \<noteq>
          (\<not> sliceDiscards (pieceUniforms t s e (- 1)) p)) \<and>
         (0.1 \<le> alpha p \<longrightarrow>
            fragmentShader alpha (pieceUniforms t s e 1) p \<noteq>
            fragmentShader alpha (pieceUniforms t s e (- 1)) p)"
proof -
  have ne: "s \<noteq> e" using assms(3) by (intro distanceTo_pos_imp_neq) simp
  have nz: "shaderSide s e p \<noteq> 0" using shaderSide_zero_iff[OF ne] assms(4) by simp
  have far: "\<not> distanceTo s e < 0.0001" using assms(3) by simp
  have a: "(\<not> sliceDiscards (pieceUniforms t s e 1) p) \<noteq>
           (\<not> sliceDiscards (pieceUniforms t s e (- 1)) p)"
    using nz far by (auto simp: sliceDiscards_def pieceUniforms_def)
  then show ?thesis by (auto simp: fragmentShader_def)
qed

text \<open>
  The theorem at the horizontal cut from (0, 1/2) to (1, 1/2) and the point (1/2, 1):
  the piece with side \<open>+1\<close> keeps it, the piece with side \<open>-1\<close> does not.
\<close>

theorem visibility_partition_witness:
  "inUnitSquare (0, 1/2) \<and> inUnitSquare (1, 1/2) \<and> distanceTo (0, 1/2) (1, 1/2) > 0.001 \<and>
   \<not> onCutLine (0, 1/2) (1, 1/2) (1/2, 1) \<and>
   ((\<not> sliceDiscards (pieceUniforms 0 (0, 1/2) (1, 1/2) 1) (1/2, 1)) \<noteq>
    (\<not> sliceDiscards (pieceUniforms 0 (0, 1/2) (1, 1/2) (- 1)) (1/2, 1))) \<and>
   fragmentShader (\<lambda>_. 1) (pieceUniforms 0 (0, 1/2) (1, 1/2) 1) (1/2, 1) \<noteq>
   fragmentShader (\<lambda>_. 1) (pieceUniforms 0 (0, 1/2) (1, 1/2) (- 1)) (1/2, 1)"
proof -
  have h1: "inUnitSquare (0, 1/2)" and h2: "inUnitSquare (1, 1/2)"
    by (simp_all add: inUnitSquare_def)
  have h3: "distanceTo (0, 1/2) (1, 1/2) > 0.001" by (simp add: distanceTo_def)
  have h4: "\<not> onCutLine (0, 1/2) (1, 1/2) (1/2, 1)" by (simp add: onCutLine_def)
  show ?thesis
    using visibility_partition[OF h1 h2 h3 h4, of 0 "\<lambda>_. 1"] h1 h2 h3 h4 by simp
qed

section \<open>What the line-square intersection returns\<close>

text \<open>
  C4, as the claim states it, fails: a start point strictly inside the square and a
  non-zero direction can give \<^verbatim>\<open>null\<close>. A direction shorter than \<^verbatim>\<open>1e-6\<close> on both
  axes is treated as parallel to both, and a start closer than \<^verbatim>\<open>1e-6\<close> (in time) to
  the edge the ray leaves by is rejected by the guard \<^verbatim>\<open>tMax < 1e-6\<close>.
\<close>

theorem intersectUVSquare_null_counterexample:
  "0 < (1/2::real) \<and> (1/2::real) < 1 \<and> ((1/10000000, 0)::vec2) \<noteq> (0, 0) \<and>
   intersectUVSquare (1/2, 1/2) (1/10000000, 0) = None \<and>
   0 < (1 - 1/10000000::real) \<and> (1 - 1/10000000::real) < 1 \<and> ((1, 0)::vec2) \<noteq> (0, 0) \<and>
   intersectUVSquare (1 - 1/10000000, 1/2) (1, 0) = None"
  by (simp add: intersectUVSquare_def Let_def slab_def xmax_def xmin_def)

text \<open>
  C4, amended. For a start point strictly inside the square and a non-zero direction
  whose components are each exactly zero or at least \<^verbatim>\<open>1e-6\<close> in magnitude, the ray
  leaves the square at a positive time \<open>exitTime\<close>, at a point of the boundary, and
  \<^verbatim>\<open>intersectUVSquare\<close> returns exactly that point when the exit time lies between
  \<^verbatim>\<open>1e-6\<close> and \<^verbatim>\<open>1e6\<close>, and \<^verbatim>\<open>null\<close> otherwise. It does return the point when the
  start is at least \<^verbatim>\<open>1e-6\<close> away from every edge and no component of the direction
  exceeds 1 in magnitude.
\<close>

theorem intersectUVSquare_exit:
  assumes "0 < fst s" "fst s < 1" "0 < snd s" "snd s < 1"
    and "fst d = 0 \<or> 1 / 1000000 \<le> \<bar>fst d\<bar>" "snd d = 0 \<or> 1 / 1000000 \<le> \<bar>snd d\<bar>"
    and "d \<noteq> (0, 0)"
  shows "0 < exitTime s d \<and> onBoundary (exitPoint s d) \<and>
         exitPoint s d = addVectors s (multiplyScalar d (exitTime s d)) \<and>
         intersectUVSquare s d =
           (if exitTime s d < 1 / 1000000 \<or> 1000000 < exitTime s d then None
            else Some (exitPoint s d)) \<and>
         (1 / 1000000 \<le> fst s \<and> fst s \<le> 1 - 1 / 1000000 \<and>
          1 / 1000000 \<le> snd s \<and> snd s \<le> 1 - 1 / 1000000 \<and>
          \<bar>fst d\<bar> \<le> 1 \<and> \<bar>snd d\<bar> \<le> 1 \<longrightarrow>
            intersectUVSquare s d = Some (exitPoint s d))"
proof -
  note eq = intersect_exit[OF assms]
  have "intersectUVSquare s d = Some (exitPoint s d)"
    if "1 / 1000000 \<le> fst s" "fst s \<le> 1 - 1 / 1000000"
       "1 / 1000000 \<le> snd s" "snd s \<le> 1 - 1 / 1000000" "\<bar>fst d\<bar> \<le> 1" "\<bar>snd d\<bar> \<le> 1"
    using exitTime_bounds[OF that(1-4) assms(5,6) that(5,6) assms(7)] eq by simp
  then show ?thesis
    using exitTime_pos[OF assms(1-4,7)] exitPoint_onBoundary[OF assms(1-4,7)] eq
    by (simp add: exitPoint_def)
qed

text \<open>
  The theorem at the start (3/10, 3/10) and the direction (1, 0): the ray leaves at
  time 7/10 and the function returns (1, 3/10).
\<close>

theorem intersectUVSquare_exit_witness:
  "0 < fst ((3/10, 3/10)::vec2) \<and> fst ((3/10, 3/10)::vec2) < 1 \<and>
   ((1, 0)::vec2) \<noteq> (0, 0) \<and> 1 / 1000000 \<le> \<bar>fst ((1, 0)::vec2)\<bar> \<and>
   exitTime (3/10, 3/10) (1, 0) = 7/10 \<and>
   intersectUVSquare (3/10, 3/10) (1, 0) = Some (1, 3/10) \<and> onBoundary (1, 3/10)"
proof -
  have t: "exitTime (3/10, 3/10) (1, 0) = 7/10" by (simp add: exitTime_def texit_def)
  have p: "exitPoint (3/10, 3/10) (1, 0) = (1, 3/10)"
    by (simp add: exitPoint_def t addVectors_def multiplyScalar_def)
  have r: "intersectUVSquare (3/10, 3/10) (1, 0) = Some (exitPoint (3/10, 3/10) (1, 0))"
    using intersectUVSquare_exit[of "(3/10, 3/10)" "(1, 0)"] by (simp add: t)
  show ?thesis by (simp add: r t p onBoundary_def)
qed


section \<open>Concrete games\<close>

text \<open>
  The games used as examples below: the module has loaded, the zombie frames are there,
  and \<^verbatim>\<open>spawnZombie\<close> has run once or twice, with every \<^verbatim>\<open>Math.random()\<close> giving
  1/2 and a camera of aspect ratio 1.
\<close>

lemma loadBloodTextures_effect:
  "loadedBloodCount st l = 0 \<Longrightarrow>
   loadBloodTextures l st =
     st\<lparr>bloodTextures := bloodTextures st + 7,
        loadedBloodCount := (loadedBloodCount st)(l := 7),
        bloodTexturesLoaded := True,
        bloodParticlePool := bloodParticlePool st @ replicate MAX_BLOOD_PARTICLES freshParticle\<rparr>"
  by (simp add: loadBloodTextures_def bloodTextureFiles_def eval_nat_numeral
      onBloodTextureLoad_def Let_def)

lemma liveParticles_append:
  "liveParticles (xs @ ys) = liveParticles xs + liveParticles ys"
  by (simp add: liveParticles_def)

lemma liveParticles_fresh: "liveParticles (replicate n freshParticle) = 0"
  by (simp add: liveParticles_def freshParticle_def)

lemma spawned_one:
  "spawnZombie (\<lambda>_. 1/2) (zombieFramesReady (initialGame 1)) =
     (zombieFramesReady (initialGame 1))
       \<lparr>zombies := (\<lambda>_. noMesh)
          (0 := \<lparr>zPosition = (0, - 31/20, - 20), zRotation = (0, 0, 0),
                 zScale = (23/100, 23/100, 1), zTexture = 0, zIsSliced = False\<rparr>),
        nextZombie := 1, sceneZombies := [0], activeZombies := [0], randomCalls := 2\<rparr>"
  by (simp add: spawnZombie_def Let_def zombieFramesReady_def initialGame_def FLOOR_Y_def)

lemma spawned_two:
  "spawnZombie (\<lambda>_. 1/2) (spawnZombie (\<lambda>_. 1/2) (zombieFramesReady (initialGame 1))) =
     (zombieFramesReady (initialGame 1))
       \<lparr>zombies := (\<lambda>_. noMesh)
          (0 := \<lparr>zPosition = (0, - 31/20, - 20), zRotation = (0, 0, 0),
                 zScale = (23/100, 23/100, 1), zTexture = 0, zIsSliced = False\<rparr>,
           1 := \<lparr>zPosition = (0, - 31/20, - 20), zRotation = (0, 0, 0),
                 zScale = (23/100, 23/100, 1), zTexture = 0, zIsSliced = False\<rparr>),
        nextZombie := 2, sceneZombies := [0, 1], activeZombies := [0, 1], randomCalls := 4\<rparr>"
  unfolding spawned_one
  by (simp add: spawnZombie_def Let_def zombieFramesReady_def initialGame_def FLOOR_Y_def)

lemma oneZombie_fields:
  "\<not> sliceStartValid oneZombie" "cameraAspect oneZombie = 1" "\<not> zIsSliced (zombies oneZombie 0)"
  "lastZombieKillTime oneZombie = 0" "score oneZombie = 0" "slicedPieces oneZombie = []"
  "\<not> gameOver oneZombie" "activeZombies oneZombie = [0]" "\<not> isSlicing oneZombie"
  "zombieToSlice oneZombie = None" "previousFingerTipNDC oneZombie = None"
  "zombieGeometry oneZombie"
  "zScale (zombies oneZombie 0) = (23/100, 23/100, 1)"
  "zPosition (zombies oneZombie 0) = (0, - 31/20, - 20)"
  unfolding oneZombie_def spawned_one by (simp_all add: zombieFramesReady_def initialGame_def)

lemma spawnZombie_scale_pos:
  assumes "\<not> gameOver st" "allZombieFramesLoaded st" "zombieGeometry st" "0 \<le> rnd (randomCalls st)"
  shows "0 < vx (zScale (zombies (spawnZombie rnd st) (nextZombie st)))"
proof -
  have "0 < (0.8 + rnd (randomCalls st) * 0.7) * max 0.1 (5 / (5 - (- 20)))"
    using assms(4) by (intro mult_pos_pos) auto
  then show ?thesis using assms(1-3) by (simp add: spawnZombie_def Let_def vx_def)
qed

section \<open>Slicing the same target twice\<close>

text \<open>
  C2 says that a second call of \<^verbatim>\<open>performSlice\<close> on a target already sliced, after
  the cooldown, does nothing. The code does not do that. \<^verbatim>\<open>performSlice\<close> tests
  \<^verbatim>\<open>targetZombie.userData.isSliced\<close>, but nothing in the module ever sets that flag:
  the first slice leaves it \<^verbatim>\<open>false\<close>. So whenever the first call executes and the
  second comes at least 0.2 seconds later with the same reference, the second executes
  too: the score has gone up by 100 and four pieces have been added.
\<close>

theorem performSlice_twice:
  assumes "\<not> zIsSliced (zombies st r)" "0.2 \<le> ta - lastZombieKillTime st"
    and "0.2 \<le> tb - ta"
  shows "score (performSlice ta rnd (Some r) sa ea st) = score st + 50 \<and>
         length (slicedPieces (performSlice ta rnd (Some r) sa ea st)) =
           length (slicedPieces st) + 2 \<and>
         activeZombies (performSlice ta rnd (Some r) sa ea st) = remove1 r (activeZombies st) \<and>
         score (performSlice tb rnd (Some r) sb eb (performSlice ta rnd (Some r) sa ea st)) =
           score st + 100 \<and>
         length (slicedPieces
           (performSlice tb rnd (Some r) sb eb (performSlice ta rnd (Some r) sa ea st))) =
           length (slicedPieces st) + 4"
proof -
  have one: "performSlice ta rnd (Some r) sa ea st = sliceBody ta rnd r sa ea st"
    using assms(1,2) by (intro performSlice_exec) (simp_all add: ZOMBIE_KILL_COOLDOWN_def)
  have two: "performSlice tb rnd (Some r) sb eb (sliceBody ta rnd r sa ea st) =
             sliceBody tb rnd r sb eb (sliceBody ta rnd r sa ea st)"
    using assms(1,3)
    by (intro performSlice_exec) (simp_all add: ZOMBIE_KILL_COOLDOWN_def sliceBody_fields)
  show ?thesis by (simp add: one two sliceBody_fields)
qed

text \<open>
  The theorem at a game with one zombie, sliced at the times 1 and 2: the zombie has left
  \<^verbatim>\<open>activeZombies\<close> after the first call, and the second call still adds two pieces
  and 50 points.
\<close>

theorem performSlice_twice_witness:
  "\<not> zIsSliced (zombies (spawnZombie (\<lambda>_. 1/2) (zombieFramesReady (initialGame 1))) 0) \<and>
   0.2 \<le> 1 - lastZombieKillTime (spawnZombie (\<lambda>_. 1/2) (zombieFramesReady (initialGame 1))) \<and>
   (0.2::real) \<le> 2 - 1 \<and>
   activeZombies (performSlice 1 (\<lambda>_. 1/2) (Some 0) (0, 1/2) (1, 1/2)
     (spawnZombie (\<lambda>_. 1/2) (zombieFramesReady (initialGame 1)))) = [] \<and>
   score (performSlice 2 (\<lambda>_. 1/2) (Some 0) (0, 1/2) (1, 1/2)
     (performSlice 1 (\<lambda>_. 1/2) (Some 0) (0, 1/2) (1, 1/2)
       (spawnZombie (\<lambda>_. 1/2) (zombieFramesReady (initialGame 1))))) = 100 \<and>
   length (slicedPieces (performSlice 2 (\<lambda>_. 1/2) (Some 0) (0, 1/2) (1, 1/2)
     (performSlice 1 (\<lambda>_. 1/2) (Some 0) (0, 1/2) (1, 1/2)
       (spawnZombie (\<lambda>_. 1/2) (zombieFramesReady (initialGame 1)))))) = 4"
proof -
  let ?g = "spawnZombie (\<lambda>_. 1/2) (zombieFramesReady (initialGame 1))"
  have h1: "\<not> zIsSliced (zombies ?g 0)"
    unfolding spawned_one by (simp add: zombieFramesReady_def initialGame_def)
  have h2: "0.2 \<le> 1 - lastZombieKillTime ?g"
    unfolding spawned_one by (simp add: zombieFramesReady_def initialGame_def)
  have h3: "(0.2::real) \<le> 2 - 1" by simp
  have f: "score ?g = 0" "slicedPieces ?g = []" "activeZombies ?g = [0]"
    unfolding spawned_one by (simp_all add: zombieFramesReady_def initialGame_def)
  show ?thesis
    using performSlice_twice[OF h1 h2 h3, where rnd = "\<lambda>_. 1/2" and sa = "(0, 1/2)"
        and ea = "(1, 1/2)" and sb = "(0, 1/2)" and eb = "(1, 1/2)"]
      h1 h2 h3 by (simp add: f)
qed

section \<open>The cooldown\<close>

text \<open>
  C3. The first of two slice requests on two different fresh targets executes (the
  cooldown since the last kill is over). If the second comes less than 0.2 seconds
  later it does nothing, whether it comes through \<^verbatim>\<open>performSlice\<close>, through the
  mouse's \<^verbatim>\<open>calculateAndPerformSlice\<close> or through the hand's
  \<^verbatim>\<open>calculateAndPerformSliceHand\<close>. If it comes more than 0.2 seconds later it
  executes too: both targets have left \<^verbatim>\<open>activeZombies\<close>, the score has gone up by
  100 and four pieces have been added.
\<close>

theorem cooldown_serializes:
  assumes "\<not> zIsSliced (zombies st ra)" "\<not> zIsSliced (zombies st rb)" "ra \<noteq> rb"
    and "0.2 \<le> ta - lastZombieKillTime st"
  shows "performSlice ta rnd (Some ra) sa ea st = sliceBody ta rnd ra sa ea st \<and>
    (tb - ta < 0.2 \<longrightarrow>
       performSlice tb rnd (Some rb) sb eb (performSlice ta rnd (Some ra) sa ea st) =
         performSlice ta rnd (Some ra) sa ea st \<and>
       calculateAndPerformSlice tb rnd (Some rb) (performSlice ta rnd (Some ra) sa ea st) =
         performSlice ta rnd (Some ra) sa ea st \<and>
       calculateAndPerformSliceHand tb rnd (Some rb) uv a b c
           (performSlice ta rnd (Some ra) sa ea st) =
         performSlice ta rnd (Some ra) sa ea st) \<and>
    (0.2 < tb - ta \<longrightarrow>
       performSlice tb rnd (Some rb) sb eb (performSlice ta rnd (Some ra) sa ea st) =
         sliceBody tb rnd rb sb eb (sliceBody ta rnd ra sa ea st) \<and>
       score (performSlice tb rnd (Some rb) sb eb (performSlice ta rnd (Some ra) sa ea st)) =
         score st + 100 \<and>
       length (slicedPieces
         (performSlice tb rnd (Some rb) sb eb (performSlice ta rnd (Some ra) sa ea st))) =
         length (slicedPieces st) + 4 \<and>
       activeZombies
         (performSlice tb rnd (Some rb) sb eb (performSlice ta rnd (Some ra) sa ea st)) =
         remove1 rb (remove1 ra (activeZombies st)))"
proof -
  have one: "performSlice ta rnd (Some ra) sa ea st = sliceBody ta rnd ra sa ea st"
    using assms(1,4) by (intro performSlice_exec) (simp_all add: ZOMBIE_KILL_COOLDOWN_def)
  have early: "performSlice tb rnd tz s e (sliceBody ta rnd ra sa ea st) =
               sliceBody ta rnd ra sa ea st" if "tb - ta < 0.2" for tz s e
    using that by (intro performSlice_noop(3)) (simp add: sliceBody_fields ZOMBIE_KILL_COOLDOWN_def)
  have late: "performSlice tb rnd (Some rb) sb eb (sliceBody ta rnd ra sa ea st) =
              sliceBody tb rnd rb sb eb (sliceBody ta rnd ra sa ea st)" if "0.2 < tb - ta"
    using that assms(2)
    by (intro performSlice_exec) (simp_all add: sliceBody_fields ZOMBIE_KILL_COOLDOWN_def)
  show ?thesis
    by (auto simp: one early late sliceBody_fields calculateAndPerformSlice_def
        calculateAndPerformSliceHand_def split: option.splits)
qed

text \<open>
  The theorem at a game with two zombies: the first sliced at time 1, the second
  requested at time 1.1 (nothing happens, the score stays 50) and at time 1.25 (it is
  sliced, the score is 100 and no zombie is left).
\<close>

theorem cooldown_serializes_witness:
  "\<not> zIsSliced (zombies
      (spawnZombie (\<lambda>_. 1/2) (spawnZombie (\<lambda>_. 1/2) (zombieFramesReady (initialGame 1)))) 0) \<and>
   \<not> zIsSliced (zombies
      (spawnZombie (\<lambda>_. 1/2) (spawnZombie (\<lambda>_. 1/2) (zombieFramesReady (initialGame 1)))) 1) \<and>
   (0::nat) \<noteq> 1 \<and>
   0.2 \<le> 1 - lastZombieKillTime
      (spawnZombie (\<lambda>_. 1/2) (spawnZombie (\<lambda>_. 1/2) (zombieFramesReady (initialGame 1)))) \<and>
   (11/10 - 1 < (0.2::real)) \<and>
   score (performSlice (11/10) (\<lambda>_. 1/2) (Some 1) (0, 1/2) (1, 1/2)
     (performSlice 1 (\<lambda>_. 1/2) (Some 0) (0, 1/2) (1, 1/2)
       (spawnZombie (\<lambda>_. 1/2) (spawnZombie (\<lambda>_. 1/2) (zombieFramesReady (initialGame 1)))))) = 50 \<and>
   ((0.2::real) < 5/4 - 1) \<and>
   score (performSlice (5/4) (\<lambda>_. 1/2) (Some 1) (0, 1/2) (1, 1/2)
     (performSlice 1 (\<lambda>_. 1/2) (Some 0) (0, 1/2) (1, 1/2)
       (spawnZombie (\<lambda>_. 1/2) (spawnZombie (\<lambda>_. 1/2) (zombieFramesReady (initialGame 1)))))) = 100 \<and>
   activeZombies (performSlice (5/4) (\<lambda>_. 1/2) (Some 1) (0, 1/2) (1, 1/2)
     (performSlice 1 (\<lambda>_. 1/2) (Some 0) (0, 1/2) (1, 1/2)
       (spawnZombie (\<lambda>_. 1/2) (spawnZombie (\<lambda>_. 1/2) (zombieFramesReady (initialGame 1)))))) = []"
proof -
  let ?g = "spawnZombie (\<lambda>_. 1/2) (spawnZombie (\<lambda>_. 1/2) (zombieFramesReady (initialGame 1)))"
  let ?g1 = "performSlice 1 (\<lambda>_. 1/2) (Some 0) (0, 1/2) (1, 1/2) ?g"
  have h1: "\<not> zIsSliced (zombies ?g 0)" and h2: "\<not> zIsSliced (zombies ?g 1)"
    and h4: "0.2 \<le> 1 - lastZombieKillTime ?g"
    unfolding spawned_two by (simp_all add: zombieFramesReady_def initialGame_def)
  have h3: "(0::nat) \<noteq> 1" by simp
  have f: "score ?g = 0" "activeZombies ?g = [0, 1]"
    unfolding spawned_two by (simp_all add: zombieFramesReady_def initialGame_def)
  note inst = cooldown_serializes[OF h1 h2 h3 h4, where rnd = "\<lambda>_. 1/2" and sa = "(0, 1/2)"
      and ea = "(1, 1/2)" and sb = "(0, 1/2)" and eb = "(1, 1/2)"
      and uv = "(0, 0)" and a = "(0, 0)" and b = "(0, 0)" and c = None]
  have c1: "(11/10::real) - 1 < 0.2" and c2: "(0.2::real) < 5/4 - 1" by simp_all
  have first: "score ?g1 = 50"
    using inst[where tb = 2] by (simp add: sliceBody_fields f)
  have early: "performSlice (11/10) (\<lambda>_. 1/2) (Some 1) (0, 1/2) (1, 1/2) ?g1 = ?g1"
    using inst[where tb = "11/10"] c1 by blast
  have late: "score (performSlice (5/4) (\<lambda>_. 1/2) (Some 1) (0, 1/2) (1, 1/2) ?g1) = score ?g + 100"
    "activeZombies (performSlice (5/4) (\<lambda>_. 1/2) (Some 1) (0, 1/2) (1, 1/2) ?g1) =
       remove1 1 (remove1 0 (activeZombies ?g))"
    using inst[where tb = "5/4"] c2 by blast+
  show ?thesis unfolding early late first f using h1 h2 h4 by simp
qed

section \<open>The two pieces are pushed apart along the shader's normal\<close>

text \<open>
  C6. \<^verbatim>\<open>performSlice\<close> executes on a zombie of positive scale (every zombie of
  \<^verbatim>\<open>spawnZombie\<close> has one, \<open>spawnZombie_scale_pos\<close>) and on a cut whose two
  points are at least 0.0001 apart, the length from which the shader takes the line as
  valid. It adds two pieces whose uniforms carry the cut line, the first with side to
  keep \<open>+1\<close> and the second with \<open>-1\<close>. The normal it computes is the normal of the
  shader of both pieces: a unit vector perpendicular to the cut. The first piece is
  moved by \<open>0.05 * scale\<close> along the normal and gets the velocity \<open>0.02 * scale\<close>
  along it; the second piece gets exactly the opposite offset and velocity. Each piece
  is pushed into the half-plane it keeps: a point of the cut line moved along the offset
  or along the velocity of a piece is not discarded by the shader of that piece, and is
  discarded by the shader of the other piece.
\<close>

theorem pieces_pushed_apart:
  assumes "\<not> zIsSliced (zombies st r)" "0.2 \<le> now - lastZombieKillTime st"
    and "0.0001 \<le> distanceTo startUV endUV"
    and "0 < vx (zScale (zombies st r))"
  shows "\<exists>p1 p2.
     slicedPieces (performSlice now rnd (Some r) startUV endUV st) = slicedPieces st @ [p1, p2] \<and>
     uSideToKeep (pUniforms p1) = 1 \<and> uSideToKeep (pUniforms p2) = - 1 \<and>
     uSliceStart (pUniforms p1) = startUV \<and> uSliceEnd (pUniforms p1) = endUV \<and>
     uSliceStart (pUniforms p2) = startUV \<and> uSliceEnd (pUniforms p2) = endUV \<and>
     normalVectorWorld startUV endUV =
       shaderNormal (uSliceStart (pUniforms p1)) (uSliceEnd (pUniforms p1)) \<and>
     normalVectorWorld startUV endUV =
       shaderNormal (uSliceStart (pUniforms p2)) (uSliceEnd (pUniforms p2)) \<and>
     vlength (normalVectorWorld startUV endUV) = 1 \<and>
     dot (normalVectorWorld startUV endUV) (subVectors endUV startUV) = 0 \<and>
     (let n = normalVectorWorld startUV endUV;
          sc = vx (zScale (zombies st r));
          pos = zPosition (zombies st r)
      in pPosition p1 = (vx pos + fst n * (0.05 * sc), vy pos + snd n * (0.05 * sc), vz pos) \<and>
         pPosition p2 = (vx pos - fst n * (0.05 * sc), vy pos - snd n * (0.05 * sc), vz pos) \<and>
         pVelocity p1 = (fst n * (0.02 * sc), snd n * (0.02 * sc)) \<and>
         pVelocity p2 = (- (fst n * (0.02 * sc)), - (snd n * (0.02 * sc))) \<and>
         (\<forall>q c. onCutLine startUV endUV q \<and> 0 < c \<longrightarrow>
            (let off1 = (vx (pPosition p1) - vx pos, vy (pPosition p1) - vy pos);
                 off2 = (vx (pPosition p2) - vx pos, vy (pPosition p2) - vy pos)
             in \<not> sliceDiscards (pUniforms p1) (addVectors q (multiplyScalar off1 c)) \<and>
                sliceDiscards (pUniforms p2) (addVectors q (multiplyScalar off1 c)) \<and>
                \<not> sliceDiscards (pUniforms p2) (addVectors q (multiplyScalar off2 c)) \<and>
                sliceDiscards (pUniforms p1) (addVectors q (multiplyScalar off2 c)) \<and>
                \<not> sliceDiscards (pUniforms p1) (addVectors q (multiplyScalar (pVelocity p1) c)) \<and>
                sliceDiscards (pUniforms p2) (addVectors q (multiplyScalar (pVelocity p1) c)) \<and>
                \<not> sliceDiscards (pUniforms p2) (addVectors q (multiplyScalar (pVelocity p2) c)) \<and>
                sliceDiscards (pUniforms p1) (addVectors q (multiplyScalar (pVelocity p2) c)))))"
proof -
  let ?z = "zombies st r"
  let ?lp = "launchPieces rnd (randomCalls st) ?z startUV endUV"
  let ?n = "shaderNormal startUV endUV"
  let ?sc = "vx (zScale ?z)"
  let ?pos = "zPosition ?z"
  have ne: "startUV \<noteq> endUV" using assms(3) by (intro distanceTo_pos_imp_neq) simp
  have ex: "performSlice now rnd (Some r) startUV endUV st = sliceBody now rnd r startUV endUV st"
    using assms(1,2) by (intro performSlice_exec) (simp_all add: ZOMBIE_KILL_COOLDOWN_def)
  have n: "normalVectorWorld startUV endUV = ?n" by (rule normal_agrees[OF ne])
  have u: "vlength ?n = 1" by (rule shaderNormal_unit[OF ne])
  have side: "shaderSide startUV endUV (addVectors q (multiplyScalar (multiplyScalar ?n a) c)) = a * c"
    if "onCutLine startUV endUV q" for q a c
  proof -
    have "multiplyScalar (multiplyScalar ?n a) c = multiplyScalar ?n (a * c)"
      by (simp add: multiplyScalar_def mult.assoc)
    then show ?thesis
      using shaderSide_onLine[OF ne that] dot_self_unit[OF u, of "a * c"]
      by (simp add: shaderSide_shift)
  qed
  have u1: "uSideToKeep (pUniforms (fst ?lp)) = 1" "uSliceStart (pUniforms (fst ?lp)) = startUV"
    "uSliceEnd (pUniforms (fst ?lp)) = endUV"
    and u2: "uSideToKeep (pUniforms (snd ?lp)) = - 1" "uSliceStart (pUniforms (snd ?lp)) = startUV"
    "uSliceEnd (pUniforms (snd ?lp)) = endUV"
    by (simp_all add: launchPieces_props pieceUniforms_def)
  have d1: "sliceDiscards (pUniforms (fst ?lp)) p \<longleftrightarrow> shaderSide startUV endUV p < 0" for p
    using sliceDiscards_side(1)[of "pUniforms (fst ?lp)" p] assms(3) by (simp add: u1)
  have d2: "sliceDiscards (pUniforms (snd ?lp)) p \<longleftrightarrow> 0 < shaderSide startUV endUV p" for p
    using sliceDiscards_side(2)[of "pUniforms (snd ?lp)" p] assms(3) by (simp add: u2)
  have o1: "(vx (pPosition (fst ?lp)) - vx ?pos, vy (pPosition (fst ?lp)) - vy ?pos) =
            multiplyScalar ?n (0.05 * ?sc)"
    and o2: "(vx (pPosition (snd ?lp)) - vx ?pos, vy (pPosition (snd ?lp)) - vy ?pos) =
            multiplyScalar ?n (- (0.05 * ?sc))"
    and v1: "pVelocity (fst ?lp) = multiplyScalar ?n (0.02 * ?sc)"
    and v2: "pVelocity (snd ?lp) = multiplyScalar ?n (- (0.02 * ?sc))"
    by (simp_all add: launchPieces_props n vx_def vy_def multiplyScalar_def)
  have pieces: "slicedPieces (performSlice now rnd (Some r) startUV endUV st) =
          slicedPieces st @ [fst ?lp, snd ?lp]"
    by (simp add: ex sliceBody_fields)
  have moved:
    "pPosition (fst ?lp) =
       (vx ?pos + fst (normalVectorWorld startUV endUV) * (0.05 * ?sc),
        vy ?pos + snd (normalVectorWorld startUV endUV) * (0.05 * ?sc), vz ?pos)"
    "pPosition (snd ?lp) =
       (vx ?pos - fst (normalVectorWorld startUV endUV) * (0.05 * ?sc),
        vy ?pos - snd (normalVectorWorld startUV endUV) * (0.05 * ?sc), vz ?pos)"
    "pVelocity (fst ?lp) =
       (fst (normalVectorWorld startUV endUV) * (0.02 * ?sc),
        snd (normalVectorWorld startUV endUV) * (0.02 * ?sc))"
    "pVelocity (snd ?lp) =
       (- (fst (normalVectorWorld startUV endUV) * (0.02 * ?sc)),
        - (snd (normalVectorWorld startUV endUV) * (0.02 * ?sc)))"
    by (simp_all add: launchPieces_props)
  have push:
    "\<not> sliceDiscards (pUniforms (fst ?lp)) (addVectors q (multiplyScalar
         (vx (pPosition (fst ?lp)) - vx ?pos, vy (pPosition (fst ?lp)) - vy ?pos) c)) \<and>
     sliceDiscards (pUniforms (snd ?lp)) (addVectors q (multiplyScalar
         (vx (pPosition (fst ?lp)) - vx ?pos, vy (pPosition (fst ?lp)) - vy ?pos) c)) \<and>
     \<not> sliceDiscards (pUniforms (snd ?lp)) (addVectors q (multiplyScalar
         (vx (pPosition (snd ?lp)) - vx ?pos, vy (pPosition (snd ?lp)) - vy ?pos) c)) \<and>
     sliceDiscards (pUniforms (fst ?lp)) (addVectors q (multiplyScalar
         (vx (pPosition (snd ?lp)) - vx ?pos, vy (pPosition (snd ?lp)) - vy ?pos) c)) \<and>
     \<not> sliceDiscards (pUniforms (fst ?lp)) (addVectors q (multiplyScalar (pVelocity (fst ?lp)) c)) \<and>
     sliceDiscards (pUniforms (snd ?lp)) (addVectors q (multiplyScalar (pVelocity (fst ?lp)) c)) \<and>
     \<not> sliceDiscards (pUniforms (snd ?lp)) (addVectors q (multiplyScalar (pVelocity (snd ?lp)) c)) \<and>
     sliceDiscards (pUniforms (fst ?lp)) (addVectors q (multiplyScalar (pVelocity (snd ?lp)) c))"
    if "onCutLine startUV endUV q \<and> 0 < c" for q c
  proof -
    have on: "onCutLine startUV endUV q" and c: "0 < c" using that by simp_all
    have k: "0 < ?sc * c" using assms(4) c by simp
    show ?thesis
      unfolding o1 o2 v1 v2 d1 d2 side[OF on]
      using k assms(4) c by (auto simp: zero_less_mult_iff mult_less_0_iff)
  qed
  show ?thesis
    unfolding Let_def
    apply (rule exI[of _ "fst ?lp"], rule exI[of _ "snd ?lp"])
    apply (intro conjI allI impI)
    apply (rule pieces)
    apply (simp_all only: u1 u2 n u shaderNormal_perp moved[unfolded n])
    apply (simp_all only: push[unfolded moved n] not_False_eq_True)
    done
qed

text \<open>
  The theorem at the horizontal cut from (0, 1/2) to (1, 1/2) of a zombie of scale 0.23 at
  (0, -1.55, -20): the normal is (0, 1), the pieces move up and down by 0.0115 and get
  the velocities (0, 0.0046) and (0, -0.0046); the point (1/2, 1/2 + 0.0115) is drawn by
  the first piece only, the point (1/2, 1/2 - 0.0115) by the second only.
\<close>

theorem pieces_pushed_apart_witness:
  "\<not> zIsSliced (zombies (spawnZombie (\<lambda>_. 1/2) (zombieFramesReady (initialGame 1))) 0) \<and>
   0.2 \<le> 1 - lastZombieKillTime (spawnZombie (\<lambda>_. 1/2) (zombieFramesReady (initialGame 1))) \<and>
   0.0001 \<le> distanceTo (0, 1/2) (1, 1/2) \<and>
   0 < vx (zScale (zombies (spawnZombie (\<lambda>_. 1/2) (zombieFramesReady (initialGame 1))) 0)) \<and>
   normalVectorWorld (0, 1/2) (1, 1/2) = (0, 1) \<and>
   map pPosition (slicedPieces (performSlice 1 (\<lambda>_. 1/2) (Some 0) (0, 1/2) (1, 1/2)
      (spawnZombie (\<lambda>_. 1/2) (zombieFramesReady (initialGame 1))))) =
     [(0, - 31/20 + 23/2000, - 20), (0, - 31/20 - 23/2000, - 20)] \<and>
   map pVelocity (slicedPieces (performSlice 1 (\<lambda>_. 1/2) (Some 0) (0, 1/2) (1, 1/2)
      (spawnZombie (\<lambda>_. 1/2) (zombieFramesReady (initialGame 1))))) =
     [(0, 23/5000), (0, - 23/5000)] \<and>
   map (\<lambda>p. (uSliceStart (pUniforms p), uSliceEnd (pUniforms p), uSideToKeep (pUniforms p)))
     (slicedPieces (performSlice 1 (\<lambda>_. 1/2) (Some 0) (0, 1/2) (1, 1/2)
      (spawnZombie (\<lambda>_. 1/2) (zombieFramesReady (initialGame 1))))) =
     [((0, 1/2), (1, 1/2), 1), ((0, 1/2), (1, 1/2), - 1)] \<and>
   onCutLine (0, 1/2) (1, 1/2) (1/2, 1/2) \<and>
   map (\<lambda>p. sliceDiscards (pUniforms p) (1/2, 1/2 + 23/2000))
     (slicedPieces (performSlice 1 (\<lambda>_. 1/2) (Some 0) (0, 1/2) (1, 1/2)
      (spawnZombie (\<lambda>_. 1/2) (zombieFramesReady (initialGame 1))))) = [False, True] \<and>
   map (\<lambda>p. sliceDiscards (pUniforms p) (1/2, 1/2 - 23/2000))
     (slicedPieces (performSlice 1 (\<lambda>_. 1/2) (Some 0) (0, 1/2) (1, 1/2)
      (spawnZombie (\<lambda>_. 1/2) (zombieFramesReady (initialGame 1))))) = [True, False]"
proof -
  let ?g = "spawnZombie (\<lambda>_. 1/2) (zombieFramesReady (initialGame 1))"
  have h1: "\<not> zIsSliced (zombies ?g 0)" and h2: "0.2 \<le> 1 - lastZombieKillTime ?g"
    unfolding spawned_one by (simp_all add: zombieFramesReady_def initialGame_def)
  have h3: "0.0001 \<le> distanceTo (0, 1/2) (1, 1/2)" by (simp add: distanceTo_horizontal)
  have f: "slicedPieces ?g = []" "zScale (zombies ?g 0) = (23/100, 23/100, 1)"
    "zPosition (zombies ?g 0) = (0, - 31/20, - 20)"
    unfolding spawned_one by (simp_all add: zombieFramesReady_def initialGame_def)
  have h4: "0 < vx (zScale (zombies ?g 0))" by (simp add: f vx_def)
  have n: "normalVectorWorld (0, 1/2) (1, 1/2) = (0, 1)"
    by (simp add: normalVectorWorld_def Let_def subVectors_def vnormalize_x0 vnormalize_def
        vlength_def multiplyScalar_def)
  have on: "onCutLine (0, 1/2) (1, 1/2) (1/2, 1/2)" by (simp add: onCutLine_def)
  note inst = pieces_pushed_apart[OF h1 h2 h3 h4, of "\<lambda>_. 1/2", unfolded Let_def f n]
  show ?thesis
    using inst
    apply (elim exE conjE)
    subgoal premises prems for p1 p2
    proof -
      note pv = prems(12-15)
      have "\<not> sliceDiscards (pUniforms p1) (1/2, 1/2 + 23/2000) \<and>
            sliceDiscards (pUniforms p2) (1/2, 1/2 + 23/2000) \<and>
            \<not> sliceDiscards (pUniforms p2) (1/2, 1/2 - 23/2000) \<and>
            sliceDiscards (pUniforms p1) (1/2, 1/2 - 23/2000)"
        using prems(16)[rule_format, of "(1/2, 1/2)" 1] on
        by (simp add: pv vx_def vy_def addVectors_def multiplyScalar_def)
      then show ?thesis
        using h1 h2 h3 h4 on prems(2-7)
        by (simp add: prems(1) pv n vx_def vy_def vz_def)
    qed
    done
qed

section \<open>The particle pool can hold more than 50 live particles\<close>

text \<open>
  C7 says that at most \<^verbatim>\<open>MAX_BLOOD_PARTICLES = 50\<close> particles are ever live. An
  emission does activate only as many particles as there are free slots
  (\<open>emission_fills_free_slots\<close>: a slice adds to the live particles the smaller of 18
  and the number of free slots), so the live particles never exceed the length of the
  pool. But the pool is not 50 long. The initialisation that pushes 50
  entries runs once for the loader at the module's top level and once more for the
  loader in \<^verbatim>\<open>loadAssets()\<close>, on the same array: when both have loaded their seven
  textures the pool holds 100 entries, and three slices at the times 1, 1.25 and 1.5
  leave 54 particles live (a particle lives for at least one second, so no animation tick
  in between retires any of them).
\<close>

theorem pool_exceeds_capacity:
  "length (bloodParticlePool
     (loadBloodTextures LoadAssets (loadBloodTextures TopLevel
        (zombieFramesReady (initialGame 1))))) = 100 \<and>
   liveParticles (bloodParticlePool
     (performSlice (3/2) (\<lambda>_. 1/2) (Some 2) (0, 1/2) (1, 1/2)
       (performSlice (5/4) (\<lambda>_. 1/2) (Some 1) (0, 1/2) (1, 1/2)
         (performSlice 1 (\<lambda>_. 1/2) (Some 0) (0, 1/2) (1, 1/2)
           (spawnZombie (\<lambda>_. 1/2) (spawnZombie (\<lambda>_. 1/2) (spawnZombie (\<lambda>_. 1/2)
             (loadBloodTextures LoadAssets (loadBloodTextures TopLevel
               (zombieFramesReady (initialGame 1))))))))))) = 54 \<and>
   MAX_BLOOD_PARTICLES = 50"
proof -
  define g0 where "g0 = loadBloodTextures LoadAssets (loadBloodTextures TopLevel
        (zombieFramesReady (initialGame 1)))"
  define g1 where "g1 = spawnZombie (\<lambda>_. 1/2) (spawnZombie (\<lambda>_. 1/2) (spawnZombie (\<lambda>_. 1/2) g0))"
  have g0: "g0 = (zombieFramesReady (initialGame 1))
      \<lparr>bloodTextures := 14, loadedBloodCount := (\<lambda>_. 0)(TopLevel := 7, LoadAssets := 7),
       bloodTexturesLoaded := True,
       bloodParticlePool := replicate MAX_BLOOD_PARTICLES freshParticle @
                            replicate MAX_BLOOD_PARTICLES freshParticle\<rparr>"
    unfolding g0_def
    by (simp add: loadBloodTextures_effect zombieFramesReady_def initialGame_def)
  have len0: "length (bloodParticlePool g0) = 100"
    by (simp add: g0 MAX_BLOOD_PARTICLES_def)
  have g1: "bloodParticlePool g1 = bloodParticlePool g0" "bloodTexturesLoaded g1"
    "lastZombieKillTime g1 = 0"
    "\<not> zIsSliced (zombies g1 0)" "\<not> zIsSliced (zombies g1 1)" "\<not> zIsSliced (zombies g1 2)"
    unfolding g1_def g0
    by (simp_all add: spawnZombie_def Let_def zombieFramesReady_def initialGame_def)
  have live0: "liveParticles (bloodParticlePool g0) = 0"
    by (simp add: g0 liveParticles_append liveParticles_fresh)
  define h1 where "h1 = sliceBody 1 (\<lambda>_. 1/2) 0 (0, 1/2) (1, 1/2) g1"
  define h2 where "h2 = sliceBody (5/4) (\<lambda>_. 1/2) 1 (0, 1/2) (1, 1/2) h1"
  define h3 where "h3 = sliceBody (3/2) (\<lambda>_. 1/2) 2 (0, 1/2) (1, 1/2) h2"
  have e1: "performSlice 1 (\<lambda>_. 1/2) (Some 0) (0, 1/2) (1, 1/2) g1 = h1"
    unfolding h1_def using g1 by (intro performSlice_exec) (simp_all add: ZOMBIE_KILL_COOLDOWN_def)
  have e2: "performSlice (5/4) (\<lambda>_. 1/2) (Some 1) (0, 1/2) (1, 1/2) h1 = h2"
    unfolding h2_def h1_def using g1
    by (intro performSlice_exec) (simp_all add: ZOMBIE_KILL_COOLDOWN_def sliceBody_fields)
  have e3: "performSlice (3/2) (\<lambda>_. 1/2) (Some 2) (0, 1/2) (1, 1/2) h2 = h3"
    unfolding h3_def h2_def h1_def using g1
    by (intro performSlice_exec) (simp_all add: ZOMBIE_KILL_COOLDOWN_def sliceBody_fields)
  have live3: "liveParticles (bloodParticlePool h3) = 54"
    unfolding h3_def h2_def h1_def using g1 len0 live0
    by (simp add: sliceBody_fields numBloodParticles_def)
  have run: "performSlice (3/2) (\<lambda>_. 1/2) (Some 2) (0, 1/2) (1, 1/2)
       (performSlice (5/4) (\<lambda>_. 1/2) (Some 1) (0, 1/2) (1, 1/2)
         (performSlice 1 (\<lambda>_. 1/2) (Some 0) (0, 1/2) (1, 1/2) g1)) = h3"
    by (simp only: e1 e2 e3)
  have cap: "MAX_BLOOD_PARTICLES = 50" by (simp add: MAX_BLOOD_PARTICLES_def)
  show ?thesis
    using len0 live3 cap unfolding run[symmetric] g1_def g0_def by (intro conjI)
qed


section \<open>The resolvers reject cuts that are too short\<close>

text \<open>
  C5, amended. Either a resolver leaves the state as it is, or it calls
  \<^verbatim>\<open>performSlice\<close> with two points of the unit square: the clamped start and the
  clamped end of a line whose end is the hit point of the release or the extension of
  the gesture to the boundary, and whose points, before the clamp, are at least 0.001
  apart. When both points lie in the unit square before the clamp, the executed line
  itself is at least 0.001 long; an extension from a start in the unit square along a
  direction whose components are each 0 or at least \<^verbatim>\<open>1e-6\<close> in magnitude does end
  in the unit square. Conversely every resolved line of length at least 0.001 is passed
  on to \<^verbatim>\<open>performSlice\<close> (for the hand, when the gesture has two different points
  and the aspect ratio is not 0). A resolver leaves the state as it is when there is no
  target, when the start did not hit the target, when the extension to the boundary
  fails, and when the two points are less than 0.001 apart.

  The claim is too strong in two places. A line of length exactly 0.001 is executed, so
  the length of an executed line need not exceed 0.001. And the length is tested before
  the clamp: where the extension ends outside the unit square, the clamp can shorten
  the executed line below 0.001 (both counterexamples follow the witness).
\<close>

theorem executed_cuts_are_long_enough:
  "(calculateAndPerformSlice now rnd tz st = st \<or>
      (\<exists>e. sliceStartValid st \<and>
           ((sliceEndValid st \<and> e = sliceEndUV st) \<or>
            (\<not> sliceEndValid st \<and>
             intersectUVSquare (sliceStartUV st)
               (directionUVApprox (cameraAspect st) (sliceStartNDC st) (sliceEndNDC st)) =
               Some e)) \<and>
           0.001 \<le> distanceTo (sliceStartUV st) e \<and>
           inUnitSquare (clampScalar 0 1 (sliceStartUV st)) \<and>
           inUnitSquare (clampScalar 0 1 e) \<and>
           (inUnitSquare (sliceStartUV st) \<and> inUnitSquare e \<longrightarrow>
              0.001 \<le> distanceTo (clampScalar 0 1 (sliceStartUV st)) (clampScalar 0 1 e)) \<and>
           calculateAndPerformSlice now rnd tz st =
             performSlice now rnd tz (clampScalar 0 1 (sliceStartUV st)) (clampScalar 0 1 e) st)) \<and>
   (calculateAndPerformSliceHand now rnd tz uv a b c st = st \<or>
      (\<exists>e. (c = Some e \<or>
            (c = None \<and>
             intersectUVSquare uv (directionUVApprox (cameraAspect st) a b) = Some e)) \<and>
           0.001 \<le> distanceTo uv e \<and>
           inUnitSquare (clampScalar 0 1 uv) \<and> inUnitSquare (clampScalar 0 1 e) \<and>
           (inUnitSquare uv \<and> inUnitSquare e \<longrightarrow>
              0.001 \<le> distanceTo (clampScalar 0 1 uv) (clampScalar 0 1 e)) \<and>
           calculateAndPerformSliceHand now rnd tz uv a b c st =
             performSlice now rnd tz (clampScalar 0 1 uv) (clampScalar 0 1 e) st)) \<and>
   (\<forall>d e. inUnitSquare uv \<and> (fst d = 0 \<or> 1 / 1000000 \<le> \<bar>fst d\<bar>) \<and>
      (snd d = 0 \<or> 1 / 1000000 \<le> \<bar>snd d\<bar>) \<and> intersectUVSquare uv d = Some e \<longrightarrow>
      inUnitSquare e) \<and>
   (\<forall>e. sliceStartValid st \<and>
      ((sliceEndValid st \<and> e = sliceEndUV st) \<or>
       (\<not> sliceEndValid st \<and>
        intersectUVSquare (sliceStartUV st)
          (directionUVApprox (cameraAspect st) (sliceStartNDC st) (sliceEndNDC st)) = Some e)) \<and>
      0.001 \<le> distanceTo (sliceStartUV st) e \<longrightarrow>
      calculateAndPerformSlice now rnd tz st =
        performSlice now rnd tz (clampScalar 0 1 (sliceStartUV st)) (clampScalar 0 1 e) st) \<and>
   (\<forall>e. a \<noteq> b \<and> cameraAspect st \<noteq> 0 \<and>
      (c = Some e \<or>
       (c = None \<and> intersectUVSquare uv (directionUVApprox (cameraAspect st) a b) = Some e)) \<and>
      0.001 \<le> distanceTo uv e \<longrightarrow>
      calculateAndPerformSliceHand now rnd tz uv a b c st =
        performSlice now rnd tz (clampScalar 0 1 uv) (clampScalar 0 1 e) st) \<and>
   (\<not> sliceStartValid st \<longrightarrow> calculateAndPerformSlice now rnd tz st = st) \<and>
   calculateAndPerformSlice now rnd None st = st \<and>
   calculateAndPerformSliceHand now rnd None uv a b c st = st \<and>
   (sliceStartValid st \<and> \<not> sliceEndValid st \<and>
    intersectUVSquare (sliceStartUV st)
      (directionUVApprox (cameraAspect st) (sliceStartNDC st) (sliceEndNDC st)) = None \<longrightarrow>
      calculateAndPerformSlice now rnd tz st = st) \<and>
   (c = None \<and> intersectUVSquare uv (directionUVApprox (cameraAspect st) a b) = None \<longrightarrow>
      calculateAndPerformSliceHand now rnd tz uv a b c st = st) \<and>
   (sliceStartValid st \<and> sliceEndValid st \<and>
    distanceTo (sliceStartUV st) (sliceEndUV st) < 0.001 \<longrightarrow>
      calculateAndPerformSlice now rnd tz st = st) \<and>
   (\<forall>e. sliceStartValid st \<and> \<not> sliceEndValid st \<and>
    intersectUVSquare (sliceStartUV st)
      (directionUVApprox (cameraAspect st) (sliceStartNDC st) (sliceEndNDC st)) = Some e \<and>
    distanceTo (sliceStartUV st) e < 0.001 \<longrightarrow>
      calculateAndPerformSlice now rnd tz st = st) \<and>
   (\<forall>e. c = Some e \<and> distanceTo uv e < 0.001 \<longrightarrow>
      calculateAndPerformSliceHand now rnd tz uv a b c st = st) \<and>
   (\<forall>e. c = None \<and> intersectUVSquare uv (directionUVApprox (cameraAspect st) a b) = Some e \<and>
    distanceTo uv e < 0.001 \<longrightarrow>
      calculateAndPerformSliceHand now rnd tz uv a b c st = st)"
proof -
  have post: "inUnitSquare p \<and> inUnitSquare e \<longrightarrow>
      0.001 \<le> distanceTo (clampScalar 0 1 p) (clampScalar 0 1 e)"
    if "\<not> distanceTo p e < 0.001" for p e
    using that by (simp add: clampScalar_id)
  have m: "calculateAndPerformSlice now rnd tz st = st \<or>
      (\<exists>e. sliceStartValid st \<and>
           ((sliceEndValid st \<and> e = sliceEndUV st) \<or>
            (\<not> sliceEndValid st \<and>
             intersectUVSquare (sliceStartUV st)
               (directionUVApprox (cameraAspect st) (sliceStartNDC st) (sliceEndNDC st)) =
               Some e)) \<and>
           0.001 \<le> distanceTo (sliceStartUV st) e \<and>
           inUnitSquare (clampScalar 0 1 (sliceStartUV st)) \<and>
           inUnitSquare (clampScalar 0 1 e) \<and>
           (inUnitSquare (sliceStartUV st) \<and> inUnitSquare e \<longrightarrow>
              0.001 \<le> distanceTo (clampScalar 0 1 (sliceStartUV st)) (clampScalar 0 1 e)) \<and>
           calculateAndPerformSlice now rnd tz st =
             performSlice now rnd tz (clampScalar 0 1 (sliceStartUV st)) (clampScalar 0 1 e) st)"
  proof (cases "mouseCut st")
    case None
    then show ?thesis by (simp add: calculateAndPerformSlice_def split: option.splits)
  next
    case (Some se)
    obtain s e where se: "se = (s, e)" by (cases se)
    from mouseCut_Some[OF Some[unfolded se]] obtain e0 where
      e0: "s = clampScalar 0 1 (sliceStartUV st)" "e = clampScalar 0 1 e0"
      "\<not> distanceTo (sliceStartUV st) e0 < 0.001" "sliceStartValid st"
      "(sliceEndValid st \<and> e0 = sliceEndUV st) \<or>
       (\<not> sliceEndValid st \<and>
        intersectUVSquare (sliceStartUV st)
          (directionUVApprox (cameraAspect st) (sliceStartNDC st) (sliceEndNDC st)) = Some e0)"
      by blast
    show ?thesis
    proof (cases tz)
      case None
      then show ?thesis by (simp add: calculateAndPerformSlice_def)
    next
      case (Some r)
      have "calculateAndPerformSlice now rnd tz st =
             performSlice now rnd tz (clampScalar 0 1 (sliceStartUV st)) (clampScalar 0 1 e0) st"
        using Some \<open>mouseCut st = Some se\<close> se e0(1,2)
        by (simp add: calculateAndPerformSlice_def)
      moreover have "0.001 \<le> distanceTo (sliceStartUV st) e0" using e0(3) by simp
      ultimately show ?thesis
        using e0(4,5) post[OF e0(3)] clampScalar_inUnitSquare by blast
    qed
  qed
  have h: "calculateAndPerformSliceHand now rnd tz uv a b c st = st \<or>
      (\<exists>e. (c = Some e \<or>
            (c = None \<and>
             intersectUVSquare uv (directionUVApprox (cameraAspect st) a b) = Some e)) \<and>
           0.001 \<le> distanceTo uv e \<and>
           inUnitSquare (clampScalar 0 1 uv) \<and> inUnitSquare (clampScalar 0 1 e) \<and>
           (inUnitSquare uv \<and> inUnitSquare e \<longrightarrow>
              0.001 \<le> distanceTo (clampScalar 0 1 uv) (clampScalar 0 1 e)) \<and>
           calculateAndPerformSliceHand now rnd tz uv a b c st =
             performSlice now rnd tz (clampScalar 0 1 uv) (clampScalar 0 1 e) st)"
  proof (cases "handCut (cameraAspect st) uv a b c")
    case None
    then show ?thesis by (simp add: calculateAndPerformSliceHand_def split: option.splits)
  next
    case (Some se)
    obtain s e where se: "se = (s, e)" by (cases se)
    from handCut_direction[OF Some[unfolded se]] obtain e0 where
      e0: "s = clampScalar 0 1 uv" "e = clampScalar 0 1 e0" "\<not> distanceTo uv e0 < 0.001"
      "c = Some e0 \<or>
       (c = None \<and> intersectUVSquare uv (directionUVApprox (cameraAspect st) a b) = Some e0)"
      by blast
    show ?thesis
    proof (cases tz)
      case None
      then show ?thesis by (simp add: calculateAndPerformSliceHand_def)
    next
      case (Some r)
      show ?thesis
      proof (cases "zIsSliced (zombies st r)")
        case True
        then show ?thesis using Some by (simp add: calculateAndPerformSliceHand_def)
      next
        case False
        have "calculateAndPerformSliceHand now rnd tz uv a b c st =
             performSlice now rnd tz (clampScalar 0 1 uv) (clampScalar 0 1 e0) st"
          using Some False \<open>handCut (cameraAspect st) uv a b c = Some se\<close> se e0(1,2)
          by (simp add: calculateAndPerformSliceHand_def)
        moreover have "0.001 \<le> distanceTo uv e0" using e0(3) by simp
        ultimately show ?thesis
          using e0(4) post[OF e0(3)] clampScalar_inUnitSquare by blast
      qed
    qed
  qed
  have sq: "\<forall>d e. inUnitSquare uv \<and> (fst d = 0 \<or> 1 / 1000000 \<le> \<bar>fst d\<bar>) \<and>
      (snd d = 0 \<or> 1 / 1000000 \<le> \<bar>snd d\<bar>) \<and> intersectUVSquare uv d = Some e \<longrightarrow>
      inUnitSquare e"
    using intersect_stays_in_square by blast
  have e1: "\<forall>e. sliceStartValid st \<and>
      ((sliceEndValid st \<and> e = sliceEndUV st) \<or>
       (\<not> sliceEndValid st \<and>
        intersectUVSquare (sliceStartUV st)
          (directionUVApprox (cameraAspect st) (sliceStartNDC st) (sliceEndNDC st)) = Some e)) \<and>
      0.001 \<le> distanceTo (sliceStartUV st) e \<longrightarrow>
      calculateAndPerformSlice now rnd tz st =
        performSlice now rnd tz (clampScalar 0 1 (sliceStartUV st)) (clampScalar 0 1 e) st"
  proof (intro allI impI)
    fix e
    assume "sliceStartValid st \<and>
      ((sliceEndValid st \<and> e = sliceEndUV st) \<or>
       (\<not> sliceEndValid st \<and>
        intersectUVSquare (sliceStartUV st)
          (directionUVApprox (cameraAspect st) (sliceStartNDC st) (sliceEndNDC st)) = Some e)) \<and>
      0.001 \<le> distanceTo (sliceStartUV st) e"
    then have "mouseCut st = Some (clampScalar 0 1 (sliceStartUV st), clampScalar 0 1 e)"
      by (intro mouseCut_exec) blast+
    then show "calculateAndPerformSlice now rnd tz st =
        performSlice now rnd tz (clampScalar 0 1 (sliceStartUV st)) (clampScalar 0 1 e) st"
      by (cases tz) (simp_all add: calculateAndPerformSlice_def performSlice_def)
  qed
  have e2: "\<forall>e. a \<noteq> b \<and> cameraAspect st \<noteq> 0 \<and>
      (c = Some e \<or>
       (c = None \<and> intersectUVSquare uv (directionUVApprox (cameraAspect st) a b) = Some e)) \<and>
      0.001 \<le> distanceTo uv e \<longrightarrow>
      calculateAndPerformSliceHand now rnd tz uv a b c st =
        performSlice now rnd tz (clampScalar 0 1 uv) (clampScalar 0 1 e) st"
  proof (intro allI impI)
    fix e
    assume "a \<noteq> b \<and> cameraAspect st \<noteq> 0 \<and>
      (c = Some e \<or>
       (c = None \<and> intersectUVSquare uv (directionUVApprox (cameraAspect st) a b) = Some e)) \<and>
      0.001 \<le> distanceTo uv e"
    then have "handCut (cameraAspect st) uv a b c = Some (clampScalar 0 1 uv, clampScalar 0 1 e)"
      by (intro handCut_exec) blast+
    then show "calculateAndPerformSliceHand now rnd tz uv a b c st =
        performSlice now rnd tz (clampScalar 0 1 uv) (clampScalar 0 1 e) st"
      by (cases tz) (simp_all add: calculateAndPerformSliceHand_def performSlice_def)
  qed
  show ?thesis
    apply (intro conjI)
                apply (rule m)
               apply (rule h)
              apply (rule sq)
             apply (rule e1)
            apply (rule e2)
           apply (simp_all add: calculateAndPerformSlice_def calculateAndPerformSliceHand_def
        mouseCut_None handCut_None split: option.splits)
    done
qed

text \<open>
  The theorem at a game with one zombie. Left as it is: a start that did not hit the
  target; an extension that fails, from the start (1, 1/2) on the right edge along a
  gesture to the right; two hit points 0.0005 apart; an extension from (0.9995, 1/2) to
  (1, 1/2), 0.0005 long. Executed: the hand's cut from (1/4, 1/2) to (3/4, 1/2), and the
  mouse's cut from (1/2, 1/2) extended to (1, 1/2), which ends in the unit square.
\<close>

theorem executed_cuts_are_long_enough_witness:
  "\<not> sliceStartValid oneZombie \<and>
   calculateAndPerformSlice 1 (\<lambda>_. 1/2) (Some 0) oneZombie = oneZombie \<and>
   intersectUVSquare (1, 1/2) (directionUVApprox (cameraAspect oneZombie) (0, 0) (1/2, 0)) = None \<and>
   calculateAndPerformSlice 1 (\<lambda>_. 1/2) (Some 0)
     (oneZombie\<lparr>sliceStartNDC := (0, 0), sliceEndNDC := (1/2, 0), sliceStartUV := (1, 1/2),
        sliceStartValid := True, sliceEndValid := False\<rparr>) =
     oneZombie\<lparr>sliceStartNDC := (0, 0), sliceEndNDC := (1/2, 0), sliceStartUV := (1, 1/2),
        sliceStartValid := True, sliceEndValid := False\<rparr> \<and>
   calculateAndPerformSliceHand 1 (\<lambda>_. 1/2) (Some 0) (1, 1/2) (0, 0) (1/2, 0) None oneZombie =
     oneZombie \<and>
   distanceTo (1/2, 1/2) (1001/2000, 1/2) < 0.001 \<and>
   calculateAndPerformSlice 1 (\<lambda>_. 1/2) (Some 0)
     (oneZombie\<lparr>sliceStartUV := (1/2, 1/2), sliceEndUV := (1001/2000, 1/2),
        sliceStartValid := True, sliceEndValid := True\<rparr>) =
     oneZombie\<lparr>sliceStartUV := (1/2, 1/2), sliceEndUV := (1001/2000, 1/2),
        sliceStartValid := True, sliceEndValid := True\<rparr> \<and>
   calculateAndPerformSliceHand 1 (\<lambda>_. 1/2) (Some 0) (1/2, 1/2) (0, 0) (1/2, 0)
     (Some (1001/2000, 1/2)) oneZombie = oneZombie \<and>
   intersectUVSquare (1999/2000, 1/2)
     (directionUVApprox (cameraAspect oneZombie) (0, 0) (1/2, 0)) = Some (1, 1/2) \<and>
   distanceTo (1999/2000, 1/2) (1, 1/2) < 0.001 \<and>
   calculateAndPerformSlice 1 (\<lambda>_. 1/2) (Some 0)
     (oneZombie\<lparr>sliceStartNDC := (0, 0), sliceEndNDC := (1/2, 0), sliceStartUV := (1999/2000, 1/2),
        sliceStartValid := True, sliceEndValid := False\<rparr>) =
     oneZombie\<lparr>sliceStartNDC := (0, 0), sliceEndNDC := (1/2, 0), sliceStartUV := (1999/2000, 1/2),
        sliceStartValid := True, sliceEndValid := False\<rparr> \<and>
   calculateAndPerformSliceHand 1 (\<lambda>_. 1/2) (Some 0) (1999/2000, 1/2) (0, 0) (1/2, 0) None
     oneZombie = oneZombie \<and>
   ((0, 0)::vec2) \<noteq> (1/2, 0) \<and> cameraAspect oneZombie \<noteq> 0 \<and>
   0.001 \<le> distanceTo (1/4, 1/2) (3/4, 1/2) \<and>
   calculateAndPerformSliceHand 1 (\<lambda>_. 1/2) (Some 0) (1/4, 1/2) (0, 0) (1/2, 0)
     (Some (3/4, 1/2)) oneZombie =
     performSlice 1 (\<lambda>_. 1/2) (Some 0) (1/4, 1/2) (3/4, 1/2) oneZombie \<and>
   calculateAndPerformSliceHand 1 (\<lambda>_. 1/2) (Some 0) (1/4, 1/2) (0, 0) (1/2, 0)
     (Some (3/4, 1/2)) oneZombie \<noteq> oneZombie \<and>
   inUnitSquare (1/2, 1/2) \<and>
   intersectUVSquare (1/2, 1/2)
     (directionUVApprox (cameraAspect oneZombie) (0, 0) (1/2, 0)) = Some (1, 1/2) \<and>
   inUnitSquare (1, 1/2) \<and>
   0.001 \<le> distanceTo (1/2, 1/2) (1, 1/2) \<and>
   calculateAndPerformSlice 1 (\<lambda>_. 1/2) (Some 0)
     (oneZombie\<lparr>sliceStartNDC := (0, 0), sliceEndNDC := (1/2, 0), sliceStartUV := (1/2, 1/2),
        sliceStartValid := True, sliceEndValid := False\<rparr>) =
     performSlice 1 (\<lambda>_. 1/2) (Some 0) (1/2, 1/2) (1, 1/2)
       (oneZombie\<lparr>sliceStartNDC := (0, 0), sliceEndNDC := (1/2, 0), sliceStartUV := (1/2, 1/2),
          sliceStartValid := True, sliceEndValid := False\<rparr>) \<and>
   score (calculateAndPerformSlice 1 (\<lambda>_. 1/2) (Some 0)
     (oneZombie\<lparr>sliceStartNDC := (0, 0), sliceEndNDC := (1/2, 0), sliceStartUV := (1/2, 1/2),
        sliceStartValid := True, sliceEndValid := False\<rparr>)) = 50"
proof -
  note f = oneZombie_fields
  have dir: "directionUVApprox (cameraAspect oneZombie) (0, 0) (1/2, 0) = (1, 0)"
    by (simp add: directionUVApprox_horizontal f)
  define drag where "drag = (\<lambda>uv. oneZombie\<lparr>sliceStartNDC := (0, 0), sliceEndNDC := (1/2, 0),
        sliceStartUV := uv, sliceStartValid := True, sliceEndValid := False\<rparr>)"
  have df: "sliceStartValid (drag uv)" "\<not> sliceEndValid (drag uv)" "sliceStartUV (drag uv) = uv"
    "directionUVApprox (cameraAspect (drag uv)) (sliceStartNDC (drag uv)) (sliceEndNDC (drag uv)) =
       (1, 0)"
    "\<not> zIsSliced (zombies (drag uv) 0)" "lastZombieKillTime (drag uv) = 0" "score (drag uv) = 0"
    for uv
    by (simp_all add: drag_def f directionUVApprox_horizontal)
  define both where "both = oneZombie\<lparr>sliceStartUV := (1/2, 1/2), sliceEndUV := (1001/2000, 1/2),
        sliceStartValid := True, sliceEndValid := True\<rparr>"
  have bf: "sliceStartValid both" "sliceEndValid both" "sliceStartUV both = (1/2, 1/2)"
    "sliceEndUV both = (1001/2000, 1/2)"
    by (simp_all add: both_def)
  note T = executed_cuts_are_long_enough[where now = 1 and rnd = "\<lambda>_. 1/2" and tz = "Some 0"]
  note T5 = T[THEN conjunct2, THEN conjunct2, THEN conjunct2, THEN conjunct2]
  note T10 = T5[THEN conjunct2, THEN conjunct2, THEN conjunct2, THEN conjunct2, THEN conjunct2]
  note stays = T[THEN conjunct2, THEN conjunct2, THEN conjunct1, rule_format]
  note execM = T[THEN conjunct2, THEN conjunct2, THEN conjunct2, THEN conjunct1, rule_format]
  note execH = T5[THEN conjunct1, rule_format]
  note offTarget = T5[THEN conjunct2, THEN conjunct1, rule_format]
  note failM = T5[THEN conjunct2, THEN conjunct2, THEN conjunct2, THEN conjunct2, THEN conjunct1,
      rule_format]
  note failH = T10[THEN conjunct1, rule_format]
  note shortM = T10[THEN conjunct2, THEN conjunct1, rule_format]
  note shortMx = T10[THEN conjunct2, THEN conjunct2, THEN conjunct1, rule_format]
  note shortH = T10[THEN conjunct2, THEN conjunct2, THEN conjunct2, THEN conjunct1, rule_format]
  note shortHx = T10[THEN conjunct2, THEN conjunct2, THEN conjunct2, THEN conjunct2, rule_format]
  \<comment> \<open>a start that did not hit the target\<close>
  have a1: "calculateAndPerformSlice 1 (\<lambda>_. 1/2) (Some 0) oneZombie = oneZombie"
    by (rule offTarget) (rule f(1))
  \<comment> \<open>a failed extension: the start lies on the edge the gesture points to\<close>
  have i2: "intersectUVSquare (1, 1/2) (1, 0) = None"
    by (simp add: intersectUVSquare_def Let_def slab_def xmax_def xmin_def)
  have a2m: "calculateAndPerformSlice 1 (\<lambda>_. 1/2) (Some 0) (drag (1, 1/2)) = drag (1, 1/2)"
    by (rule failM) (simp add: df i2)
  have a2h: "calculateAndPerformSliceHand 1 (\<lambda>_. 1/2) (Some 0) (1, 1/2) (0, 0) (1/2, 0) None
               oneZombie = oneZombie"
    by (rule failH) (simp add: dir i2)
  \<comment> \<open>two points less than 0.001 apart\<close>
  have d3: "distanceTo (1/2, 1/2) (1001/2000, 1/2) < 0.001"
    by (simp add: distanceTo_horizontal)
  have a3m: "calculateAndPerformSlice 1 (\<lambda>_. 1/2) (Some 0) both = both"
    by (rule shortM) (use d3 in \<open>simp add: bf\<close>)
  have a3h: "calculateAndPerformSliceHand 1 (\<lambda>_. 1/2) (Some 0) (1/2, 1/2) (0, 0) (1/2, 0)
     (Some (1001/2000, 1/2)) oneZombie = oneZombie"
    by (rule shortH[where e = "(1001/2000, 1/2)"]) (use d3 in simp)
  have i4: "intersectUVSquare (1999/2000, 1/2) (1, 0) = Some (1, 1/2)"
    by (simp add: intersectUVSquare_def Let_def slab_def xmax_def xmin_def addVectors_def
        multiplyScalar_def)
  have d4: "distanceTo (1999/2000, 1/2) (1, 1/2) < 0.001"
    by (simp add: distanceTo_horizontal)
  have a4m: "calculateAndPerformSlice 1 (\<lambda>_. 1/2) (Some 0) (drag (1999/2000, 1/2)) =
             drag (1999/2000, 1/2)"
    by (rule shortMx[where e = "(1, 1/2)"]) (use d4 in \<open>simp add: df i4\<close>)
  have a4h: "calculateAndPerformSliceHand 1 (\<lambda>_. 1/2) (Some 0) (1999/2000, 1/2) (0, 0) (1/2, 0)
     None oneZombie = oneZombie"
    by (rule shortHx[where e = "(1, 1/2)"]) (use d4 in \<open>simp add: dir i4\<close>)
  \<comment> \<open>cuts that are executed\<close>
  have d5: "0.001 \<le> distanceTo (1/4, 1/2) (3/4, 1/2)" by (simp add: distanceTo_horizontal)
  have ne: "((0, 0)::vec2) \<noteq> (1/2, 0)" "cameraAspect oneZombie \<noteq> 0" by (simp_all add: f)
  have sq: "inUnitSquare (1/4, 1/2)" "inUnitSquare (3/4, 1/2)" "inUnitSquare (1/2, 1/2)"
    by (simp_all add: inUnitSquare_def)
  have "calculateAndPerformSliceHand 1 (\<lambda>_. 1/2) (Some 0) (1/4, 1/2) (0, 0) (1/2, 0)
     (Some (3/4, 1/2)) oneZombie =
     performSlice 1 (\<lambda>_. 1/2) (Some 0) (clampScalar 0 1 (1/4, 1/2)) (clampScalar 0 1 (3/4, 1/2))
       oneZombie"
    by (rule execH) (use d5 in \<open>simp add: f\<close>)
  then have a5: "calculateAndPerformSliceHand 1 (\<lambda>_. 1/2) (Some 0) (1/4, 1/2) (0, 0) (1/2, 0)
     (Some (3/4, 1/2)) oneZombie =
     performSlice 1 (\<lambda>_. 1/2) (Some 0) (1/4, 1/2) (3/4, 1/2) oneZombie"
    by (simp add: clampScalar_id sq)
  have "score (performSlice 1 (\<lambda>_. 1/2) (Some 0) (1/4, 1/2) (3/4, 1/2) oneZombie) = 50"
    by (simp add: performSlice_def f ZOMBIE_KILL_COOLDOWN_def sliceBody_fields)
  then have a5': "calculateAndPerformSliceHand 1 (\<lambda>_. 1/2) (Some 0) (1/4, 1/2) (0, 0) (1/2, 0)
     (Some (3/4, 1/2)) oneZombie \<noteq> oneZombie"
    using f(5) a5 by auto
  have i6: "intersectUVSquare (1/2, 1/2) (1, 0) = Some (1, 1/2)"
    by (simp add: intersectUVSquare_def Let_def slab_def xmax_def xmin_def addVectors_def
        multiplyScalar_def)
  have s6: "inUnitSquare (1, 1/2)"
    by (rule stays[where uv = "(1/2, 1/2)" and d = "(1, 0)"]) (simp add: sq i6)
  have d6: "0.001 \<le> distanceTo (1/2, 1/2) (1, 1/2)" by (simp add: distanceTo_horizontal)
  have "calculateAndPerformSlice 1 (\<lambda>_. 1/2) (Some 0) (drag (1/2, 1/2)) =
     performSlice 1 (\<lambda>_. 1/2) (Some 0) (clampScalar 0 1 (sliceStartUV (drag (1/2, 1/2))))
       (clampScalar 0 1 (1, 1/2)) (drag (1/2, 1/2))"
    by (rule execM) (use d6 in \<open>simp add: df i6\<close>)
  then have a6: "calculateAndPerformSlice 1 (\<lambda>_. 1/2) (Some 0) (drag (1/2, 1/2)) =
     performSlice 1 (\<lambda>_. 1/2) (Some 0) (1/2, 1/2) (1, 1/2) (drag (1/2, 1/2))"
    by (simp add: df clampScalar_id sq s6)
  have a6': "score (calculateAndPerformSlice 1 (\<lambda>_. 1/2) (Some 0) (drag (1/2, 1/2))) = 50"
    by (simp add: a6 performSlice_def df ZOMBIE_KILL_COOLDOWN_def sliceBody_fields)
  show ?thesis
    using f(1) a1 i2 a2m a2h d3 a3m a3h i4 d4 a4m a4h ne d5 a5 a5' sq(3) i6 s6 d6 a6 a6'
    unfolding dir drag_def both_def
    by (intro conjI)
qed

text \<open>
  The second counterexample below needs a gesture that is almost horizontal. With a
  camera of aspect ratio 1, the motion from the NDC point (0, 0) to
  (0.49999999999992, 0.0000004) has the direction
  (6249999999999, 5000000) / 6250000000001, a unit vector whose vertical component is
  below \<^verbatim>\<open>1e-6\<close>. The lemmas give the direction, the extension from the UV point
  (0.9990000000000002, 1), its distance from the start, and the cut that the hand's
  resolver passes on. They are stated with the numbers as reduced fractions:
  0.49999999999992 is 6249999999999 / 12500000000000, 0.0000004 is 1 / 2500000 and
  0.9990000000000002 is 4995000000000001 / 5000000000000000.
\<close>

lemma drift_direction:
  "directionUVApprox 1 (0, 0) (6249999999999 / 12500000000000, 1 / 2500000) =
     (6249999999999 / 6250000000001, 5000000 / 6250000000001)"
proof -
  have l: "vlength (6249999999999 / 12500000000000, 1 / 2500000) =
           6250000000001 / 12500000000000"
    by (rule vlength_eq) simp_all
  have n: "vnormalize (6249999999999 / 12500000000000, 1 / 2500000) =
           (6249999999999 / 6250000000001, 5000000 / 6250000000001)"
    by (simp add: vnormalize_def l multiplyScalar_def)
  have l2: "vlength (6249999999999 / 6250000000001, 5000000 / 6250000000001) = 1"
    by (rule vlength_eq) simp_all
  show ?thesis
    by (simp add: directionUVApprox_def Let_def subVectors_def n)
       (simp add: vnormalize_def l2 multiplyScalar_def)
qed

lemma drift_extension:
  "intersectUVSquare (4995000000000001 / 5000000000000000, 1)
     (6249999999999 / 6250000000001, 5000000 / 6250000000001) =
   Some (1, 6250000004998999999999 / 6249999999999000000000)"
  by (simp add: intersectUVSquare_def Let_def slab_def xmax_def xmin_def addVectors_def
      multiplyScalar_def)

lemma drift_distance:
  "\<not> distanceTo (4995000000000001 / 5000000000000000, 1)
       (1, 6250000004998999999999 / 6249999999999000000000) < 0.001"
proof -
  have "(1 / 1000)\<^sup>2 \<le>
        ((4995000000000001 / 5000000000000000 - 1) * (4995000000000001 / 5000000000000000 - 1) +
         (1 - 6250000004998999999999 / 6249999999999000000000) *
         (1 - 6250000004998999999999 / 6249999999999000000000) :: real)"
    by (simp add: power2_eq_square)
  then have "1 / 1000 \<le> distanceTo (4995000000000001 / 5000000000000000, 1)
       (1, 6250000004998999999999 / 6249999999999000000000)"
    unfolding distanceTo_def Let_def fst_conv snd_conv by (rule real_le_rsqrt)
  then show ?thesis by simp
qed

lemma drift_cut:
  "handCut 1 (4995000000000001 / 5000000000000000, 1) (0, 0)
     (6249999999999 / 12500000000000, 1 / 2500000) None =
   Some ((4995000000000001 / 5000000000000000, 1), (1, 1))"
proof -
  have ne: "((0, 0)::vec2) \<noteq> (6249999999999 / 12500000000000, 1 / 2500000)" by simp
  have d: "0.001 \<le> distanceTo (4995000000000001 / 5000000000000000, 1)
       (1, 6250000004998999999999 / 6249999999999000000000)"
    using drift_distance by simp
  have "handCut 1 (4995000000000001 / 5000000000000000, 1) (0, 0)
     (6249999999999 / 12500000000000, 1 / 2500000) None =
     Some (clampScalar 0 1 (4995000000000001 / 5000000000000000, 1),
           clampScalar 0 1 (1, 6250000004998999999999 / 6249999999999000000000))"
    by (rule handCut_exec[OF ne _ _ d]) (simp_all add: drift_direction drift_extension)
  then show ?thesis by (simp add: clampScalar_def)
qed

text \<open>
  C5 as the claim states it fails in two ways.

  A drag that starts on the target at the UV point (0, 0.5) and ends on it at
  (0.001, 0.5) gives two points exactly 0.001 apart, which is not below 0.001, so the
  slice is executed: 50 points, and two pieces with this cut line in their uniforms,
  whose length does not exceed 0.001.

  A hand motion from the NDC point (0, 0) to (0.49999999999992, 0.0000004) starts on
  the target at the UV point (0.9990000000000002, 1) and ends off it. Its direction is
  (6249999999999, 5000000) / 6250000000001; the vertical component is below
  \<^verbatim>\<open>1e-6\<close>, so \<^verbatim>\<open>intersectUVSquare\<close> looks at the vertical edges only and
  returns a point on \<open>x = 1\<close> above the square. That point is not less than 0.001 from
  the start, so the slice is executed; the clamp moves it down to (1, 1), and the two
  pieces get a cut line less than 0.001 long.
\<close>

theorem short_executed_cuts_counterexample:
  "mouseCut ((spawnZombie (\<lambda>_. 1/2) (zombieFramesReady (initialGame 1)))
      \<lparr>sliceStartNDC := (0, 0), sliceEndNDC := (1/2, 0), sliceStartUV := (0, 1/2),
       sliceEndUV := (1/1000, 1/2), sliceStartValid := True, sliceEndValid := True\<rparr>) =
     Some ((0, 1/2), (1/1000, 1/2)) \<and>
   distanceTo (0, 1/2) (1/1000, 1/2) = 0.001 \<and>
   \<not> 0.001 < distanceTo (0, 1/2) (1/1000, 1/2) \<and>
   score (calculateAndPerformSlice 1 (\<lambda>_. 1/2) (Some 0)
     ((spawnZombie (\<lambda>_. 1/2) (zombieFramesReady (initialGame 1)))
      \<lparr>sliceStartNDC := (0, 0), sliceEndNDC := (1/2, 0), sliceStartUV := (0, 1/2),
       sliceEndUV := (1/1000, 1/2), sliceStartValid := True, sliceEndValid := True\<rparr>)) = 50 \<and>
   map (\<lambda>p. (uSliceStart (pUniforms p), uSliceEnd (pUniforms p)))
     (slicedPieces (calculateAndPerformSlice 1 (\<lambda>_. 1/2) (Some 0)
       ((spawnZombie (\<lambda>_. 1/2) (zombieFramesReady (initialGame 1)))
        \<lparr>sliceStartNDC := (0, 0), sliceEndNDC := (1/2, 0), sliceStartUV := (0, 1/2),
         sliceEndUV := (1/1000, 1/2), sliceStartValid := True, sliceEndValid := True\<rparr>))) =
     [((0, 1/2), (1/1000, 1/2)), ((0, 1/2), (1/1000, 1/2))] \<and>
   intersectUVSquare (0.9990000000000002, 1)
     (directionUVApprox
        (cameraAspect (spawnZombie (\<lambda>_. 1/2) (zombieFramesReady (initialGame 1))))
        (0, 0) (0.49999999999992, 0.0000004)) =
     Some (1, 6250000004998999999999 / 6249999999999000000000) \<and>
   \<not> distanceTo (0.9990000000000002, 1)
       (1, 6250000004998999999999 / 6249999999999000000000) < 0.001 \<and>
   score (calculateAndPerformSliceHand 1 (\<lambda>_. 1/2) (Some 0) (0.9990000000000002, 1) (0, 0)
     (0.49999999999992, 0.0000004) None
     (spawnZombie (\<lambda>_. 1/2) (zombieFramesReady (initialGame 1)))) = 50 \<and>
   map (\<lambda>p. (uSliceStart (pUniforms p), uSliceEnd (pUniforms p)))
     (slicedPieces (calculateAndPerformSliceHand 1 (\<lambda>_. 1/2) (Some 0) (0.9990000000000002, 1)
       (0, 0) (0.49999999999992, 0.0000004) None
       (spawnZombie (\<lambda>_. 1/2) (zombieFramesReady (initialGame 1))))) =
     [((0.9990000000000002, 1), (1, 1)), ((0.9990000000000002, 1), (1, 1))] \<and>
   distanceTo (0.9990000000000002, 1) (1, 1) < 0.001"
proof -
  define g0 where "g0 = spawnZombie (\<lambda>_. 1/2) (zombieFramesReady (initialGame 1))"
  define g where "g = g0
      \<lparr>sliceStartNDC := (0, 0), sliceEndNDC := (1/2, 0), sliceStartUV := (0, 1/2),
       sliceEndUV := (1/1000, 1/2), sliceStartValid := True, sliceEndValid := True\<rparr>"
  have f0: "cameraAspect g0 = 1" "score g0 = 0" "slicedPieces g0 = []"
    "\<not> zIsSliced (zombies g0 0)" "lastZombieKillTime g0 = 0"
    unfolding g0_def spawned_one by (simp_all add: zombieFramesReady_def initialGame_def)
  have f: "sliceStartUV g = (0, 1/2)" "sliceEndUV g = (1/1000, 1/2)"
    "sliceStartValid g" "sliceEndValid g" "cameraAspect g = 1" "score g = 0"
    "slicedPieces g = []" "\<not> zIsSliced (zombies g 0)" "lastZombieKillTime g = 0"
    by (simp_all add: g_def f0)
  have dist: "distanceTo (0, 1/2) (1/1000, 1/2) = 0.001"
    by (simp add: distanceTo_horizontal)
  have cut: "mouseCut g = Some ((0, 1/2), (1/1000, 1/2))"
    by (simp add: mouseCut_def Let_def f dist clampScalar_def)
  have run: "calculateAndPerformSlice 1 (\<lambda>_. 1/2) (Some 0) g =
             sliceBody 1 (\<lambda>_. 1/2) 0 (0, 1/2) (1/1000, 1/2) g"
    by (simp add: calculateAndPerformSlice_def cut performSlice_def f ZOMBIE_KILL_COOLDOWN_def)
  have hrun: "calculateAndPerformSliceHand 1 (\<lambda>_. 1/2) (Some 0)
       (4995000000000001 / 5000000000000000, 1) (0, 0)
       (6249999999999 / 12500000000000, 1 / 2500000) None g0 =
     sliceBody 1 (\<lambda>_. 1/2) 0 (4995000000000001 / 5000000000000000, 1) (1, 1) g0"
    by (simp add: calculateAndPerformSliceHand_def f0 drift_cut performSlice_def
        ZOMBIE_KILL_COOLDOWN_def)
  have post: "distanceTo (4995000000000001 / 5000000000000000, 1) (1, 1) < 0.001"
    by (simp add: distanceTo_horizontal)
  have part1: "mouseCut g = Some ((0, 1/2), (1/1000, 1/2)) \<and>
     distanceTo (0, 1/2) (1/1000, 1/2) = 0.001 \<and>
     \<not> 0.001 < distanceTo (0, 1/2) (1/1000, 1/2) \<and>
     score (calculateAndPerformSlice 1 (\<lambda>_. 1/2) (Some 0) g) = 50 \<and>
     map (\<lambda>p. (uSliceStart (pUniforms p), uSliceEnd (pUniforms p)))
       (slicedPieces (calculateAndPerformSlice 1 (\<lambda>_. 1/2) (Some 0) g)) =
       [((0, 1/2), (1/1000, 1/2)), ((0, 1/2), (1/1000, 1/2))]"
    by (simp add: cut dist run sliceBody_fields f launchPieces_props pieceUniforms_def)
  have part2: "intersectUVSquare (4995000000000001 / 5000000000000000, 1)
       (directionUVApprox (cameraAspect g0) (0, 0)
          (6249999999999 / 12500000000000, 1 / 2500000)) =
       Some (1, 6250000004998999999999 / 6249999999999000000000) \<and>
     \<not> distanceTo (4995000000000001 / 5000000000000000, 1)
       (1, 6250000004998999999999 / 6249999999999000000000) < 0.001 \<and>
     score (calculateAndPerformSliceHand 1 (\<lambda>_. 1/2) (Some 0)
       (4995000000000001 / 5000000000000000, 1) (0, 0)
       (6249999999999 / 12500000000000, 1 / 2500000) None g0) = 50 \<and>
     map (\<lambda>p. (uSliceStart (pUniforms p), uSliceEnd (pUniforms p)))
       (slicedPieces (calculateAndPerformSliceHand 1 (\<lambda>_. 1/2) (Some 0)
         (4995000000000001 / 5000000000000000, 1) (0, 0)
         (6249999999999 / 12500000000000, 1 / 2500000) None g0)) =
       [((4995000000000001 / 5000000000000000, 1), (1, 1)),
        ((4995000000000001 / 5000000000000000, 1), (1, 1))] \<and>
     distanceTo (4995000000000001 / 5000000000000000, 1) (1, 1) < 0.001"
    using drift_distance post
    by (simp add: f0 drift_direction drift_extension hrun sliceBody_fields launchPieces_props
        pieceUniforms_def)
  show ?thesis
    unfolding g0_def[symmetric] g_def[symmetric]
    using part1 part2 by simp
qed


section \<open>A resting piece in the animation loop\<close>

lemma map_filter_snoc:
  "List.map_filter f (xs @ [x]) =
     List.map_filter f xs @ (case f x of None \<Rightarrow> [] | Some y \<Rightarrow> [y])"
  by (simp add: List.map_filter_def split: option.splits)

lemma animateFrom_prefix:
  "i \<le> length ps \<Longrightarrow>
   animateFrom dt i ps = List.map_filter (animatePiece dt) (take i ps) @ drop i ps"
proof (induction i arbitrary: ps)
  case 0
  then show ?case by (simp add: List.map_filter_def)
next
  case (Suc i)
  then have lt: "i < length ps" by simp
  have tk: "take (Suc i) ps = take i ps @ [ps ! i]" using lt by (simp add: take_Suc_conv_app_nth)
  show ?case
  proof (cases "animatePiece dt (ps ! i)")
    case None
    have "i \<le> length (take i ps @ drop (Suc i) ps)" using lt by simp
    from Suc.IH[OF this] show ?thesis using None lt
      by (simp add: tk map_filter_snoc)
  next
    case (Some p)
    have le: "i \<le> length (ps[i := p])" using lt by simp
    have t: "take i (ps[i := p]) = take i ps" by simp
    have d: "drop i (ps[i := p]) = p # drop (Suc i) ps"
      using lt by (simp add: upd_conv_take_nth_drop)
    from Suc.IH[OF le] show ?thesis using Some
      by (simp add: tk map_filter_snoc t d)
  qed
qed

lemma animatePieces_map_filter:
  "slicedPieces (animatePieces dt st) = List.map_filter (animatePiece dt) (slicedPieces st)"
  by (simp add: animatePieces_def animateFrom_prefix)


lemma animatePiece_resting:
  assumes "pIsOnFloor p"
  shows "animatePiece dt p =
     (if DESPAWN_TIME \<le> pDespawnTimer p + dt then None
      else Some (p\<lparr>pVelocity :=
                     (if \<bar>fst (pVelocity p) * DAMPING\<bar> < 0.001 then 0
                      else fst (pVelocity p) * DAMPING, snd (pVelocity p)),
                   pRotationSpeed :=
                     (if \<bar>pRotationSpeed p * DAMPING\<bar> < 0.001 then 0
                      else pRotationSpeed p * DAMPING),
                   pPosition :=
                     (vx (pPosition p) + fst (pVelocity p) * DAMPING, vy (pPosition p),
                      vz (pPosition p)),
                   pRotation :=
                     (vx (pRotation p), vy (pRotation p),
                      vz (pRotation p) + pRotationSpeed p * DAMPING),
                   pDespawnTimer := pDespawnTimer p + dt\<rparr>))"
proof (cases "\<bar>fst (pVelocity p) * DAMPING\<bar> < 0.001")
  case True
  note v = True
  show ?thesis
  proof (cases "\<bar>pRotationSpeed p * DAMPING\<bar> < 0.001")
    case True
    show ?thesis using assms v True by (simp add: animatePiece_def Let_def)
  next
    case False
    show ?thesis using assms v False by (simp add: animatePiece_def Let_def)
  qed
next
  case False
  note v = False
  show ?thesis
  proof (cases "\<bar>pRotationSpeed p * DAMPING\<bar> < 0.001")
    case True
    show ?thesis using assms v True by (simp add: animatePiece_def Let_def)
  next
    case False
    show ?thesis using assms v False by (simp add: animatePiece_def Let_def)
  qed
qed


text \<open>
  C8. For a sliced piece that is on the floor, one tick multiplies its horizontal
  velocity and its rotation speed by \<^verbatim>\<open>DAMPING = 0.95\<close>, sets each of them to zero
  when its magnitude is then below 0.001, and adds the elapsed time to the despawn timer.
  When the timer then has reached \<^verbatim>\<open>DESPAWN_TIME = 10\<close> the piece is removed;
  otherwise it stays, still on the floor. The loop over \<^verbatim>\<open>slicedPieces\<close> does this
  to every piece: the array afterwards holds the pieces that stay, updated, in their
  order, and nothing else of the game changes.
\<close>

theorem resting_piece_tick:
  assumes "pIsOnFloor p"
  shows "(DESPAWN_TIME \<le> pDespawnTimer p + dt \<longrightarrow> animatePiece dt p = None) \<and>
         (pDespawnTimer p + dt < DESPAWN_TIME \<longrightarrow>
            (\<exists>p'. animatePiece dt p = Some p' \<and>
               fst (pVelocity p') =
                 (if \<bar>fst (pVelocity p) * DAMPING\<bar> < 0.001 then 0
                  else fst (pVelocity p) * DAMPING) \<and>
               pRotationSpeed p' =
                 (if \<bar>pRotationSpeed p * DAMPING\<bar> < 0.001 then 0
                  else pRotationSpeed p * DAMPING) \<and>
               snd (pVelocity p') = snd (pVelocity p) \<and>
               pDespawnTimer p' = pDespawnTimer p + dt \<and> pIsOnFloor p' \<and>
               pUniforms p' = pUniforms p)) \<and>
         DAMPING = 0.95 \<and> DESPAWN_TIME = 10 \<and>
         slicedPieces (animatePieces dt st) =
           List.map_filter (animatePiece dt) (slicedPieces st) \<and>
         sameGame (st\<lparr>slicedPieces := slicedPieces (animatePieces dt st)\<rparr>) (animatePieces dt st)"
proof -
  note r = animatePiece_resting[OF assms, of dt]
  have a: "DESPAWN_TIME \<le> pDespawnTimer p + dt \<longrightarrow> animatePiece dt p = None"
    by (simp add: r)
  have b: "pDespawnTimer p + dt < DESPAWN_TIME \<longrightarrow>
            (\<exists>p'. animatePiece dt p = Some p' \<and>
               fst (pVelocity p') =
                 (if \<bar>fst (pVelocity p) * DAMPING\<bar> < 0.001 then 0
                  else fst (pVelocity p) * DAMPING) \<and>
               pRotationSpeed p' =
                 (if \<bar>pRotationSpeed p * DAMPING\<bar> < 0.001 then 0
                  else pRotationSpeed p * DAMPING) \<and>
               snd (pVelocity p') = snd (pVelocity p) \<and>
               pDespawnTimer p' = pDespawnTimer p + dt \<and> pIsOnFloor p' \<and>
               pUniforms p' = pUniforms p)"
    using assms by (simp add: r)
  have c: "DAMPING = 0.95" "DESPAWN_TIME = 10" by (simp_all add: DAMPING_def DESPAWN_TIME_def)
  have d: "sameGame (st\<lparr>slicedPieces := slicedPieces (animatePieces dt st)\<rparr>) (animatePieces dt st)"
    by (simp add: sameGame_def animatePieces_def)
  show ?thesis using a b c d animatePieces_map_filter[of dt st] by blast
qed

text \<open>
  The theorem at a resting piece with horizontal velocity 0.02 and rotation speed 0.001
  and a tick of 1/60 second: the velocity becomes 0.019, the rotation speed 0 (0.00095
  is below the threshold), the timer 1/60. With the timer at 10 - 1/60 before, the piece
  is removed.
\<close>

theorem resting_piece_tick_witness:
  "pIsOnFloor ((createSlicedMesh noMesh (0, 1/2) (1, 1/2) 1)
     \<lparr>pVelocity := (1/50, 0), pRotationSpeed := 1/1000, pIsOnFloor := True\<rparr>) \<and>
   (\<exists>p'. animatePiece (1/60)
     ((createSlicedMesh noMesh (0, 1/2) (1, 1/2) 1)
        \<lparr>pVelocity := (1/50, 0), pRotationSpeed := 1/1000, pIsOnFloor := True\<rparr>) = Some p' \<and>
     pVelocity p' = (19/1000, 0) \<and> pRotationSpeed p' = 0 \<and> pDespawnTimer p' = 1/60 \<and>
     pIsOnFloor p') \<and>
   animatePiece (1/60)
     ((createSlicedMesh noMesh (0, 1/2) (1, 1/2) 1)
        \<lparr>pVelocity := (1/50, 0), pRotationSpeed := 1/1000, pIsOnFloor := True,
         pDespawnTimer := 10 - 1/60\<rparr>) = None"
proof -
  let ?p = "(createSlicedMesh noMesh (0, 1/2) (1, 1/2) 1)
     \<lparr>pVelocity := (1/50, 0), pRotationSpeed := 1/1000, pIsOnFloor := True\<rparr>"
  have h: "pIsOnFloor ?p" by simp
  have h2: "pIsOnFloor (?p\<lparr>pDespawnTimer := 10 - 1/60\<rparr>)" by simp
  have t: "pDespawnTimer ?p + 1/60 < DESPAWN_TIME"
    by (simp add: createSlicedMesh_def DESPAWN_TIME_def)
  have t2: "DESPAWN_TIME \<le> pDespawnTimer (?p\<lparr>pDespawnTimer := 10 - 1/60\<rparr>) + 1/60"
    by (simp add: DESPAWN_TIME_def)
  from resting_piece_tick[OF h2, of "1/60" "initialGame 1"] t2
  have gone: "animatePiece (1/60) (?p\<lparr>pDespawnTimer := 10 - 1/60\<rparr>) = None"
    by blast
  from resting_piece_tick[OF h, of "1/60" "initialGame 1"] t
  obtain p' where p': "animatePiece (1/60) ?p = Some p'"
    and v: "fst (pVelocity p') =
              (if \<bar>fst (pVelocity ?p) * DAMPING\<bar> < 0.001 then 0 else fst (pVelocity ?p) * DAMPING)"
    and w: "pRotationSpeed p' =
              (if \<bar>pRotationSpeed ?p * DAMPING\<bar> < 0.001 then 0 else pRotationSpeed ?p * DAMPING)"
    and rest: "snd (pVelocity p') = snd (pVelocity ?p)"
      "pDespawnTimer p' = pDespawnTimer ?p + 1/60" "pIsOnFloor p'"
    by blast
  have "pVelocity p' = (19/1000, 0)"
    using v rest(1) by (cases "pVelocity p'") (simp add: DAMPING_def)
  moreover have "pRotationSpeed p' = 0" using w by (simp add: DAMPING_def)
  moreover have "pDespawnTimer p' = 1/60" using rest(2) by (simp add: createSlicedMesh_def)
  ultimately show ?thesis using h gone p' rest(3) by simp
qed

section \<open>The gesture thresholds of the two input paths\<close>

lemma mouseup_short:
  assumes "isSlicing st" "zombieToSlice st \<noteq> None"
    "distanceTo (sliceStartNDC st) (eventNDC win ev) \<le> 0.02"
  shows "sameGame st (mouseup now rnd rc win ev st)"
  using assms
  by (auto simp: mouseup_def Let_def updateMousePosition_def getUVCoords_def sameGame_def
      split: option.splits list.splits prod.splits)

lemma mouseup_long:
  assumes "isSlicing st" "zombieToSlice st \<noteq> None"
    "0.02 < distanceTo (sliceStartNDC st) (eventNDC win ev)"
  shows "mouseup now rnd rc win ev st =
     (calculateAndPerformSlice now rnd (zombieToSlice st) (released rc win ev st))
       \<lparr>isSlicing := False, sliceStartValid := False, sliceEndValid := False,
        zombieToSlice := None\<rparr>"
proof -
  have sw: "s\<lparr>sliceEndNDC := a, mouseNDC := b\<rparr> = s\<lparr>mouseNDC := b, sliceEndNDC := a\<rparr>"
    for s :: game and a b
    by simp
  show ?thesis
    using assms
    by (auto simp: mouseup_def Let_def updateMousePosition_def getUVCoords_def released_def
        getUVCoordsFromNDC_def sw split: option.splits list.splits prod.splits)
qed


lemma released_fields:
  "sameGame st (released rc win ev st)"
  "sliceStartNDC (released rc win ev st) = sliceStartNDC st"
  "sliceEndNDC (released rc win ev st) = eventNDC win ev"
  "sliceStartUV (released rc win ev st) = sliceStartUV st"
  "sliceStartValid (released rc win ev st) = sliceStartValid st"
  by (simp_all add: released_def Let_def sameGame_def split: option.splits)

lemma mousedown_fields:
  "sameGame st (mousedown rc win ev st)"
  "zombieGeometry st \<Longrightarrow> sliceStartNDC (mousedown rc win ev st) = eventNDC win ev"
  by (auto simp: mousedown_def Let_def updateMousePosition_def getUVCoords_def sameGame_def
      split: option.splits list.splits prod.splits)

lemma hand_long:
  assumes "\<not> gameOver st" "previousFingerTipNDC st = Some prev"
    "SLICE_GESTURE_THRESHOLD < distanceTo (fingerTipNDC raw) prev"
    "getUVCoordsFromNDC rc prev st = Some (uv, z)"
  shows "processHandData now rnd rc (FingerTip raw) st =
     (calculateAndPerformSliceHand now rnd (Some z) uv prev (fingerTipNDC raw)
        (case getUVCoordsFromNDC rc (fingerTipNDC raw) st of
           None \<Rightarrow> None
         | Some (uv', obj) \<Rightarrow> if obj = z then Some uv' else None) st)
       \<lparr>previousFingerTipNDC := Some (fingerTipNDC raw)\<rparr>"
  using assms by (simp add: processHandData_def Let_def split: option.splits)

lemma pressed:
  "mousedown flatRaycast (2, 2) (1, 1) (spawnZombie (\<lambda>_. 1/2) (zombieFramesReady (initialGame 1))) =
     (spawnZombie (\<lambda>_. 1/2) (zombieFramesReady (initialGame 1)))
       \<lparr>mouseNDC := (0, 0), sliceStartNDC := (0, 0), sliceStartUV := (1/2, 1/2),
        sliceStartValid := True, sliceEndValid := False, zombieToSlice := Some 0,
        isSlicing := True\<rparr>"
  unfolding spawned_one
  by (simp add: mousedown_def Let_def updateMousePosition_def eventNDC_def getUVCoords_def
      flatRaycast_def zombieFramesReady_def initialGame_def)

lemma mouseup_idle:
  assumes "\<not> isSlicing st \<or> zombieToSlice st = None"
  shows "mouseup now rnd rc win ev st =
     st\<lparr>isSlicing := False, sliceStartValid := False, sliceEndValid := False,
        zombieToSlice := None\<rparr>"
  using assms by (auto simp: mouseup_def Let_def)

lemma mouseup_short_eq:
  assumes "isSlicing st" "zombieToSlice st \<noteq> None"
    "distanceTo (sliceStartNDC st) (eventNDC win ev) \<le> 0.02"
  shows "mouseup now rnd rc win ev st =
     (released rc win ev st)
       \<lparr>isSlicing := False, sliceStartValid := False, sliceEndValid := False,
        zombieToSlice := None\<rparr>"
proof -
  have sw: "s\<lparr>sliceEndNDC := a, mouseNDC := b\<rparr> = s\<lparr>mouseNDC := b, sliceEndNDC := a\<rparr>"
    for s :: game and a b
    by simp
  show ?thesis
    using assms
    by (auto simp: mouseup_def Let_def updateMousePosition_def getUVCoords_def released_def
        getUVCoordsFromNDC_def sw split: option.splits list.splits prod.splits)
qed

lemma mouseup_no_slice:
  assumes "\<not> isSlicing st \<or> zombieToSlice st = None \<or>
           distanceTo (sliceStartNDC st) (eventNDC win ev) \<le> 0.02"
  shows "sameGame st (mouseup now rnd rc win ev st)"
proof (cases "isSlicing st \<and> zombieToSlice st \<noteq> None")
  case True
  then show ?thesis using assms by (intro mouseup_short) auto
next
  case False
  then have "\<not> isSlicing st \<or> zombieToSlice st = None" by blast
  from mouseup_idle[OF this] show ?thesis by (simp add: sameGame_def)
qed

lemma hand_idle:
  "gameOver st \<Longrightarrow> processHandData now rnd rc results st = st"
  "\<not> gameOver st \<Longrightarrow> results = NoHand \<or> results = NoFingerTip \<Longrightarrow>
     processHandData now rnd rc results st = st\<lparr>previousFingerTipNDC := None\<rparr>"
  by (auto simp: processHandData_def)

lemma hand_no_slice:
  assumes "\<not> gameOver st"
    and "previousFingerTipNDC st = None \<or>
         (\<exists>prev. previousFingerTipNDC st = Some prev \<and>
            (distanceTo (fingerTipNDC raw) prev \<le> SLICE_GESTURE_THRESHOLD \<or>
             getUVCoordsFromNDC rc prev st = None))"
  shows "processHandData now rnd rc (FingerTip raw) st =
           st\<lparr>previousFingerTipNDC := Some (fingerTipNDC raw)\<rparr>"
  using assms by (auto simp: processHandData_def Let_def)

lemma hand_same_game:
  assumes "gameOver st \<or> (\<forall>raw. results \<noteq> FingerTip raw) \<or> previousFingerTipNDC st = None \<or>
       (\<exists>prev raw. results = FingerTip raw \<and> previousFingerTipNDC st = Some prev \<and>
          (distanceTo (fingerTipNDC raw) prev \<le> SLICE_GESTURE_THRESHOLD \<or>
           getUVCoordsFromNDC rc prev st = None))"
  shows "sameGame st (processHandData now rnd rc results st)"
proof (cases "gameOver st")
  case True
  then show ?thesis by (simp add: hand_idle sameGame_def)
next
  case False
  show ?thesis
  proof (cases results)
    case NoHand
    then show ?thesis using False by (simp add: hand_idle sameGame_def)
  next
    case NoFingerTip
    then show ?thesis using False by (simp add: hand_idle sameGame_def)
  next
    case (FingerTip raw)
    with assms False have "previousFingerTipNDC st = None \<or>
         (\<exists>prev. previousFingerTipNDC st = Some prev \<and>
            (distanceTo (fingerTipNDC raw) prev \<le> SLICE_GESTURE_THRESHOLD \<or>
             getUVCoordsFromNDC rc prev st = None))"
      by auto
    from hand_no_slice[OF False this] show ?thesis by (simp add: FingerTip sameGame_def)
  qed
qed

text \<open>
  C10. A mouse press records its NDC point and changes nothing of the game. A release
  calls the resolver only after a press on a zombie and only when the NDC distance
  between press and release exceeds 0.02, and then it does call it; a hand frame calls
  the hand's resolver only when the game is running, a previous finger tip exists, the
  NDC distance between the two samples exceeds
  \<^verbatim>\<open>SLICE_GESTURE_THRESHOLD = 0.03\<close> and the previous sample hit a zombie, and then
  it does call it. In every other case the gesture is ignored: no resolver runs and the
  game is left as it is (the zombies, the pieces, the particles, the score, the cooldown
  clock: \<open>sameGame\<close>). What an ignored gesture writes is the bookkeeping of the gesture
  itself: the release ends the drag and records the release point, and the hand frame
  stores the current finger tip as the previous one.
\<close>

theorem gesture_thresholds:
  "sameGame st (mousedown rc win ev0 st) \<and>
   (zombieGeometry st \<longrightarrow> sliceStartNDC (mousedown rc win ev0 st) = eventNDC win ev0) \<and>
   (\<not> isSlicing st \<or> zombieToSlice st = None \<longrightarrow>
      mouseup now rnd rc win ev st =
        st\<lparr>isSlicing := False, sliceStartValid := False, sliceEndValid := False,
           zombieToSlice := None\<rparr>) \<and>
   (isSlicing st \<and> zombieToSlice st \<noteq> None \<and>
    distanceTo (sliceStartNDC st) (eventNDC win ev) \<le> 0.02 \<longrightarrow>
      mouseup now rnd rc win ev st =
        (released rc win ev st)
          \<lparr>isSlicing := False, sliceStartValid := False, sliceEndValid := False,
           zombieToSlice := None\<rparr>) \<and>
   (\<not> isSlicing st \<or> zombieToSlice st = None \<or>
    distanceTo (sliceStartNDC st) (eventNDC win ev) \<le> 0.02 \<longrightarrow>
      sameGame st (mouseup now rnd rc win ev st)) \<and>
   (isSlicing st \<and> zombieToSlice st \<noteq> None \<and>
    0.02 < distanceTo (sliceStartNDC st) (eventNDC win ev) \<longrightarrow>
      sameGame st (released rc win ev st) \<and>
      sliceStartNDC (released rc win ev st) = sliceStartNDC st \<and>
      sliceEndNDC (released rc win ev st) = eventNDC win ev \<and>
      mouseup now rnd rc win ev st =
        (calculateAndPerformSlice now rnd (zombieToSlice st) (released rc win ev st))
          \<lparr>isSlicing := False, sliceStartValid := False, sliceEndValid := False,
           zombieToSlice := None\<rparr>) \<and>
   (gameOver st \<longrightarrow> processHandData now rnd rc results st = st) \<and>
   (\<not> gameOver st \<and> (results = NoHand \<or> results = NoFingerTip) \<longrightarrow>
      processHandData now rnd rc results st = st\<lparr>previousFingerTipNDC := None\<rparr>) \<and>
   (\<not> gameOver st \<and>
    (previousFingerTipNDC st = None \<or>
     (\<exists>prev. previousFingerTipNDC st = Some prev \<and>
        (distanceTo (fingerTipNDC raw) prev \<le> 0.03 \<or>
         getUVCoordsFromNDC rc prev st = None))) \<longrightarrow>
      processHandData now rnd rc (FingerTip raw) st =
        st\<lparr>previousFingerTipNDC := Some (fingerTipNDC raw)\<rparr>) \<and>
   (gameOver st \<or> (\<forall>raw. results \<noteq> FingerTip raw) \<or> previousFingerTipNDC st = None \<or>
    (\<exists>prev raw. results = FingerTip raw \<and> previousFingerTipNDC st = Some prev \<and>
       (distanceTo (fingerTipNDC raw) prev \<le> 0.03 \<or>
        getUVCoordsFromNDC rc prev st = None)) \<longrightarrow>
      sameGame st (processHandData now rnd rc results st)) \<and>
   (\<not> gameOver st \<and> previousFingerTipNDC st = Some prev \<and>
    0.03 < distanceTo (fingerTipNDC raw) prev \<and>
    getUVCoordsFromNDC rc prev st = Some (uv, z) \<longrightarrow>
      processHandData now rnd rc (FingerTip raw) st =
        (calculateAndPerformSliceHand now rnd (Some z) uv prev (fingerTipNDC raw)
           (case getUVCoordsFromNDC rc (fingerTipNDC raw) st of
              None \<Rightarrow> None
            | Some (uv', obj) \<Rightarrow> if obj = z then Some uv' else None) st)
          \<lparr>previousFingerTipNDC := Some (fingerTipNDC raw)\<rparr>)"
proof -
  have t: "SLICE_GESTURE_THRESHOLD = 0.03" by (simp add: SLICE_GESTURE_THRESHOLD_def)
  note md = mousedown_fields[where st = st and rc = rc and win = win and ev = ev0]
  note rf = released_fields[where st = st and rc = rc and win = win and ev = ev]
  show ?thesis
    apply (intro conjI impI)
    subgoal by (rule md(1))
    subgoal by (rule md(2))
    subgoal by (rule mouseup_idle)
    subgoal by (rule mouseup_short_eq) blast+
    subgoal by (rule mouseup_no_slice)
    subgoal by (rule rf(1))
    subgoal by (rule rf(2))
    subgoal by (rule rf(3))
    subgoal by (rule mouseup_long) blast+
    subgoal by (rule hand_idle(1))
    subgoal by (rule hand_idle(2)) blast+
    subgoal by (rule hand_no_slice[unfolded t]) blast+
    subgoal by (rule hand_same_game[unfolded t])
    subgoal by (rule hand_long[unfolded t]) blast+
    done
qed

text \<open>
  The theorem at a game with one zombie that covers the middle of the screen. A press in
  the middle leaves the game as it is. A release without a press, 0.25 away, only
  resets the variables of the drag. After the press, a release 0.01 away leaves the game
  as it is (the score stays 0) and a release 0.25 away slices the zombie. A hand frame
  when the game is over changes nothing; the first finger tip only becomes the previous
  one; a frame without a hand forgets it; a finger tip that moves by 0.01 only becomes
  the previous one; one that moves by 0.75 from a point off the zombie does too; one
  that moves by 0.25 from a point on the zombie slices it.
\<close>

theorem gesture_thresholds_witness:
  "sameGame oneZombie (mousedown flatRaycast (2, 2) (1, 1) oneZombie) \<and>
   zombieGeometry oneZombie \<and>
   sliceStartNDC (mousedown flatRaycast (2, 2) (1, 1) oneZombie) = (0, 0) \<and>
   \<not> isSlicing oneZombie \<and>
   0.02 < distanceTo (sliceStartNDC oneZombie) (eventNDC (2, 2) (5/4, 1)) \<and>
   mouseup 2 (\<lambda>_. 1/2) flatRaycast (2, 2) (5/4, 1) oneZombie =
     oneZombie\<lparr>isSlicing := False, sliceStartValid := False, sliceEndValid := False,
        zombieToSlice := None\<rparr> \<and>
   sameGame oneZombie (mouseup 2 (\<lambda>_. 1/2) flatRaycast (2, 2) (5/4, 1) oneZombie) \<and>
   isSlicing (mousedown flatRaycast (2, 2) (1, 1) oneZombie) \<and>
   zombieToSlice (mousedown flatRaycast (2, 2) (1, 1) oneZombie) \<noteq> None \<and>
   distanceTo (sliceStartNDC (mousedown flatRaycast (2, 2) (1, 1) oneZombie))
     (eventNDC (2, 2) (101/100, 1)) \<le> 0.02 \<and>
   sameGame (mousedown flatRaycast (2, 2) (1, 1) oneZombie)
     (mouseup 2 (\<lambda>_. 1/2) flatRaycast (2, 2) (101/100, 1)
        (mousedown flatRaycast (2, 2) (1, 1) oneZombie)) \<and>
   score (mouseup 2 (\<lambda>_. 1/2) flatRaycast (2, 2) (101/100, 1)
        (mousedown flatRaycast (2, 2) (1, 1) oneZombie)) = 0 \<and>
   0.02 < distanceTo (sliceStartNDC (mousedown flatRaycast (2, 2) (1, 1) oneZombie))
     (eventNDC (2, 2) (5/4, 1)) \<and>
   score (mouseup 2 (\<lambda>_. 1/2) flatRaycast (2, 2) (5/4, 1)
        (mousedown flatRaycast (2, 2) (1, 1) oneZombie)) = 50 \<and>
   processHandData 2 (\<lambda>_. 1/2) flatRaycast (FingerTip (3/8, 1/2))
     (oneZombie\<lparr>gameOver := True, previousFingerTipNDC := Some (0, 0)\<rparr>) =
     oneZombie\<lparr>gameOver := True, previousFingerTipNDC := Some (0, 0)\<rparr> \<and>
   previousFingerTipNDC oneZombie = None \<and>
   processHandData 1 (\<lambda>_. 1/2) flatRaycast (FingerTip (1/2, 1/2)) oneZombie =
     oneZombie\<lparr>previousFingerTipNDC := Some (0, 0)\<rparr> \<and>
   processHandData 2 (\<lambda>_. 1/2) flatRaycast NoHand
     (oneZombie\<lparr>previousFingerTipNDC := Some (0, 0)\<rparr>) =
     oneZombie\<lparr>previousFingerTipNDC := None\<rparr> \<and>
   distanceTo (fingerTipNDC (99/200, 1/2)) (0, 0) \<le> 0.03 \<and>
   processHandData 2 (\<lambda>_. 1/2) flatRaycast (FingerTip (99/200, 1/2))
     (oneZombie\<lparr>previousFingerTipNDC := Some (0, 0)\<rparr>) =
     oneZombie\<lparr>previousFingerTipNDC := Some (1/100, 0)\<rparr> \<and>
   0.03 < distanceTo (fingerTipNDC (1/2, 1/2)) (3/4, 0) \<and>
   getUVCoordsFromNDC flatRaycast (3/4, 0)
     (oneZombie\<lparr>previousFingerTipNDC := Some (3/4, 0)\<rparr>) = None \<and>
   processHandData 2 (\<lambda>_. 1/2) flatRaycast (FingerTip (1/2, 1/2))
     (oneZombie\<lparr>previousFingerTipNDC := Some (3/4, 0)\<rparr>) =
     oneZombie\<lparr>previousFingerTipNDC := Some (0, 0)\<rparr> \<and>
   sameGame (oneZombie\<lparr>previousFingerTipNDC := Some (3/4, 0)\<rparr>)
     (processHandData 2 (\<lambda>_. 1/2) flatRaycast (FingerTip (1/2, 1/2))
        (oneZombie\<lparr>previousFingerTipNDC := Some (3/4, 0)\<rparr>)) \<and>
   0.03 < distanceTo (fingerTipNDC (3/8, 1/2)) (0, 0) \<and>
   getUVCoordsFromNDC flatRaycast (0, 0)
     (oneZombie\<lparr>previousFingerTipNDC := Some (0, 0)\<rparr>) = Some ((1/2, 1/2), 0) \<and>
   score (processHandData 2 (\<lambda>_. 1/2) flatRaycast (FingerTip (3/8, 1/2))
     (oneZombie\<lparr>previousFingerTipNDC := Some (0, 0)\<rparr>)) = 50"
proof -
  note gf = oneZombie_fields
  define p where "p = oneZombie\<lparr>mouseNDC := (0, 0), sliceStartNDC := (0, 0),
        sliceStartUV := (1/2, 1/2), sliceStartValid := True, sliceEndValid := False,
        zombieToSlice := Some 0, isSlicing := True\<rparr>"
  define h where "h = oneZombie\<lparr>previousFingerTipNDC := Some (0, 0)\<rparr>"
  define m where "m = oneZombie\<lparr>previousFingerTipNDC := Some (3/4, 0)\<rparr>"
  define ov where "ov = oneZombie\<lparr>gameOver := True, previousFingerTipNDC := Some (0, 0)\<rparr>"
  have pr: "mousedown flatRaycast (2, 2) (1, 1) oneZombie = p"
    unfolding oneZombie_def p_def by (rule pressed)
  have n: "fingerTipNDC (99/200, 1/2) = (1/100, 0)" "fingerTipNDC (3/8, 1/2) = (1/4, 0)"
    "eventNDC (2, 2) (5/4, 1) = (1/4, 0)" "eventNDC (2, 2) (101/100, 1) = (1/100, 0)"
    "fingerTipNDC (1/2, 1/2) = (0, 0)" "eventNDC (2, 2) (1, 1) = (0, 0)"
    by (simp_all add: fingerTipNDC_def eventNDC_def)
  have d: "distanceTo (0, 0) (1/100, 0) = 1/100" "distanceTo (0, 0) (1/4, 0) = 1/4"
    "distanceTo (1/100, 0) (0, 0) = 1/100" "distanceTo (1/4, 0) (0, 0) = 1/4"
    "distanceTo (1/2, 1/2) (3/4, 1/2) = 1/4" "distanceTo (0, 0) (3/4, 0) = 3/4"
    by (simp_all add: distanceTo_horizontal)
  have pf: "isSlicing p" "zombieToSlice p = Some 0" "sliceStartNDC p = (0, 0)" "score p = 0"
    by (simp_all add: p_def gf)
  have hf: "\<not> gameOver h" "previousFingerTipNDC h = Some (0, 0)" "score h = 0"
    "cameraAspect h = 1" "\<not> zIsSliced (zombies h 0)" "lastZombieKillTime h = 0"
    by (simp_all add: h_def gf)
  have mf: "\<not> gameOver m" "previousFingerTipNDC m = Some (3/4, 0)"
    by (simp_all add: m_def gf)
  note T = gesture_thresholds[where rnd = "\<lambda>_. 1/2" and rc = flatRaycast
      and win = "(2, 2)"]
  note T5 = T[THEN conjunct2, THEN conjunct2, THEN conjunct2, THEN conjunct2]
  note T9 = T5[THEN conjunct2, THEN conjunct2, THEN conjunct2, THEN conjunct2]
  note press = T[THEN conjunct1]
  note pressPoint = T[THEN conjunct2, THEN conjunct1, rule_format]
  note idle = T[THEN conjunct2, THEN conjunct2, THEN conjunct1, rule_format]
  note noSlice = T5[THEN conjunct1, rule_format]
  note long = T5[THEN conjunct2, THEN conjunct1, rule_format]
  note over = T5[THEN conjunct2, THEN conjunct2, THEN conjunct1, rule_format]
  note lost = T5[THEN conjunct2, THEN conjunct2, THEN conjunct2, THEN conjunct1, rule_format]
  note ignored = T9[THEN conjunct1, rule_format]
  note unchanged = T9[THEN conjunct2, THEN conjunct1, rule_format]
  note sliced = T9[THEN conjunct2, THEN conjunct2, rule_format]
  \<comment> \<open>the press\<close>
  have w1: "sameGame oneZombie (mousedown flatRaycast (2, 2) (1, 1) oneZombie)"
    by (rule press)
  have w2: "sliceStartNDC (mousedown flatRaycast (2, 2) (1, 1) oneZombie) = (0, 0)"
    using pressPoint[where st = oneZombie and ?ev0.0 = "(1, 1)"] gf(12) by (simp add: n)
  \<comment> \<open>a release without a press on a zombie\<close>
  have d3: "0.02 < distanceTo (sliceStartNDC oneZombie) (eventNDC (2, 2) (5/4, 1))"
    unfolding oneZombie_def spawned_one
    by (simp add: zombieFramesReady_def initialGame_def n d)
  have w3: "mouseup 2 (\<lambda>_. 1/2) flatRaycast (2, 2) (5/4, 1) oneZombie =
     oneZombie\<lparr>isSlicing := False, sliceStartValid := False, sliceEndValid := False,
        zombieToSlice := None\<rparr>"
    by (rule idle) (simp add: gf)
  have w3': "sameGame oneZombie (mouseup 2 (\<lambda>_. 1/2) flatRaycast (2, 2) (5/4, 1) oneZombie)"
    by (rule noSlice) (simp add: gf)
  \<comment> \<open>a short drag\<close>
  have d4: "distanceTo (sliceStartNDC p) (eventNDC (2, 2) (101/100, 1)) \<le> 0.02"
    by (simp add: pf n d)
  have w4: "sameGame p (mouseup 2 (\<lambda>_. 1/2) flatRaycast (2, 2) (101/100, 1) p)"
    by (rule noSlice) (use d4 in simp)
  then have w4': "score (mouseup 2 (\<lambda>_. 1/2) flatRaycast (2, 2) (101/100, 1) p) = 0"
    by (simp add: sameGame_def pf)
  \<comment> \<open>a long drag\<close>
  have d5: "0.02 < distanceTo (sliceStartNDC p) (eventNDC (2, 2) (5/4, 1))"
    by (simp add: pf n d)
  define q where "q = p\<lparr>mouseNDC := (1/4, 0), sliceEndNDC := (1/4, 0), sliceEndUV := (3/4, 1/2),
               sliceEndValid := True\<rparr>"
  have rel: "released flatRaycast (2, 2) (5/4, 1) p = q"
    by (simp add: released_def Let_def n getUVCoordsFromNDC_def flatRaycast_def p_def gf q_def)
  have qf: "sliceStartValid q" "sliceEndValid q" "sliceStartUV q = (1/2, 1/2)"
    "sliceEndUV q = (3/4, 1/2)" "\<not> zIsSliced (zombies q 0)" "lastZombieKillTime q = 0"
    "score q = 0"
    by (simp_all add: q_def p_def gf)
  have cut: "mouseCut q = Some ((1/2, 1/2), (3/4, 1/2))"
    by (simp add: mouseCut_def Let_def qf d clampScalar_def)
  have run: "calculateAndPerformSlice 2 (\<lambda>_. 1/2) (Some 0) q =
             sliceBody 2 (\<lambda>_. 1/2) 0 (1/2, 1/2) (3/4, 1/2) q"
    by (simp add: calculateAndPerformSlice_def cut performSlice_def qf ZOMBIE_KILL_COOLDOWN_def)
  have "mouseup 2 (\<lambda>_. 1/2) flatRaycast (2, 2) (5/4, 1) p =
        (calculateAndPerformSlice 2 (\<lambda>_. 1/2) (zombieToSlice p)
           (released flatRaycast (2, 2) (5/4, 1) p))
          \<lparr>isSlicing := False, sliceStartValid := False, sliceEndValid := False,
           zombieToSlice := None\<rparr>"
    using long[where st = p and ev = "(5/4, 1)" and now = 2] pf(1,2) d5 by simp
  then have w5: "score (mouseup 2 (\<lambda>_. 1/2) flatRaycast (2, 2) (5/4, 1) p) = 50"
    by (simp add: pf rel run sliceBody_fields qf)
  \<comment> \<open>the hand when the game is over, and a frame without a hand\<close>
  have w6: "processHandData 2 (\<lambda>_. 1/2) flatRaycast (FingerTip (3/8, 1/2)) ov = ov"
    by (rule over) (simp add: ov_def)
  have w7: "processHandData 1 (\<lambda>_. 1/2) flatRaycast (FingerTip (1/2, 1/2)) oneZombie = h"
    using ignored[where st = oneZombie and raw = "(1/2, 1/2)" and now = 1] gf(7,11)
    by (simp add: n h_def)
  have w8: "processHandData 2 (\<lambda>_. 1/2) flatRaycast NoHand h =
            oneZombie\<lparr>previousFingerTipNDC := None\<rparr>"
    using lost[where st = h and results = NoHand and now = 2] hf(1) by (simp add: h_def)
  \<comment> \<open>a short motion of the finger tip\<close>
  have d9: "distanceTo (fingerTipNDC (99/200, 1/2)) (0, 0) \<le> 0.03" by (simp add: n d)
  have w9: "processHandData 2 (\<lambda>_. 1/2) flatRaycast (FingerTip (99/200, 1/2)) h =
            oneZombie\<lparr>previousFingerTipNDC := Some (1/100, 0)\<rparr>"
    using ignored[where st = h and raw = "(99/200, 1/2)" and now = 2] hf(1,2) d9
    by (simp add: n) (simp add: h_def)
  \<comment> \<open>a long motion that starts off the zombie\<close>
  have d10: "0.03 < distanceTo (fingerTipNDC (1/2, 1/2)) (3/4, 0)" by (simp add: n d)
  have miss: "getUVCoordsFromNDC flatRaycast (3/4, 0) m = None"
    by (simp add: getUVCoordsFromNDC_def Let_def flatRaycast_def m_def gf)
  have w10: "processHandData 2 (\<lambda>_. 1/2) flatRaycast (FingerTip (1/2, 1/2)) m =
            oneZombie\<lparr>previousFingerTipNDC := Some (0, 0)\<rparr>"
    using ignored[where st = m and raw = "(1/2, 1/2)" and now = 2] mf miss
    by (simp add: n) (simp add: m_def)
  have w10': "sameGame m (processHandData 2 (\<lambda>_. 1/2) flatRaycast (FingerTip (1/2, 1/2)) m)"
    by (rule unchanged[where st = m and results = "FingerTip (1/2, 1/2)"]) (simp add: mf miss)
  \<comment> \<open>a long motion that starts on the zombie\<close>
  have d11: "0.03 < distanceTo (fingerTipNDC (3/8, 1/2)) (0, 0)" by (simp add: n d)
  have hit: "getUVCoordsFromNDC flatRaycast (0, 0) h = Some ((1/2, 1/2), 0)"
    "getUVCoordsFromNDC flatRaycast (1/4, 0) h = Some ((3/4, 1/2), 0)"
    by (simp_all add: getUVCoordsFromNDC_def Let_def flatRaycast_def h_def gf)
  have hcut: "handCut 1 (1/2, 1/2) (0, 0) (1/4, 0) (Some (3/4, 1/2)) =
              Some ((1/2, 1/2), (3/4, 1/2))"
    by (simp add: handCut_def Let_def subVectors_def vnormalize_x0 lengthSq_def d clampScalar_def)
  have hrun: "calculateAndPerformSliceHand 2 (\<lambda>_. 1/2) (Some 0) (1/2, 1/2) (0, 0) (1/4, 0)
                (Some (3/4, 1/2)) h = sliceBody 2 (\<lambda>_. 1/2) 0 (1/2, 1/2) (3/4, 1/2) h"
    by (simp add: calculateAndPerformSliceHand_def hf hcut performSlice_def
        ZOMBIE_KILL_COOLDOWN_def)
  have w11: "score (processHandData 2 (\<lambda>_. 1/2) flatRaycast (FingerTip (3/8, 1/2)) h) = 50"
    using sliced[where st = h and raw = "(3/8, 1/2)" and prev = "(0, 0)" and uv = "(1/2, 1/2)"
        and z = 0 and now = 2] hf(1,2) d11 hit(1)
    by (simp add: n hit hrun sliceBody_fields hf)
  show ?thesis
    using w1 gf(12) w2 gf(9) d3 w3 w3' pf(1) w4 w4' d4 d5 w5 w6 gf(11) w7 w8 d9 w9 d10 miss w10
      w10' d11 hit(1) w11
    unfolding pr
    by (simp add: pf h_def m_def ov_def)
qed

section \<open>A second slice of the same zombie through the input handlers\<close>

text \<open>
  The part of C9 that holds: a hit test returns only members of \<^verbatim>\<open>activeZombies\<close>
  (for a raycaster that returns only objects it was given), and a slice removes its
  target from \<^verbatim>\<open>activeZombies\<close> (where no zombie is listed twice).
\<close>

lemma hitTest_active:
  assumes "\<And>zs ndc objs. snd ` set (rc zs ndc objs) \<subseteq> set objs"
  shows "getUVCoordsFromNDC rc ndc st = Some (uv, z) \<Longrightarrow> z \<in> set (activeZombies st)"
    and "fst (getUVCoords rc win ev st) = Some (uv, z) \<Longrightarrow> z \<in> set (activeZombies st)"
proof -
  have mem: "z \<in> set objs" if "rc zs q objs = (uv, z) # rest" for zs q objs rest
  proof -
    have "(uv, z) \<in> set (rc zs q objs)" using that by simp
    then have "snd (uv, z) \<in> snd ` set (rc zs q objs)" by (rule imageI)
    then have "snd (uv, z) \<in> set objs" using assms[of zs q objs] by (rule subsetD[rotated])
    then show ?thesis by simp
  qed
  show "getUVCoordsFromNDC rc ndc st = Some (uv, z) \<Longrightarrow> z \<in> set (activeZombies st)"
    by (auto simp: getUVCoordsFromNDC_def Let_def split: if_splits list.splits dest!: mem)
  show "fst (getUVCoords rc win ev st) = Some (uv, z) \<Longrightarrow> z \<in> set (activeZombies st)"
    by (auto simp: getUVCoords_def Let_def split: if_splits list.splits dest!: mem)
qed

lemma sliced_not_active:
  "distinct (activeZombies st) \<Longrightarrow> r \<notin> set (activeZombies (sliceBody now rnd r s e st))"
  by (simp add: sliceBody_fields)

text \<open>
  C9 concludes that a second slice of the same object cannot be initiated through the
  input handlers. It can. The mouse handlers keep the reference of the zombie hit by the
  press in \<^verbatim>\<open>zombieToSlice\<close> until the release. In between, a hand gesture slices that
  zombie: it leaves \<^verbatim>\<open>activeZombies\<close>, the score is 50, two pieces exist, and no hit
  test finds it any more. The release, a second later, misses every zombie, so the line
  is extended from the press point to the boundary and \<^verbatim>\<open>performSlice\<close> is called
  with the kept reference. Its \<^verbatim>\<open>userData.isSliced\<close> is still false (nothing sets
  it), the cooldown is over, and the zombie is sliced again: the score is 100 and four
  pieces exist.
\<close>

theorem second_slice_through_handlers:
  "activeZombies
     (processHandData 1 (\<lambda>_. 1/2) flatRaycast (FingerTip (3/8, 1/2))
       (processHandData 1 (\<lambda>_. 1/2) flatRaycast (FingerTip (5/8, 1/2))
         (mousedown flatRaycast (2, 2) (1, 1)
           (spawnZombie (\<lambda>_. 1/2) (zombieFramesReady (initialGame 1)))))) = [] \<and>
   score
     (processHandData 1 (\<lambda>_. 1/2) flatRaycast (FingerTip (3/8, 1/2))
       (processHandData 1 (\<lambda>_. 1/2) flatRaycast (FingerTip (5/8, 1/2))
         (mousedown flatRaycast (2, 2) (1, 1)
           (spawnZombie (\<lambda>_. 1/2) (zombieFramesReady (initialGame 1)))))) = 50 \<and>
   length (slicedPieces
     (processHandData 1 (\<lambda>_. 1/2) flatRaycast (FingerTip (3/8, 1/2))
       (processHandData 1 (\<lambda>_. 1/2) flatRaycast (FingerTip (5/8, 1/2))
         (mousedown flatRaycast (2, 2) (1, 1)
           (spawnZombie (\<lambda>_. 1/2) (zombieFramesReady (initialGame 1))))))) = 2 \<and>
   getUVCoordsFromNDC flatRaycast (0, 0)
     (processHandData 1 (\<lambda>_. 1/2) flatRaycast (FingerTip (3/8, 1/2))
       (processHandData 1 (\<lambda>_. 1/2) flatRaycast (FingerTip (5/8, 1/2))
         (mousedown flatRaycast (2, 2) (1, 1)
           (spawnZombie (\<lambda>_. 1/2) (zombieFramesReady (initialGame 1)))))) = None \<and>
   zombieToSlice
     (processHandData 1 (\<lambda>_. 1/2) flatRaycast (FingerTip (3/8, 1/2))
       (processHandData 1 (\<lambda>_. 1/2) flatRaycast (FingerTip (5/8, 1/2))
         (mousedown flatRaycast (2, 2) (1, 1)
           (spawnZombie (\<lambda>_. 1/2) (zombieFramesReady (initialGame 1)))))) = Some 0 \<and>
   score
     (mouseup 2 (\<lambda>_. 1/2) flatRaycast (2, 2) (5/4, 1)
       (processHandData 1 (\<lambda>_. 1/2) flatRaycast (FingerTip (3/8, 1/2))
         (processHandData 1 (\<lambda>_. 1/2) flatRaycast (FingerTip (5/8, 1/2))
           (mousedown flatRaycast (2, 2) (1, 1)
             (spawnZombie (\<lambda>_. 1/2) (zombieFramesReady (initialGame 1))))))) = 100 \<and>
   length (slicedPieces
     (mouseup 2 (\<lambda>_. 1/2) flatRaycast (2, 2) (5/4, 1)
       (processHandData 1 (\<lambda>_. 1/2) flatRaycast (FingerTip (3/8, 1/2))
         (processHandData 1 (\<lambda>_. 1/2) flatRaycast (FingerTip (5/8, 1/2))
           (mousedown flatRaycast (2, 2) (1, 1)
             (spawnZombie (\<lambda>_. 1/2) (zombieFramesReady (initialGame 1)))))))) = 4"
proof -
  define g where "g = spawnZombie (\<lambda>_. 1/2) (zombieFramesReady (initialGame 1))"
  define p where "p = g\<lparr>mouseNDC := (0, 0), sliceStartNDC := (0, 0), sliceStartUV := (1/2, 1/2),
        sliceStartValid := True, sliceEndValid := False, zombieToSlice := Some 0,
        isSlicing := True\<rparr>"
  define h1 where "h1 = p\<lparr>previousFingerTipNDC := Some (- (1/4), 0)\<rparr>"
  define b where "b = sliceBody 1 (\<lambda>_. 1/2) 0 (1/4, 1/2) (3/4, 1/2) h1"
  define h2 where "h2 = b\<lparr>previousFingerTipNDC := Some (1/4, 0)\<rparr>"
  define r where "r = h2\<lparr>mouseNDC := (1/4, 0), sliceEndNDC := (1/4, 0), sliceEndValid := False\<rparr>"
  have pr: "mousedown flatRaycast (2, 2) (1, 1) g = p"
    unfolding g_def p_def by (rule pressed)
  have gf: "\<not> gameOver g" "activeZombies g = [0]" "\<not> zIsSliced (zombies g 0)"
    "lastZombieKillTime g = 0" "cameraAspect g = 1" "score g = 0" "slicedPieces g = []"
    "previousFingerTipNDC g = None"
    unfolding g_def spawned_one by (simp_all add: zombieFramesReady_def initialGame_def)
  have n: "fingerTipNDC (5/8, 1/2) = (- (1/4), 0)" "fingerTipNDC (3/8, 1/2) = (1/4, 0)"
    "eventNDC (2, 2) (5/4, 1) = (1/4, 0)"
    by (simp_all add: fingerTipNDC_def eventNDC_def)
  have s1: "processHandData 1 (\<lambda>_. 1/2) flatRaycast (FingerTip (5/8, 1/2)) p = h1"
    by (simp add: processHandData_def Let_def n p_def h1_def gf)
  have d: "distanceTo (1/4, 0) (- (1/4), 0) = 1/2" "distanceTo (1/4, 1/2) (3/4, 1/2) = 1/2"
    "distanceTo (0, 0) (1/4, 0) = 1/4" "distanceTo (1/2, 1/2) (1, 1/2) = 1/2"
    by (simp_all add: distanceTo_horizontal)
  have hit1: "getUVCoordsFromNDC flatRaycast (- (1/4), 0) h1 = Some ((1/4, 1/2), 0)"
    "getUVCoordsFromNDC flatRaycast (1/4, 0) h1 = Some ((3/4, 1/2), 0)"
    by (simp_all add: getUVCoordsFromNDC_def Let_def flatRaycast_def h1_def p_def gf)
  have cut1: "handCut 1 (1/4, 1/2) (- (1/4), 0) (1/4, 0) (Some (3/4, 1/2)) =
              Some ((1/4, 1/2), (3/4, 1/2))"
    by (simp add: handCut_def Let_def subVectors_def vnormalize_x0 lengthSq_def d clampScalar_def)
  have h1f: "\<not> gameOver h1" "previousFingerTipNDC h1 = Some (- (1/4), 0)"
    "\<not> zIsSliced (zombies h1 0)" "lastZombieKillTime h1 = 0" "cameraAspect h1 = 1"
    "activeZombies h1 = [0]" "score h1 = 0" "slicedPieces h1 = []"
    "isSlicing h1" "zombieToSlice h1 = Some 0" "sliceStartNDC h1 = (0, 0)"
    "sliceStartUV h1 = (1/2, 1/2)" "sliceStartValid h1"
    by (simp_all add: h1_def p_def gf)
  have run1: "calculateAndPerformSliceHand 1 (\<lambda>_. 1/2) (Some 0) (1/4, 1/2) (- (1/4), 0) (1/4, 0)
                (Some (3/4, 1/2)) h1 = b"
    by (simp add: calculateAndPerformSliceHand_def h1f cut1 performSlice_def
        ZOMBIE_KILL_COOLDOWN_def b_def)
  have s2: "processHandData 1 (\<lambda>_. 1/2) flatRaycast (FingerTip (3/8, 1/2)) h1 = h2"
    by (simp add: processHandData_def Let_def n h1f d SLICE_GESTURE_THRESHOLD_def hit1 run1
        h2_def)
  have h2f: "activeZombies h2 = []" "score h2 = 50" "length (slicedPieces h2) = 2"
    "zombieToSlice h2 = Some 0" "isSlicing h2" "sliceStartNDC h2 = (0, 0)"
    "sliceStartUV h2 = (1/2, 1/2)" "sliceStartValid h2" "cameraAspect h2 = 1"
    "\<not> zIsSliced (zombies h2 0)" "lastZombieKillTime h2 = 1"
    by (simp_all add: h2_def b_def sliceBody_fields sliceBody_input_fields h1f)
  have nohit: "getUVCoordsFromNDC flatRaycast q h2 = None" for q
    by (simp add: getUVCoordsFromNDC_def h2f)
  have rf: "sliceStartValid r" "\<not> sliceEndValid r" "sliceStartUV r = (1/2, 1/2)"
    "sliceStartNDC r = (0, 0)" "sliceEndNDC r = (1/4, 0)" "cameraAspect r = 1"
    "\<not> zIsSliced (zombies r 0)" "lastZombieKillTime r = 1" "score r = 50"
    "length (slicedPieces r) = 2"
    by (simp_all add: r_def h2f)
  have dir: "directionUVApprox 1 (0, 0) (1/4, 0) = (1, 0)"
    by (simp add: directionUVApprox_horizontal)
  have ext: "intersectUVSquare (1/2, 1/2) (1, 0) = Some (1, 1/2)"
    by (simp add: intersectUVSquare_def Let_def slab_def xmax_def xmin_def addVectors_def
        multiplyScalar_def)
  have cut2: "mouseCut r = Some ((1/2, 1/2), (1, 1/2))"
    by (simp add: mouseCut_def Let_def rf dir ext d clampScalar_def)
  have run2: "calculateAndPerformSlice 2 (\<lambda>_. 1/2) (Some 0) r =
              sliceBody 2 (\<lambda>_. 1/2) 0 (1/2, 1/2) (1, 1/2) r"
    by (simp add: calculateAndPerformSlice_def cut2 performSlice_def rf ZOMBIE_KILL_COOLDOWN_def)
  have rel: "released flatRaycast (2, 2) (5/4, 1) h2 = r"
    by (simp add: released_def Let_def n nohit r_def)
  have up: "mouseup 2 (\<lambda>_. 1/2) flatRaycast (2, 2) (5/4, 1) h2 =
            (sliceBody 2 (\<lambda>_. 1/2) 0 (1/2, 1/2) (1, 1/2) r)
              \<lparr>isSlicing := False, sliceStartValid := False, sliceEndValid := False,
               zombieToSlice := None\<rparr>"
    using mouseup_long[where st = h2 and win = "(2, 2)" and ev = "(5/4, 1)" and now = 2
        and rnd = "\<lambda>_. 1/2" and rc = flatRaycast]
    by (simp add: h2f n d rel run2)
  show ?thesis
    unfolding g_def[symmetric] pr s1 s2 up
    by (simp add: h2f nohit sliceBody_fields rf)
qed

end
